theory Spec2Isabelle
  imports Main "HOL-Library.Word"
begin

unbundle bit_operations_syntax

section \<open>The adv7604 video receiver driver (drivers/media/i2c/adv7604.c)\<close>

text \<open>
  The driver talks to the chip over an I2C bus. Every C function that touches the bus is
  modelled as a function that takes the environment (\<open>world\<close>) and returns its result
  together with the new environment. C \<open>int\<close> results are \<open>int\<close>: 0 for success, a
  negated errno for failure, as in the source. Register bytes are \<open>8 word\<close>.
\<close>

type_synonym u8 = "8 word"

subsection \<open>Error numbers and bus constants\<close>

text \<open>
  The errno values and \<open>I2C_SMBUS_BLOCK_MAX\<close> come from kernel headers that the driver
  includes (asm-generic/errno-base.h, asm-generic/errno.h, linux/i2c.h).
\<close>

definition EIO :: int where "EIO = 5"
definition E2BIG :: int where "E2BIG = 7"
definition EINVAL :: int where "EINVAL = 22"
definition ERANGE :: int where "ERANGE = 34"
definition ENOLINK :: int where "ENOLINK = 67"

definition I2C_SMBUS_BLOCK_MAX :: nat where "I2C_SMBUS_BLOCK_MAX = 32"

subsection \<open>The bus\<close>

text \<open>
  One I2C client per register page: the main client (IO map) and the twelve
  \<open>state->i2c_*\<close> dummy clients.
\<close>

datatype i2c_client =
  I2C_IO | I2C_AVLINK | I2C_CEC | I2C_INFOFRAME | I2C_ESDP | I2C_DPP | I2C_AFE
| I2C_REPEATER | I2C_EDID | I2C_HDMI | I2C_TEST | I2C_CP | I2C_VDP

text \<open>The three kinds of \<open>i2c_smbus_xfer\<close> call the driver makes.\<close>

datatype smbus_xfer =
  SMBUS_READ_BYTE i2c_client u8
| SMBUS_WRITE_BYTE i2c_client u8 u8
| SMBUS_WRITE_BLOCK i2c_client u8 "u8 list"

datatype notification = ADV7604_HOTPLUG bool | ADV7604_FMT_CHANGE

text \<open>
  The environment. \<open>replies\<close> is what the adapter and the chip will answer to the coming
  transfers, one entry per \<open>i2c_smbus_xfer\<close> call, in order: the status (0 is success)
  and, for a read, the byte. When the list is used up every transfer succeeds and reads 0.
  \<open>xfers\<close> is the log of the transfers attempted so far, oldest first. \<open>notified\<close> logs
  \<open>v4l2_subdev_notify\<close>, \<open>delayed_ms\<close> sums the \<open>mdelay\<close> calls, and \<open>queued\<close> logs
  the calls of \<open>queue_delayed_work\<close> for \<open>delayed_work_enable_hotplug\<close>, each with
  its delay in jiffies.
\<close>

record world =
  replies :: "(int \<times> u8) list"
  xfers :: "smbus_xfer list"
  notified :: "notification list"
  delayed_ms :: nat
  queued :: "nat list"

definition i2c_smbus_xfer :: "world \<Rightarrow> smbus_xfer \<Rightarrow> (int \<times> u8) \<times> world" where
  "i2c_smbus_xfer w x =
     (case replies w of
        [] \<Rightarrow> ((0, 0), w\<lparr>xfers := xfers w @ [x]\<rparr>)
      | r # rs \<Rightarrow> (r, w\<lparr>replies := rs, xfers := xfers w @ [x]\<rparr>))"

definition v4l2_subdev_notify :: "world \<Rightarrow> notification \<Rightarrow> world" where
  "v4l2_subdev_notify w n = w\<lparr>notified := notified w @ [n]\<rparr>"

definition mdelay :: "world \<Rightarrow> nat \<Rightarrow> world" where
  "mdelay w ms = w\<lparr>delayed_ms := delayed_ms w + ms\<rparr>"

definition queue_delayed_work :: "world \<Rightarrow> nat \<Rightarrow> world" where
  "queue_delayed_work w delay = w\<lparr>queued := queued w @ [delay]\<rparr>"

subsection \<open>Register access layer\<close>

definition adv_smbus_read_byte_data_check ::
  "world \<Rightarrow> i2c_client \<Rightarrow> u8 \<Rightarrow> bool \<Rightarrow> int \<times> world" where
  "adv_smbus_read_byte_data_check w client command check =
     (case i2c_smbus_xfer w (SMBUS_READ_BYTE client command) of
        ((err, byte), w') \<Rightarrow> if err = 0 then (uint byte, w') else (- EIO, w'))"

definition adv_smbus_read_byte_data :: "world \<Rightarrow> i2c_client \<Rightarrow> u8 \<Rightarrow> int \<times> world" where
  "adv_smbus_read_byte_data w client command =
     adv_smbus_read_byte_data_check w client command True"

text \<open>
  The loop of \<open>adv_smbus_write_byte_data\<close>: \<open>for (i = 0; i < 3; i++)\<close> with a
  \<open>break\<close> on the first transfer whose status is 0. \<open>err\<close> is the status of the last
  transfer made.
\<close>

function adv_smbus_write_byte_data_loop ::
  "world \<Rightarrow> i2c_client \<Rightarrow> u8 \<Rightarrow> u8 \<Rightarrow> nat \<Rightarrow> int \<Rightarrow> int \<times> world" where
  "adv_smbus_write_byte_data_loop w client command val i err =
     (if i < 3 then
        (case i2c_smbus_xfer w (SMBUS_WRITE_BYTE client command val) of
           ((err', byte), w') \<Rightarrow>
             if err' = 0 then (err', w')
             else adv_smbus_write_byte_data_loop w' client command val (i + 1) err')
      else (err, w))"
  by pat_completeness auto
termination
  by (relation "measure (\<lambda>(w, client, command, val, i, err). 3 - i)") auto

declare adv_smbus_write_byte_data_loop.simps [simp del]

definition adv_smbus_write_byte_data ::
  "world \<Rightarrow> i2c_client \<Rightarrow> u8 \<Rightarrow> u8 \<Rightarrow> int \<times> world" where
  "adv_smbus_write_byte_data w client command val =
     adv_smbus_write_byte_data_loop w client command val 0 0"

text \<open>
  \<open>adv_smbus_write_i2c_block_data\<close>: the length is clamped to \<open>I2C_SMBUS_BLOCK_MAX\<close>,
  that many bytes of \<open>values\<close> are copied, and one transfer is made.
\<close>

definition adv_smbus_write_i2c_block_data ::
  "world \<Rightarrow> i2c_client \<Rightarrow> u8 \<Rightarrow> nat \<Rightarrow> u8 list \<Rightarrow> int \<times> world" where
  "adv_smbus_write_i2c_block_data w client command len values =
     (let length' = (if len > I2C_SMBUS_BLOCK_MAX then I2C_SMBUS_BLOCK_MAX else len) in
      case i2c_smbus_xfer w (SMBUS_WRITE_BLOCK client command (take length' values)) of
        ((err, byte), w') \<Rightarrow> (err, w'))"

subsection \<open>Per-page accessors\<close>

text \<open>
  \<open>(x_read(sd, reg) & mask) | val\<close> is computed on \<open>int\<close> (the read may have
  returned \<open>-EIO\<close>) and truncated to a byte when it is passed on as \<open>u8 val\<close>.
\<close>

definition and_or :: "int \<Rightarrow> u8 \<Rightarrow> u8 \<Rightarrow> u8" where
  "and_or r msk val = word_of_int ((r AND uint msk) OR uint val)"

definition io_read :: "world \<Rightarrow> u8 \<Rightarrow> int \<times> world" where
  "io_read w reg = adv_smbus_read_byte_data w I2C_IO reg"

definition io_write :: "world \<Rightarrow> u8 \<Rightarrow> u8 \<Rightarrow> int \<times> world" where
  "io_write w reg val = adv_smbus_write_byte_data w I2C_IO reg val"

definition io_write_and_or :: "world \<Rightarrow> u8 \<Rightarrow> u8 \<Rightarrow> u8 \<Rightarrow> int \<times> world" where
  "io_write_and_or w reg msk val =
     (case io_read w reg of (r, w') \<Rightarrow> io_write w' reg (and_or r msk val))"

definition avlink_read :: "world \<Rightarrow> u8 \<Rightarrow> int \<times> world" where
  "avlink_read w reg = adv_smbus_read_byte_data w I2C_AVLINK reg"

definition avlink_write :: "world \<Rightarrow> u8 \<Rightarrow> u8 \<Rightarrow> int \<times> world" where
  "avlink_write w reg val = adv_smbus_write_byte_data w I2C_AVLINK reg val"

definition cec_read :: "world \<Rightarrow> u8 \<Rightarrow> int \<times> world" where
  "cec_read w reg = adv_smbus_read_byte_data w I2C_CEC reg"

definition cec_write :: "world \<Rightarrow> u8 \<Rightarrow> u8 \<Rightarrow> int \<times> world" where
  "cec_write w reg val = adv_smbus_write_byte_data w I2C_CEC reg val"

definition infoframe_read :: "world \<Rightarrow> u8 \<Rightarrow> int \<times> world" where
  "infoframe_read w reg = adv_smbus_read_byte_data w I2C_INFOFRAME reg"

definition infoframe_write :: "world \<Rightarrow> u8 \<Rightarrow> u8 \<Rightarrow> int \<times> world" where
  "infoframe_write w reg val = adv_smbus_write_byte_data w I2C_INFOFRAME reg val"

definition esdp_read :: "world \<Rightarrow> u8 \<Rightarrow> int \<times> world" where
  "esdp_read w reg = adv_smbus_read_byte_data w I2C_ESDP reg"

definition esdp_write :: "world \<Rightarrow> u8 \<Rightarrow> u8 \<Rightarrow> int \<times> world" where
  "esdp_write w reg val = adv_smbus_write_byte_data w I2C_ESDP reg val"

definition dpp_read :: "world \<Rightarrow> u8 \<Rightarrow> int \<times> world" where
  "dpp_read w reg = adv_smbus_read_byte_data w I2C_DPP reg"

definition dpp_write :: "world \<Rightarrow> u8 \<Rightarrow> u8 \<Rightarrow> int \<times> world" where
  "dpp_write w reg val = adv_smbus_write_byte_data w I2C_DPP reg val"

definition afe_read :: "world \<Rightarrow> u8 \<Rightarrow> int \<times> world" where
  "afe_read w reg = adv_smbus_read_byte_data w I2C_AFE reg"

definition afe_write :: "world \<Rightarrow> u8 \<Rightarrow> u8 \<Rightarrow> int \<times> world" where
  "afe_write w reg val = adv_smbus_write_byte_data w I2C_AFE reg val"

definition rep_read :: "world \<Rightarrow> u8 \<Rightarrow> int \<times> world" where
  "rep_read w reg = adv_smbus_read_byte_data w I2C_REPEATER reg"

definition rep_write :: "world \<Rightarrow> u8 \<Rightarrow> u8 \<Rightarrow> int \<times> world" where
  "rep_write w reg val = adv_smbus_write_byte_data w I2C_REPEATER reg val"

definition rep_write_and_or :: "world \<Rightarrow> u8 \<Rightarrow> u8 \<Rightarrow> u8 \<Rightarrow> int \<times> world" where
  "rep_write_and_or w reg msk val =
     (case rep_read w reg of (r, w') \<Rightarrow> rep_write w' reg (and_or r msk val))"

definition edid_read :: "world \<Rightarrow> u8 \<Rightarrow> int \<times> world" where
  "edid_read w reg = adv_smbus_read_byte_data w I2C_EDID reg"

definition edid_write :: "world \<Rightarrow> u8 \<Rightarrow> u8 \<Rightarrow> int \<times> world" where
  "edid_write w reg val = adv_smbus_write_byte_data w I2C_EDID reg val"

definition hdmi_read :: "world \<Rightarrow> u8 \<Rightarrow> int \<times> world" where
  "hdmi_read w reg = adv_smbus_read_byte_data w I2C_HDMI reg"

definition hdmi_write :: "world \<Rightarrow> u8 \<Rightarrow> u8 \<Rightarrow> int \<times> world" where
  "hdmi_write w reg val = adv_smbus_write_byte_data w I2C_HDMI reg val"

definition test_read :: "world \<Rightarrow> u8 \<Rightarrow> int \<times> world" where
  "test_read w reg = adv_smbus_read_byte_data w I2C_TEST reg"

definition test_write :: "world \<Rightarrow> u8 \<Rightarrow> u8 \<Rightarrow> int \<times> world" where
  "test_write w reg val = adv_smbus_write_byte_data w I2C_TEST reg val"

definition cp_read :: "world \<Rightarrow> u8 \<Rightarrow> int \<times> world" where
  "cp_read w reg = adv_smbus_read_byte_data w I2C_CP reg"

definition cp_write :: "world \<Rightarrow> u8 \<Rightarrow> u8 \<Rightarrow> int \<times> world" where
  "cp_write w reg val = adv_smbus_write_byte_data w I2C_CP reg val"

definition cp_write_and_or :: "world \<Rightarrow> u8 \<Rightarrow> u8 \<Rightarrow> u8 \<Rightarrow> int \<times> world" where
  "cp_write_and_or w reg msk val =
     (case cp_read w reg of (r, w') \<Rightarrow> cp_write w' reg (and_or r msk val))"

definition vdp_read :: "world \<Rightarrow> u8 \<Rightarrow> int \<times> world" where
  "vdp_read w reg = adv_smbus_read_byte_data w I2C_VDP reg"

definition vdp_write :: "world \<Rightarrow> u8 \<Rightarrow> u8 \<Rightarrow> int \<times> world" where
  "vdp_write w reg val = adv_smbus_write_byte_data w I2C_VDP reg val"

text \<open>
  \<open>hdmi_read16\<close> and \<open>cp_read16\<close>: \<open>((read(reg) << 8) | read(reg + 1)) & mask\<close>,
  returned as \<open>u16\<close>. The high byte is read first.
\<close>

definition hdmi_read16 :: "world \<Rightarrow> u8 \<Rightarrow> nat \<Rightarrow> nat \<times> world" where
  "hdmi_read16 w reg msk =
     (case hdmi_read w reg of (hi, w1) \<Rightarrow>
      case hdmi_read w1 (reg + 1) of (lo, w2) \<Rightarrow>
        (nat ((((hi * 256) OR lo) AND int msk) mod 65536), w2))"

definition cp_read16 :: "world \<Rightarrow> u8 \<Rightarrow> nat \<Rightarrow> nat \<times> world" where
  "cp_read16 w reg msk =
     (case cp_read w reg of (hi, w1) \<Rightarrow>
      case cp_read w1 (reg + 1) of (lo, w2) \<Rightarrow>
        (nat ((((hi * 256) OR lo) AND int msk) mod 65536), w2))"

subsection \<open>Timings, chip profiles and driver state\<close>

text \<open>
  \<open>struct v4l2_bt_timings\<close> and \<open>struct v4l2_dv_timings\<close> (linux/videodev2.h): all
  fields are \<open>__u32\<close> except the \<open>__u64 pixelclock\<close>. They are \<open>nat\<close> here, and the
  32-bit wrap-around is written out where the driver computes with them.
\<close>

record v4l2_bt_timings =
  width :: nat
  height :: nat
  interlaced :: nat
  polarities :: nat
  pixelclock :: nat
  hfrontporch :: nat
  hsync :: nat
  hbackporch :: nat
  vfrontporch :: nat
  vsync :: nat
  vbackporch :: nat
  il_vfrontporch :: nat
  il_vsync :: nat
  il_vbackporch :: nat
  standards :: nat
  flags :: nat

record v4l2_dv_timings =
  type :: nat
  bt :: v4l2_bt_timings

record v4l2_fract =
  numerator :: nat
  denominator :: nat

text \<open>\<open>memset(timings, 0, sizeof(struct v4l2_dv_timings))\<close>.\<close>

definition zero_bt :: v4l2_bt_timings where
  "zero_bt = \<lparr>width = 0, height = 0, interlaced = 0, polarities = 0, pixelclock = 0,
     hfrontporch = 0, hsync = 0, hbackporch = 0, vfrontporch = 0, vsync = 0,
     vbackporch = 0, il_vfrontporch = 0, il_vsync = 0, il_vbackporch = 0,
     standards = 0, flags = 0\<rparr>"

definition zero_timings :: v4l2_dv_timings where
  "zero_timings = \<lparr>type = 0, bt = zero_bt\<rparr>"

text \<open>
  \<open>enum adv7604_mode\<close> (media/adv7604.h). \<open>s_routing\<close> stores any \<open>u32 input\<close> in
  \<open>state->mode\<close>; a value outside the enum takes the \<open>default\<close> branches.
\<close>

datatype adv7604_mode =
  ADV7604_MODE_COMP | ADV7604_MODE_GR | ADV7604_MODE_HDMI | ADV7604_MODE_OTHER nat

text \<open>
  The names of the timing macros \<open>V4L2_DV_BT_*\<close> (linux/v4l2-dv-timings.h) that the
  driver's tables use.
\<close>

datatype dv_bt =
  CEA_720X480P59_94 | CEA_720X576P50 | CEA_1280X720P24 | CEA_1280X720P25
| CEA_1280X720P50 | CEA_1280X720P60 | CEA_1920X1080P24 | CEA_1920X1080P25
| CEA_1920X1080P30 | CEA_1920X1080P50 | CEA_1920X1080P60
| DMT_640X350P85 | DMT_640X400P85 | DMT_720X400P85 | DMT_640X480P60 | DMT_640X480P72
| DMT_640X480P75 | DMT_640X480P85 | DMT_800X600P56 | DMT_800X600P60 | DMT_800X600P72
| DMT_800X600P75 | DMT_800X600P85 | DMT_848X480P60 | DMT_1024X768P60 | DMT_1024X768P70
| DMT_1024X768P75 | DMT_1024X768P85 | DMT_1152X864P75 | DMT_1280X768P60_RB
| DMT_1280X768P60 | DMT_1280X768P75 | DMT_1280X768P85 | DMT_1280X800P60_RB
| DMT_1280X800P60 | DMT_1280X800P75 | DMT_1280X800P85 | DMT_1280X960P60
| DMT_1280X960P85 | DMT_1280X1024P60 | DMT_1280X1024P75 | DMT_1280X1024P85
| DMT_1360X768P60 | DMT_1400X1050P60_RB | DMT_1400X1050P60 | DMT_1400X1050P75
| DMT_1400X1050P85 | DMT_1440X900P60_RB | DMT_1440X900P60 | DMT_1600X1200P60
| DMT_1680X1050P60_RB | DMT_1680X1050P60 | DMT_1792X1344P60 | DMT_1856X1392P60
| DMT_1920X1200P60_RB | DMT_1366X768P60 | DMT_1920X1080P60

text \<open>
  What the kernel around the driver provides: constants of the build, the expansion of
  the timing macros, and helpers of the V4L2 core that the driver calls and that live in
  other files. They are parameters of the model. \<open>shl_overflow n\<close> is the value of
  \<open>1UL << n\<close> when \<open>n\<close> is not below \<open>BITS_PER_LONG\<close>, which C leaves undefined.
  \<open>v4l2_detect_cvt\<close> and \<open>v4l2_detect_gtf\<close> get the caller's \<open>*fmt\<close> and return
  their verdict with the \<open>*fmt\<close> they leave behind.
\<close>

record kernel =
  HZ :: nat
  BITS_PER_LONG :: nat
  shl_overflow :: "nat \<Rightarrow> nat"
  V4L2_DV_BT :: "dv_bt \<Rightarrow> v4l2_dv_timings"
  v4l2_calc_aspect_ratio :: "u8 \<Rightarrow> u8 \<Rightarrow> v4l2_fract"
  v4l_match_dv_timings :: "v4l2_dv_timings \<Rightarrow> v4l2_dv_timings \<Rightarrow> nat \<Rightarrow> bool"
  v4l2_detect_cvt ::
    "nat \<Rightarrow> nat \<Rightarrow> nat \<Rightarrow> nat \<Rightarrow> v4l2_dv_timings \<Rightarrow> bool \<times> v4l2_dv_timings"
  v4l2_detect_gtf ::
    "nat \<Rightarrow> nat \<Rightarrow> nat \<Rightarrow> nat \<Rightarrow> v4l2_fract \<Rightarrow> v4l2_dv_timings \<Rightarrow> bool \<times> v4l2_dv_timings"

text \<open>\<open>BIT(nr)\<close> is \<open>1UL << nr\<close> (linux/bitops.h).\<close>

definition BIT :: "kernel \<Rightarrow> nat \<Rightarrow> nat" where
  "BIT k nr = (if nr < BITS_PER_LONG k then 2 ^ nr else shl_overflow k nr)"

type_synonym adv7604_reg_seq = "nat \<times> u8"

record adv7604_chip_info =
  edid_ctrl_reg :: nat
  edid_status_reg :: nat
  lcf_reg :: nat
  cable_det_mask :: nat
  tdms_lock_mask :: nat
  fmt_change_digital_mask :: nat
  has_afe :: bool
  set_termination :: "world \<Rightarrow> bool \<Rightarrow> world"
  setup_irqs :: "world \<Rightarrow> world"
  read_hdmi_pixelclock :: "world \<Rightarrow> nat \<times> world"
  recommended_settings_0 :: "adv7604_reg_seq list"
  recommended_settings_1 :: "adv7604_reg_seq list"
  page_mask :: nat

text \<open>
  \<open>struct adv7604_state\<close>, without the handles of the V4L2 framework. \<open>edid\<close> is the
  array \<open>u8 edid[256]\<close>.
\<close>

record adv7604_state =
  info :: adv7604_chip_info
  mode :: adv7604_mode
  timings :: v4l2_dv_timings
  edid :: "u8 list"
  edid_blocks :: "32 word"
  aspect_ratio :: v4l2_fract
  rgb_quantization_range :: nat
  restart_stdi_once :: bool

definition adv7604_has_afe :: "adv7604_state \<Rightarrow> bool" where
  "adv7604_has_afe state = has_afe (info state)"

definition DIGITAL_INPUT :: "adv7604_state \<Rightarrow> bool" where
  "DIGITAL_INPUT state = (mode state = ADV7604_MODE_HDMI)"

subsection \<open>Generic register access\<close>

definition ADV7604_PAGE_IO :: nat where "ADV7604_PAGE_IO = 0"
definition ADV7604_PAGE_AVLINK :: nat where "ADV7604_PAGE_AVLINK = 1"
definition ADV7604_PAGE_CEC :: nat where "ADV7604_PAGE_CEC = 2"
definition ADV7604_PAGE_INFOFRAME :: nat where "ADV7604_PAGE_INFOFRAME = 3"
definition ADV7604_PAGE_ESDP :: nat where "ADV7604_PAGE_ESDP = 4"
definition ADV7604_PAGE_DPP :: nat where "ADV7604_PAGE_DPP = 5"
definition ADV7604_PAGE_AFE :: nat where "ADV7604_PAGE_AFE = 6"
definition ADV7604_PAGE_REP :: nat where "ADV7604_PAGE_REP = 7"
definition ADV7604_PAGE_EDID :: nat where "ADV7604_PAGE_EDID = 8"
definition ADV7604_PAGE_HDMI :: nat where "ADV7604_PAGE_HDMI = 9"
definition ADV7604_PAGE_TEST :: nat where "ADV7604_PAGE_TEST = 10"
definition ADV7604_PAGE_CP :: nat where "ADV7604_PAGE_CP = 11"
definition ADV7604_PAGE_VDP :: nat where "ADV7604_PAGE_VDP = 12"

definition ADV7604_REG :: "nat \<Rightarrow> nat \<Rightarrow> nat" where
  "ADV7604_REG page offset = (push_bit 8 page) OR offset"

text \<open>
  \<open>adv7604_read_reg\<close>: \<open>reg\<close> is an \<open>unsigned int\<close>; \<open>page = reg >> 8\<close>, then
  \<open>reg &= 0xff\<close>, then the \<open>switch\<close> on the page, which falls out to
  \<open>return -EINVAL\<close> when no case matches.
\<close>

definition adv7604_read_reg ::
  "kernel \<Rightarrow> adv7604_state \<Rightarrow> world \<Rightarrow> nat \<Rightarrow> int \<times> world" where
  "adv7604_read_reg k state w reg =
     (let page = drop_bit 8 reg in
      if (BIT k page) AND page_mask (info state) = 0 then (- EINVAL, w)
      else
        let reg' = (of_nat (reg AND 0xff) :: u8) in
        if page = ADV7604_PAGE_IO then io_read w reg'
        else if page = ADV7604_PAGE_AVLINK then avlink_read w reg'
        else if page = ADV7604_PAGE_CEC then cec_read w reg'
        else if page = ADV7604_PAGE_INFOFRAME then infoframe_read w reg'
        else if page = ADV7604_PAGE_ESDP then esdp_read w reg'
        else if page = ADV7604_PAGE_DPP then dpp_read w reg'
        else if page = ADV7604_PAGE_AFE then afe_read w reg'
        else if page = ADV7604_PAGE_REP then rep_read w reg'
        else if page = ADV7604_PAGE_EDID then edid_read w reg'
        else if page = ADV7604_PAGE_HDMI then hdmi_read w reg'
        else if page = ADV7604_PAGE_TEST then test_read w reg'
        else if page = ADV7604_PAGE_CP then cp_read w reg'
        else if page = ADV7604_PAGE_VDP then vdp_read w reg'
        else (- EINVAL, w))"

definition adv7604_write_reg ::
  "kernel \<Rightarrow> adv7604_state \<Rightarrow> world \<Rightarrow> nat \<Rightarrow> u8 \<Rightarrow> int \<times> world" where
  "adv7604_write_reg k state w reg val =
     (let page = drop_bit 8 reg in
      if (BIT k page) AND page_mask (info state) = 0 then (- EINVAL, w)
      else
        let reg' = (of_nat (reg AND 0xff) :: u8) in
        if page = ADV7604_PAGE_IO then io_write w reg' val
        else if page = ADV7604_PAGE_AVLINK then avlink_write w reg' val
        else if page = ADV7604_PAGE_CEC then cec_write w reg' val
        else if page = ADV7604_PAGE_INFOFRAME then infoframe_write w reg' val
        else if page = ADV7604_PAGE_ESDP then esdp_write w reg' val
        else if page = ADV7604_PAGE_DPP then dpp_write w reg' val
        else if page = ADV7604_PAGE_AFE then afe_write w reg' val
        else if page = ADV7604_PAGE_REP then rep_write w reg' val
        else if page = ADV7604_PAGE_EDID then edid_write w reg' val
        else if page = ADV7604_PAGE_HDMI then hdmi_write w reg' val
        else if page = ADV7604_PAGE_TEST then test_write w reg' val
        else if page = ADV7604_PAGE_CP then cp_write w reg' val
        else if page = ADV7604_PAGE_VDP then vdp_write w reg' val
        else (- EINVAL, w))"

text \<open>\<open>adv7604_write_reg_seq\<close> ignores the result of each write.\<close>

fun adv7604_write_reg_seq ::
  "kernel \<Rightarrow> adv7604_state \<Rightarrow> world \<Rightarrow> adv7604_reg_seq list \<Rightarrow> world" where
  "adv7604_write_reg_seq k state w [] = w"
| "adv7604_write_reg_seq k state w ((reg, val) # reg_seq) =
     adv7604_write_reg_seq k state (snd (adv7604_write_reg k state w reg val)) reg_seq"

subsection \<open>Chip profiles\<close>

definition adv7604_set_termination :: "world \<Rightarrow> bool \<Rightarrow> world" where
  "adv7604_set_termination w enable = snd (hdmi_write w 0x01 (if enable then 0x00 else 0x78))"

definition adv7611_set_termination :: "world \<Rightarrow> bool \<Rightarrow> world" where
  "adv7611_set_termination w enable = snd (hdmi_write w 0x83 (if enable then 0xfe else 0xff))"

definition adv7604_setup_irqs :: "world \<Rightarrow> world" where
  "adv7604_setup_irqs w = snd (io_write w 0x41 0xd7)"

definition adv7611_setup_irqs :: "world \<Rightarrow> world" where
  "adv7611_setup_irqs w = snd (io_write w 0x41 0xd0)"

definition adv7604_read_hdmi_pixelclock :: "world \<Rightarrow> nat \<times> world" where
  "adv7604_read_hdmi_pixelclock w =
     (case hdmi_read w 0x06 of (a, w1) \<Rightarrow>
      case hdmi_read w1 0x3b of (b, w2) \<Rightarrow>
        if a < 0 \<or> b < 0 then (0, w2)
        else (nat (a * 1000000 + drop_bit 4 (b AND 0x30) * 250000), w2))"

definition adv7611_read_hdmi_pixelclock :: "world \<Rightarrow> nat \<times> world" where
  "adv7611_read_hdmi_pixelclock w =
     (case hdmi_read w 0x51 of (a, w1) \<Rightarrow>
      case hdmi_read w1 0x52 of (b, w2) \<Rightarrow>
        if a < 0 \<or> b < 0 then (0, w2)
        else (nat ((push_bit 1 a OR drop_bit 7 b) * 1000000
                   + (b AND 0x7f) * 1000000 div 128), w2))"

definition adv7604_recommended_settings_afe :: "adv7604_reg_seq list" where
  "adv7604_recommended_settings_afe =
    [(ADV7604_REG ADV7604_PAGE_HDMI 0x0d, 0x04),
     (ADV7604_REG ADV7604_PAGE_HDMI 0x0d, 0x04),
     (ADV7604_REG ADV7604_PAGE_HDMI 0x3d, 0x00),
     (ADV7604_REG ADV7604_PAGE_HDMI 0x3e, 0x74),
     (ADV7604_REG ADV7604_PAGE_HDMI 0x4e, 0x3b),
     (ADV7604_REG ADV7604_PAGE_HDMI 0x57, 0x74),
     (ADV7604_REG ADV7604_PAGE_HDMI 0x58, 0x63),
     (ADV7604_REG ADV7604_PAGE_HDMI 0x8d, 0x18),
     (ADV7604_REG ADV7604_PAGE_HDMI 0x8e, 0x34),
     (ADV7604_REG ADV7604_PAGE_HDMI 0x93, 0x88),
     (ADV7604_REG ADV7604_PAGE_HDMI 0x94, 0x2e),
     (ADV7604_REG ADV7604_PAGE_HDMI 0x96, 0x00),
     (ADV7604_REG ADV7604_PAGE_AFE 0x12, 0x7b),
     (ADV7604_REG ADV7604_PAGE_AFE 0x0c, 0x1f),
     (ADV7604_REG ADV7604_PAGE_CP 0x3e, 0x04),
     (ADV7604_REG ADV7604_PAGE_CP 0xc3, 0x39),
     (ADV7604_REG ADV7604_PAGE_CP 0x40, 0x5c)]"

definition adv7604_recommended_settings_hdmi :: "adv7604_reg_seq list" where
  "adv7604_recommended_settings_hdmi =
    [(ADV7604_REG ADV7604_PAGE_HDMI 0x0d, 0x84),
     (ADV7604_REG ADV7604_PAGE_HDMI 0x3d, 0x10),
     (ADV7604_REG ADV7604_PAGE_HDMI 0x3e, 0x39),
     (ADV7604_REG ADV7604_PAGE_HDMI 0x4e, 0x3b),
     (ADV7604_REG ADV7604_PAGE_HDMI 0x57, 0xb6),
     (ADV7604_REG ADV7604_PAGE_HDMI 0x58, 0x03),
     (ADV7604_REG ADV7604_PAGE_HDMI 0x8d, 0x18),
     (ADV7604_REG ADV7604_PAGE_HDMI 0x8e, 0x34),
     (ADV7604_REG ADV7604_PAGE_HDMI 0x93, 0x8b),
     (ADV7604_REG ADV7604_PAGE_HDMI 0x94, 0x2d),
     (ADV7604_REG ADV7604_PAGE_HDMI 0x96, 0x01),
     (ADV7604_REG ADV7604_PAGE_AFE 0x12, 0xfb),
     (ADV7604_REG ADV7604_PAGE_AFE 0x0c, 0x0d)]"

definition adv7611_recommended_settings_hdmi :: "adv7604_reg_seq list" where
  "adv7611_recommended_settings_hdmi =
    [(ADV7604_REG ADV7604_PAGE_CP 0x6c, 0x00),
     (ADV7604_REG ADV7604_PAGE_HDMI 0x6f, 0x0c),
     (ADV7604_REG ADV7604_PAGE_HDMI 0x87, 0x70),
     (ADV7604_REG ADV7604_PAGE_HDMI 0x57, 0xda),
     (ADV7604_REG ADV7604_PAGE_HDMI 0x58, 0x01),
     (ADV7604_REG ADV7604_PAGE_HDMI 0x03, 0x98),
     (ADV7604_REG ADV7604_PAGE_HDMI 0x4c, 0x44),
     (ADV7604_REG ADV7604_PAGE_HDMI 0x8d, 0x04),
     (ADV7604_REG ADV7604_PAGE_HDMI 0x8e, 0x1e)]"

datatype adv7604_type = ADV7604 | ADV7611

text \<open>
  The array \<open>adv7604_chip_info[]\<close> (the name of the record type here, hence
  \<open>adv7604_chip_infos\<close>). Members that an initializer leaves out are zero
  (an empty settings list for the ADV7611's \<open>recommended_settings[0]\<close>).
\<close>

fun adv7604_chip_infos :: "kernel \<Rightarrow> adv7604_type \<Rightarrow> adv7604_chip_info" where
  "adv7604_chip_infos k ADV7604 =
     \<lparr>edid_ctrl_reg = 0, edid_status_reg = 0, lcf_reg = 0, cable_det_mask = 0,
      tdms_lock_mask = 0xe0, fmt_change_digital_mask = 0xc0, has_afe = True,
      set_termination = adv7604_set_termination, setup_irqs = adv7604_setup_irqs,
      read_hdmi_pixelclock = adv7604_read_hdmi_pixelclock,
      recommended_settings_0 = adv7604_recommended_settings_afe,
      recommended_settings_1 = adv7604_recommended_settings_hdmi,
      page_mask = BIT k ADV7604_PAGE_IO OR BIT k ADV7604_PAGE_AVLINK OR
        BIT k ADV7604_PAGE_CEC OR BIT k ADV7604_PAGE_INFOFRAME OR
        BIT k ADV7604_PAGE_ESDP OR BIT k ADV7604_PAGE_DPP OR
        BIT k ADV7604_PAGE_AFE OR BIT k ADV7604_PAGE_REP OR
        BIT k ADV7604_PAGE_EDID OR BIT k ADV7604_PAGE_HDMI OR
        BIT k ADV7604_PAGE_TEST OR BIT k ADV7604_PAGE_CP OR
        BIT k ADV7604_PAGE_VDP\<rparr>"
| "adv7604_chip_infos k ADV7611 =
     \<lparr>edid_ctrl_reg = 0x74, edid_status_reg = 0x76, lcf_reg = 0xa3, cable_det_mask = 0x01,
      tdms_lock_mask = 0x43, fmt_change_digital_mask = 0x03, has_afe = False,
      set_termination = adv7611_set_termination, setup_irqs = adv7611_setup_irqs,
      read_hdmi_pixelclock = adv7611_read_hdmi_pixelclock,
      recommended_settings_0 = [],
      recommended_settings_1 = adv7611_recommended_settings_hdmi,
      page_mask = BIT k ADV7604_PAGE_IO OR BIT k ADV7604_PAGE_CEC OR
        BIT k ADV7604_PAGE_INFOFRAME OR BIT k ADV7604_PAGE_AFE OR
        BIT k ADV7604_PAGE_REP OR BIT k ADV7604_PAGE_EDID OR
        BIT k ADV7604_PAGE_HDMI OR BIT k ADV7604_PAGE_CP\<rparr>"

subsection \<open>EDID\<close>

text \<open>
  \<open>struct v4l2_subdev_edid\<close>. \<open>edid_p\<close> is the pointer member \<open>edid\<close>: \<open>None\<close> is
  \<open>NULL\<close>, otherwise the caller's memory from that address on, byte by byte.
\<close>

record v4l2_subdev_edid =
  pad :: "32 word"
  start_block :: "32 word"
  blocks :: "32 word"
  edid_p :: "(nat \<Rightarrow> u8) option"

text \<open>
  \<open>adv7604_get_edid\<close>. The \<open>__u32\<close> sums and products wrap. The \<open>memcpy\<close> reads
  \<open>blocks * 128\<close> bytes of \<open>state->edid\<close> from offset \<open>start_block * 128\<close>; when
  that range runs past the end of the array the outcome is \<open>Overrun\<close>, with the
  offset and the number of bytes.
\<close>

datatype get_edid_result = Returned int v4l2_subdev_edid | Overrun nat nat

definition adv7604_get_edid :: "adv7604_state \<Rightarrow> v4l2_subdev_edid \<Rightarrow> get_edid_result" where
  "adv7604_get_edid state e =
     (if pad e \<noteq> 0 then Returned (- EINVAL) e
      else if blocks e = 0 then Returned (- EINVAL) e
      else if start_block e \<ge> edid_blocks state then Returned (- EINVAL) e
      else
        let e1 = (if start_block e + blocks e > edid_blocks state
                  then e\<lparr>blocks := edid_blocks state - start_block e\<rparr> else e)
        in case edid_p e1 of
             None \<Rightarrow> Returned (- EINVAL) e1
           | Some buf \<Rightarrow>
               let off = unat (start_block e1 * 128); n = unat (blocks e1 * 128) in
               if off + n \<le> length (edid state)
               then Returned 0 (e1\<lparr>edid_p :=
                      Some (\<lambda>i. if off \<le> i \<and> i < off + n then edid state ! i else buf i)\<rparr>)
               else Overrun off n)"

text \<open>The first loop of \<open>edid_write_block\<close>: the block transfers.\<close>

function edid_write_block_loop ::
  "world \<Rightarrow> nat \<Rightarrow> u8 list \<Rightarrow> nat \<Rightarrow> int \<Rightarrow> int \<times> world" where
  "edid_write_block_loop w len val i err =
     (if err = 0 \<and> i < len then
        (case adv_smbus_write_i2c_block_data w I2C_EDID (of_nat i) I2C_SMBUS_BLOCK_MAX
                (drop i val) of
           (err', w') \<Rightarrow> edid_write_block_loop w' len val (i + I2C_SMBUS_BLOCK_MAX) err')
      else (err, w))"
  by pat_completeness auto
termination
  by (relation "measure (\<lambda>(w, len, val, i, err). len - i)")
     (auto simp: I2C_SMBUS_BLOCK_MAX_def)

declare edid_write_block_loop.simps [simp del]

text \<open>
  The second loop: up to 1000 reads of the status register, 1 ms apart. The result is
  the final value of \<open>i\<close>.
\<close>

function edid_poll_loop :: "world \<Rightarrow> u8 \<Rightarrow> nat \<Rightarrow> nat \<times> world" where
  "edid_poll_loop w status_reg i =
     (if i < 1000 then
        (case rep_read w status_reg of
           (r, w') \<Rightarrow>
             if r AND 1 \<noteq> 0 then (i, w')
             else edid_poll_loop (mdelay w' 1) status_reg (i + 1))
      else (i, w))"
  by pat_completeness auto
termination
  by (relation "measure (\<lambda>(w, status_reg, i). 1000 - i)") auto

declare edid_poll_loop.simps [simp del]

text \<open>
  \<open>edid_write_block\<close> up to \<open>if (err) return err;\<close>: hotplug is deasserted, the
  DDC port's access to the EDID RAM is disabled, and the bytes are written to the RAM in
  blocks of \<open>I2C_SMBUS_BLOCK_MAX\<close>.
\<close>

definition edid_write_block_data ::
  "adv7604_state \<Rightarrow> world \<Rightarrow> nat \<Rightarrow> u8 list \<Rightarrow> int \<times> world" where
  "edid_write_block_data state w len val =
     (let w1 = v4l2_subdev_notify w (ADV7604_HOTPLUG False);
          w2 = snd (rep_write_and_or w1 (of_nat (edid_ctrl_reg (info state))) 0xf0 0x0)
      in edid_write_block_loop w2 len val 0 0)"

definition edid_write_block ::
  "kernel \<Rightarrow> adv7604_state \<Rightarrow> world \<Rightarrow> nat \<Rightarrow> u8 list \<Rightarrow> int \<times> world" where
  "edid_write_block k state w len val =
     (case edid_write_block_data state w len val of
        (err, w3) \<Rightarrow>
          if err \<noteq> 0 then (err, w3)
          else
            let w4 = snd (rep_write_and_or w3 (of_nat (edid_ctrl_reg (info state))) 0xf0 0x1)
            in case edid_poll_loop w4 (of_nat (edid_status_reg (info state))) 0 of
                 (i, w5) \<Rightarrow>
                   if i = 1000 then (- EIO, w5)
                   else (0, queue_delayed_work w5 (HZ k div 10)))"

definition adv7604_set_edid ::
  "kernel \<Rightarrow> adv7604_state \<Rightarrow> world \<Rightarrow> v4l2_subdev_edid \<Rightarrow> int \<times> adv7604_state \<times> world" where
  "adv7604_set_edid k state w e =
     (if pad e \<noteq> 0 then (- EINVAL, state, w)
      else if start_block e \<noteq> 0 then (- EINVAL, state, w)
      else if blocks e = 0 then
        (let w1 = v4l2_subdev_notify w (ADV7604_HOTPLUG False);
             w2 = snd (rep_write_and_or w1 (of_nat (edid_ctrl_reg (info state))) 0xf0 0x0)
         in (0, state\<lparr>edid_blocks := 0,
                      aspect_ratio := \<lparr>numerator = 16, denominator = 9\<rparr>\<rparr>, w2))
      else if blocks e > 2 then (- E2BIG, state, w)
      else
        case edid_p e of
          None \<Rightarrow> (- EINVAL, state, w)
        | Some buf \<Rightarrow>
            let n = 128 * unat (blocks e);
                state1 = state\<lparr>edid := map buf [0..<n] @ drop n (edid state),
                               edid_blocks := blocks e,
                               aspect_ratio := v4l2_calc_aspect_ratio k (buf 0x15) (buf 0x16)\<rparr>
            in case edid_write_block k state1 w n (edid state1) of
                 (err, w') \<Rightarrow> (err, state1, w'))"

subsection \<open>Input routing\<close>

definition enable_input :: "adv7604_state \<Rightarrow> world \<Rightarrow> world" where
  "enable_input state w =
     (case mode state of
        ADV7604_MODE_COMP \<Rightarrow> snd (io_write w 0x15 0xb0)
      | ADV7604_MODE_GR \<Rightarrow> snd (io_write w 0x15 0xb0)
      | ADV7604_MODE_HDMI \<Rightarrow>
          (let w1 = snd (hdmi_write w 0x1a 0x0a);
               w2 = set_termination (info state) w1 True
           in snd (io_write w2 0x15 0xa0))
      | ADV7604_MODE_OTHER n \<Rightarrow> w)"

definition disable_input :: "adv7604_state \<Rightarrow> world \<Rightarrow> world" where
  "disable_input state w =
     (let w1 = snd (io_write w 0x15 0xbe);
          w2 = snd (hdmi_write w1 0x1a 0x1a)
      in set_termination (info state) w2 False)"

definition select_input_analog :: "kernel \<Rightarrow> adv7604_state \<Rightarrow> world \<Rightarrow> world" where
  "select_input_analog k state w =
     (let w1 = adv7604_write_reg_seq k state w (recommended_settings_0 (info state));
          w2 = snd (afe_write w1 0x00 0x08);
          w3 = snd (afe_write w2 0x01 0x06)
      in snd (afe_write w3 0xc8 0x00))"

definition select_input :: "kernel \<Rightarrow> adv7604_state \<Rightarrow> world \<Rightarrow> world" where
  "select_input k state w =
     (case mode state of
        ADV7604_MODE_COMP \<Rightarrow> select_input_analog k state w
      | ADV7604_MODE_GR \<Rightarrow> select_input_analog k state w
      | ADV7604_MODE_HDMI \<Rightarrow>
          (let w1 = adv7604_write_reg_seq k state w (recommended_settings_1 (info state));
               w2 = (if adv7604_has_afe state then
                       (let a1 = snd (afe_write w1 0x00 0xff);
                            a2 = snd (afe_write a1 0x01 0xfe)
                        in snd (afe_write a2 0xc8 0x40))
                     else w1);
               w3 = snd (cp_write w2 0x3e 0x00);
               w4 = snd (cp_write w3 0xc3 0x39)
           in snd (cp_write w4 0x40 0x80))
      | ADV7604_MODE_OTHER n \<Rightarrow> w)"

definition adv7604_s_routing ::
  "kernel \<Rightarrow> adv7604_state \<Rightarrow> world \<Rightarrow> adv7604_mode \<Rightarrow> int \<times> adv7604_state \<times> world" where
  "adv7604_s_routing k state w input =
     (if \<not> adv7604_has_afe state \<and> input \<noteq> ADV7604_MODE_HDMI then (- EINVAL, state, w)
      else
        let state' = state\<lparr>mode := input\<rparr>;
            w1 = disable_input state' w;
            w2 = select_input k state' w1;
            w3 = enable_input state' w2
        in (0, state', w3))"

subsection \<open>Timing tables\<close>

text \<open>
  Constants of linux/videodev2.h and linux/v4l2-controls.h that the driver uses, and the
  system clock of the chip.
\<close>

definition V4L2_DV_BT_656_1120 :: nat where "V4L2_DV_BT_656_1120 = 0"
definition V4L2_DV_PROGRESSIVE :: nat where "V4L2_DV_PROGRESSIVE = 0"
definition V4L2_DV_INTERLACED :: nat where "V4L2_DV_INTERLACED = 1"
definition V4L2_DV_VSYNC_POS_POL :: nat where "V4L2_DV_VSYNC_POS_POL = 1"
definition V4L2_DV_HSYNC_POS_POL :: nat where "V4L2_DV_HSYNC_POS_POL = 2"
definition V4L2_DV_BT_STD_CEA861 :: nat where "V4L2_DV_BT_STD_CEA861 = 1"
definition V4L2_DV_RGB_RANGE_AUTO :: nat where "V4L2_DV_RGB_RANGE_AUTO = 0"
definition V4L2_DV_RGB_RANGE_LIMITED :: nat where "V4L2_DV_RGB_RANGE_LIMITED = 1"
definition V4L2_DV_RGB_RANGE_FULL :: nat where "V4L2_DV_RGB_RANGE_FULL = 2"

definition ADV7604_fsc :: nat where "ADV7604_fsc = 28636360"

text \<open>\<open>htotal\<close> and \<open>vtotal\<close> add \<open>__u32\<close> fields in \<open>unsigned\<close>.\<close>

definition htotal :: "v4l2_bt_timings \<Rightarrow> nat" where
  "htotal t = (width t + hfrontporch t + hsync t + hbackporch t) mod 2 ^ 32"

definition vtotal :: "v4l2_bt_timings \<Rightarrow> nat" where
  "vtotal t = (height t + vfrontporch t + vsync t + vbackporch t) mod 2 ^ 32"

text \<open>
  The tables, without their terminating \<open>{ }\<close> entry: a scan that reaches the end of
  a list has reached that entry.
\<close>

definition adv7604_timings :: "kernel \<Rightarrow> v4l2_dv_timings list" where
  "adv7604_timings k = map (V4L2_DV_BT k) [
      CEA_720X480P59_94, CEA_720X576P50, CEA_1280X720P24, CEA_1280X720P25,
      CEA_1280X720P50, CEA_1280X720P60, CEA_1920X1080P24, CEA_1920X1080P25,
      CEA_1920X1080P30, CEA_1920X1080P50, CEA_1920X1080P60, DMT_640X350P85,
      DMT_640X400P85, DMT_720X400P85, DMT_640X480P60, DMT_640X480P72, DMT_640X480P75,
      DMT_640X480P85, DMT_800X600P56, DMT_800X600P60, DMT_800X600P72, DMT_800X600P75,
      DMT_800X600P85, DMT_848X480P60, DMT_1024X768P60, DMT_1024X768P70,
      DMT_1024X768P75, DMT_1024X768P85, DMT_1152X864P75, DMT_1280X768P60_RB,
      DMT_1280X768P60, DMT_1280X768P75, DMT_1280X768P85, DMT_1280X800P60_RB,
      DMT_1280X800P60, DMT_1280X800P75, DMT_1280X800P85, DMT_1280X960P60,
      DMT_1280X960P85, DMT_1280X1024P60, DMT_1280X1024P75, DMT_1280X1024P85,
      DMT_1360X768P60, DMT_1400X1050P60_RB, DMT_1400X1050P60, DMT_1400X1050P75,
      DMT_1400X1050P85, DMT_1440X900P60_RB, DMT_1440X900P60, DMT_1600X1200P60,
      DMT_1680X1050P60_RB, DMT_1680X1050P60, DMT_1792X1344P60, DMT_1856X1392P60,
      DMT_1920X1200P60_RB, DMT_1366X768P60, DMT_1920X1080P60]"

type_synonym adv7604_video_standards = "v4l2_dv_timings \<times> u8 \<times> u8"

definition adv7604_prim_mode_comp :: "kernel \<Rightarrow> adv7604_video_standards list" where
  "adv7604_prim_mode_comp k = [
      (V4L2_DV_BT k CEA_720X576P50, 0x0b, 0x00),
      (V4L2_DV_BT k CEA_1280X720P50, 0x19, 0x01),
      (V4L2_DV_BT k CEA_1280X720P60, 0x19, 0x00),
      (V4L2_DV_BT k CEA_1920X1080P24, 0x1e, 0x04),
      (V4L2_DV_BT k CEA_1920X1080P25, 0x1e, 0x03),
      (V4L2_DV_BT k CEA_1920X1080P30, 0x1e, 0x02),
      (V4L2_DV_BT k CEA_1920X1080P50, 0x1e, 0x01),
      (V4L2_DV_BT k CEA_1920X1080P60, 0x1e, 0x00)]"

definition adv7604_prim_mode_gr :: "kernel \<Rightarrow> adv7604_video_standards list" where
  "adv7604_prim_mode_gr k = [
      (V4L2_DV_BT k DMT_640X480P60, 0x08, 0x00),
      (V4L2_DV_BT k DMT_640X480P72, 0x09, 0x00),
      (V4L2_DV_BT k DMT_640X480P75, 0x0a, 0x00),
      (V4L2_DV_BT k DMT_640X480P85, 0x0b, 0x00),
      (V4L2_DV_BT k DMT_800X600P56, 0x00, 0x00),
      (V4L2_DV_BT k DMT_800X600P60, 0x01, 0x00),
      (V4L2_DV_BT k DMT_800X600P72, 0x02, 0x00),
      (V4L2_DV_BT k DMT_800X600P75, 0x03, 0x00),
      (V4L2_DV_BT k DMT_800X600P85, 0x04, 0x00),
      (V4L2_DV_BT k DMT_1024X768P60, 0x0c, 0x00),
      (V4L2_DV_BT k DMT_1024X768P70, 0x0d, 0x00),
      (V4L2_DV_BT k DMT_1024X768P75, 0x0e, 0x00),
      (V4L2_DV_BT k DMT_1024X768P85, 0x0f, 0x00),
      (V4L2_DV_BT k DMT_1280X1024P60, 0x05, 0x00),
      (V4L2_DV_BT k DMT_1280X1024P75, 0x06, 0x00),
      (V4L2_DV_BT k DMT_1360X768P60, 0x12, 0x00),
      (V4L2_DV_BT k DMT_1366X768P60, 0x13, 0x00),
      (V4L2_DV_BT k DMT_1400X1050P60, 0x14, 0x00),
      (V4L2_DV_BT k DMT_1400X1050P75, 0x15, 0x00),
      (V4L2_DV_BT k DMT_1600X1200P60, 0x16, 0x00),
      (V4L2_DV_BT k DMT_1680X1050P60, 0x18, 0x00),
      (V4L2_DV_BT k DMT_1920X1200P60_RB, 0x19, 0x00)]"

definition adv7604_prim_mode_hdmi_comp :: "kernel \<Rightarrow> adv7604_video_standards list" where
  "adv7604_prim_mode_hdmi_comp k = [
      (V4L2_DV_BT k CEA_720X480P59_94, 0x0a, 0x00),
      (V4L2_DV_BT k CEA_720X576P50, 0x0b, 0x00),
      (V4L2_DV_BT k CEA_1280X720P50, 0x13, 0x01),
      (V4L2_DV_BT k CEA_1280X720P60, 0x13, 0x00),
      (V4L2_DV_BT k CEA_1920X1080P24, 0x1e, 0x04),
      (V4L2_DV_BT k CEA_1920X1080P25, 0x1e, 0x03),
      (V4L2_DV_BT k CEA_1920X1080P30, 0x1e, 0x02),
      (V4L2_DV_BT k CEA_1920X1080P50, 0x1e, 0x01),
      (V4L2_DV_BT k CEA_1920X1080P60, 0x1e, 0x00)]"

definition adv7604_prim_mode_hdmi_gr :: "kernel \<Rightarrow> adv7604_video_standards list" where
  "adv7604_prim_mode_hdmi_gr k = [
      (V4L2_DV_BT k DMT_640X480P60, 0x08, 0x00),
      (V4L2_DV_BT k DMT_640X480P72, 0x09, 0x00),
      (V4L2_DV_BT k DMT_640X480P75, 0x0a, 0x00),
      (V4L2_DV_BT k DMT_640X480P85, 0x0b, 0x00),
      (V4L2_DV_BT k DMT_800X600P56, 0x00, 0x00),
      (V4L2_DV_BT k DMT_800X600P60, 0x01, 0x00),
      (V4L2_DV_BT k DMT_800X600P72, 0x02, 0x00),
      (V4L2_DV_BT k DMT_800X600P75, 0x03, 0x00),
      (V4L2_DV_BT k DMT_800X600P85, 0x04, 0x00),
      (V4L2_DV_BT k DMT_1024X768P60, 0x0c, 0x00),
      (V4L2_DV_BT k DMT_1024X768P70, 0x0d, 0x00),
      (V4L2_DV_BT k DMT_1024X768P75, 0x0e, 0x00),
      (V4L2_DV_BT k DMT_1024X768P85, 0x0f, 0x00),
      (V4L2_DV_BT k DMT_1280X1024P60, 0x05, 0x00),
      (V4L2_DV_BT k DMT_1280X1024P75, 0x06, 0x00)]"

subsection \<open>Signal monitor\<close>

definition no_power :: "world \<Rightarrow> bool \<times> world" where
  "no_power w = (case io_read w 0x0c of (r, w') \<Rightarrow> (r AND 0x24 \<noteq> 0, w'))"

definition no_signal_tmds :: "world \<Rightarrow> bool \<times> world" where
  "no_signal_tmds w = (case io_read w 0x6a of (r, w') \<Rightarrow> (r AND 0x10 = 0, w'))"

definition no_lock_tmds :: "adv7604_state \<Rightarrow> world \<Rightarrow> bool \<times> world" where
  "no_lock_tmds state w =
     (case io_read w 0x6a of
        (r, w') \<Rightarrow> (r AND int (tdms_lock_mask (info state)) \<noteq> int (tdms_lock_mask (info state)), w'))"

text \<open>\<open>no_lock_sspd\<close> returns false without a read when the chip has an AFE.\<close>

definition no_lock_sspd :: "adv7604_state \<Rightarrow> world \<Rightarrow> bool \<times> world" where
  "no_lock_sspd state w =
     (if adv7604_has_afe state then (False, w)
      else case cp_read w 0xb5 of (r, w') \<Rightarrow> (r AND 0xd0 \<noteq> 0xd0, w'))"

definition no_lock_stdi :: "world \<Rightarrow> bool \<times> world" where
  "no_lock_stdi w = (case cp_read w 0xb1 of (r, w') \<Rightarrow> (r AND 0x80 = 0, w'))"

text \<open>\<open>no_signal\<close> ors the results with \<open>|=\<close>: every check is made.\<close>

definition no_signal :: "adv7604_state \<Rightarrow> world \<Rightarrow> bool \<times> world" where
  "no_signal state w =
     (case no_power w of (r1, w1) \<Rightarrow>
      case no_lock_stdi w1 of (r2, w2) \<Rightarrow>
      case no_lock_sspd state w2 of (r3, w3) \<Rightarrow>
        if DIGITAL_INPUT state then
          (case no_lock_tmds state w3 of (r4, w4) \<Rightarrow>
           case no_signal_tmds w4 of (r5, w5) \<Rightarrow> (r1 \<or> r2 \<or> r3 \<or> r4 \<or> r5, w5))
        else (r1 \<or> r2 \<or> r3, w3))"

text \<open>\<open>no_lock_stdi(sd) || no_lock_sspd(sd)\<close>: the second check is made only when the
  first is false.\<close>

definition no_lock_stdi_or_sspd :: "adv7604_state \<Rightarrow> world \<Rightarrow> bool \<times> world" where
  "no_lock_stdi_or_sspd state w =
     (case no_lock_stdi w of (r, w1) \<Rightarrow> if r then (True, w1) else no_lock_sspd state w1)"

subsection \<open>Timing sampler\<close>

text \<open>
  \<open>struct stdi_readback\<close>; its member \<open>interlaced\<close> is \<open>stdi_interlaced\<close> here
  (the timings have a field of that name).
\<close>

record stdi_readback =
  bl :: nat
  lcf :: nat
  lcvs :: nat
  hs_pol :: char
  vs_pol :: char
  stdi_interlaced :: bool

text \<open>The readout of the SSPD polarities on a chip with an AFE.\<close>

definition read_sspd_pol :: "world \<Rightarrow> int \<Rightarrow> int \<Rightarrow> char \<times> world" where
  "read_sspd_pol w valid_bit pol_bit =
     (case cp_read w 0xb5 of (r1, w1) \<Rightarrow>
        if r1 AND valid_bit \<noteq> 0 then
          (case cp_read w1 0xb5 of (r2, w2) \<Rightarrow>
             (if r2 AND pol_bit \<noteq> 0 then CHR ''+'' else CHR ''-'', w2))
        else (CHR ''x'', w1))"

text \<open>
  \<open>read_stdi\<close>. The result is \<open>Some\<close> of what it left in \<open>*stdi\<close> when it returns 0
  and \<open>None\<close> when it returns -1; the caller reads \<open>*stdi\<close> only in the first case.
  \<open>cp_read(sd, 0xb3) >> 3\<close> shifts an \<open>int\<close> and is stored in a \<open>u16\<close>.
\<close>

definition read_stdi :: "adv7604_state \<Rightarrow> world \<Rightarrow> stdi_readback option \<times> world" where
  "read_stdi state w =
     (case no_lock_stdi_or_sspd state w of (unlocked, w1) \<Rightarrow>
      if unlocked then (None, w1)
      else
        case cp_read16 w1 0xb1 0x3fff of (bl', w2) \<Rightarrow>
        case cp_read16 w2 (of_nat (lcf_reg (info state))) 0x7ff of (lcf', w3) \<Rightarrow>
        case cp_read w3 0xb3 of (r_lcvs, w4) \<Rightarrow>
        case io_read w4 0x12 of (r_il, w5) \<Rightarrow>
        case (if adv7604_has_afe state then
                (case cp_read w5 0xb5 of (r, w6) \<Rightarrow>
                   if r AND 0x03 = 0x01 then
                     (case read_sspd_pol w6 0x10 0x08 of (hs, w7) \<Rightarrow>
                      case read_sspd_pol w7 0x40 0x20 of (vs, w8) \<Rightarrow> (hs, vs, w8))
                   else (CHR ''x'', CHR ''x'', w6))
              else
                (case hdmi_read w5 0x05 of (r1, w6) \<Rightarrow>
                 case hdmi_read w6 0x05 of (r2, w7) \<Rightarrow>
                   (if r1 AND 0x20 \<noteq> 0 then CHR ''+'' else CHR ''-'',
                    if r2 AND 0x10 \<noteq> 0 then CHR ''+'' else CHR ''-'', w7)))
        of (hs, vs, w9) \<Rightarrow>
        case no_lock_stdi_or_sspd state w9 of (unlocked', w10) \<Rightarrow>
        if unlocked' then (None, w10)
        else if lcf' < 239 \<or> bl' < 8 \<or> bl' = 0x3fff then (None, w10)
        else (Some \<lparr>bl = bl', lcf = lcf', lcvs = nat (drop_bit 3 r_lcvs mod 65536),
                     hs_pol = hs, vs_pol = vs, stdi_interlaced = (r_il AND 0x10 \<noteq> 0)\<rparr>, w10))"

subsection \<open>Timing resolver\<close>

text \<open>
  The test of one table entry in the loop of \<open>stdi2dv_timings\<close>. \<open>pix_clk\<close> is a
  \<open>u32\<close> product; it is compared with the \<open>__u64\<close> pixel clock plus and minus
  1000000, computed in 64 bits.
\<close>

definition stdi_entry_matches :: "stdi_readback \<Rightarrow> nat \<Rightarrow> v4l2_dv_timings \<Rightarrow> bool" where
  "stdi_entry_matches stdi hfreq t =
     (vtotal (bt t) = lcf stdi + 1 \<and> vsync (bt t) = lcvs stdi \<and>
      (let pix_clk = (hfreq * htotal (bt t)) mod 2 ^ 32 in
       pix_clk < (pixelclock (bt t) + 1000000) mod 2 ^ 64 \<and>
       pix_clk > (pixelclock (bt t) + 2 ^ 64 - 1000000) mod 2 ^ 64))"

text \<open>The loop: it ends at the first entry whose height is 0.\<close>

fun stdi2dv_scan :: "v4l2_dv_timings list \<Rightarrow> stdi_readback \<Rightarrow> nat \<Rightarrow> v4l2_dv_timings option" where
  "stdi2dv_scan [] stdi hfreq = None"
| "stdi2dv_scan (t # ts) stdi hfreq =
     (if height (bt t) = 0 then None
      else if stdi_entry_matches stdi hfreq t then Some t
      else stdi2dv_scan ts stdi hfreq)"

definition stdi_polarities :: "stdi_readback \<Rightarrow> nat" where
  "stdi_polarities stdi =
     (if hs_pol stdi = CHR ''+'' then V4L2_DV_HSYNC_POS_POL else 0) OR
     (if vs_pol stdi = CHR ''+'' then V4L2_DV_VSYNC_POS_POL else 0)"

text \<open>
  \<open>stdi2dv_timings\<close>: the result and what it leaves in \<open>*timings\<close>. \<open>None\<close> is the
  division by \<open>stdi->bl = 0\<close>.
\<close>

definition stdi2dv_timings ::
  "kernel \<Rightarrow> adv7604_state \<Rightarrow> stdi_readback \<Rightarrow> v4l2_dv_timings \<Rightarrow>
   (int \<times> v4l2_dv_timings) option" where
  "stdi2dv_timings k state stdi tmg =
     (if bl stdi = 0 then None
      else
        let hfreq = (ADV7604_fsc * 8) div bl stdi in
        case stdi2dv_scan (adv7604_timings k) stdi hfreq of
          Some t \<Rightarrow> Some (0, t)
        | None \<Rightarrow>
            (case v4l2_detect_cvt k (lcf stdi + 1) hfreq (lcvs stdi) (stdi_polarities stdi) tmg of
               (cvt, t1) \<Rightarrow>
                 if cvt then Some (0, t1)
                 else
                   (case v4l2_detect_gtf k (lcf stdi + 1) hfreq (lcvs stdi)
                           (stdi_polarities stdi) (aspect_ratio state) t1 of
                      (gtf, t2) \<Rightarrow> if gtf then Some (0, t2) else Some (- 1, t2))))"

text \<open>
  \<open>adv7604_fill_optional_dv_timings_fields\<close>: the loop ends at the first entry whose
  width is 0; the first entry that matches is copied over \<open>*timings\<close>.
\<close>

definition pclock_tolerance :: "adv7604_state \<Rightarrow> nat" where
  "pclock_tolerance state = (if DIGITAL_INPUT state then 250000 else 1000000)"

fun fill_optional_scan ::
  "kernel \<Rightarrow> adv7604_state \<Rightarrow> v4l2_dv_timings list \<Rightarrow> v4l2_dv_timings \<Rightarrow> v4l2_dv_timings" where
  "fill_optional_scan k state [] tmg = tmg"
| "fill_optional_scan k state (t # ts) tmg =
     (if width (bt t) = 0 then tmg
      else if v4l_match_dv_timings k tmg t (pclock_tolerance state) then t
      else fill_optional_scan k state ts tmg)"

definition adv7604_fill_optional_dv_timings_fields ::
  "kernel \<Rightarrow> adv7604_state \<Rightarrow> v4l2_dv_timings \<Rightarrow> v4l2_dv_timings" where
  "adv7604_fill_optional_dv_timings_fields k state tmg =
     fill_optional_scan k state (adv7604_timings k) tmg"

text \<open>
  The \<open>DIGITAL_INPUT\<close> branch of \<open>adv7604_query_dv_timings\<close> before the enrichment:
  the timing as the HDMI block measured it.
\<close>

definition query_dv_timings_measure ::
  "adv7604_state \<Rightarrow> world \<Rightarrow> v4l2_dv_timings \<Rightarrow> v4l2_dv_timings \<times> world" where
  "query_dv_timings_measure state w tmg =
     (case hdmi_read16 w 0x07 0xfff of (width', w1) \<Rightarrow>
      case hdmi_read16 w1 0x09 0xfff of (height', w2) \<Rightarrow>
      case read_hdmi_pixelclock (info state) w2 of (pixelclock', w3) \<Rightarrow>
      case hdmi_read16 w3 0x20 0x3ff of (hfrontporch', w4) \<Rightarrow>
      case hdmi_read16 w4 0x22 0x3ff of (hsync', w5) \<Rightarrow>
      case hdmi_read16 w5 0x24 0x3ff of (hbackporch', w6) \<Rightarrow>
      case hdmi_read16 w6 0x2a 0x1fff of (vfp2, w7) \<Rightarrow>
      case hdmi_read16 w7 0x2e 0x1fff of (vs2, w8) \<Rightarrow>
      case hdmi_read16 w8 0x32 0x1fff of (vbp2, w9) \<Rightarrow>
      case hdmi_read w9 0x05 of (p1, w10) \<Rightarrow>
      case hdmi_read w10 0x05 of (p2, w11) \<Rightarrow>
        let b1 = (bt tmg)\<lparr>width := width', height := height', pixelclock := pixelclock',
                   hfrontporch := hfrontporch', hsync := hsync', hbackporch := hbackporch',
                   vfrontporch := vfp2 div 2, vsync := vs2 div 2, vbackporch := vbp2 div 2,
                   polarities := (if p1 AND 0x10 \<noteq> 0 then V4L2_DV_VSYNC_POS_POL else 0) OR
                                 (if p2 AND 0x20 \<noteq> 0 then V4L2_DV_HSYNC_POS_POL else 0)\<rparr>
        in
        if interlaced b1 = V4L2_DV_INTERLACED then
          (case hdmi_read16 w11 0x0b 0xfff of (height2, w12) \<Rightarrow>
           case hdmi_read16 w12 0x2c 0x1fff of (ilvfp2, w13) \<Rightarrow>
           case hdmi_read16 w13 0x30 0x1fff of (ilvs2, w14) \<Rightarrow>
           case hdmi_read16 w14 0x34 0x1fff of (vbp2', w15) \<Rightarrow>
             (tmg\<lparr>type := V4L2_DV_BT_656_1120,
                   bt := b1\<lparr>height := (height b1 + height2) mod 2 ^ 32,
                             il_vfrontporch := ilvfp2 div 2, il_vsync := ilvs2 div 2,
                             vbackporch := vbp2' div 2\<rparr>\<rparr>, w15))
        else (tmg\<lparr>type := V4L2_DV_BT_656_1120, bt := b1\<rparr>, w11))"

text \<open>\<open>adv7604_query_dv_timings\<close> from the label \<open>found:\<close> on.\<close>

definition pixelclock_out_of_range :: "adv7604_state \<Rightarrow> v4l2_bt_timings \<Rightarrow> bool" where
  "pixelclock_out_of_range state b =
     ((\<not> DIGITAL_INPUT state \<and> pixelclock b > 170000000) \<or>
      (DIGITAL_INPUT state \<and> pixelclock b > 225000000))"

definition query_dv_timings_found ::
  "adv7604_state \<Rightarrow> world \<Rightarrow> v4l2_dv_timings \<Rightarrow>
   (int \<times> v4l2_dv_timings option \<times> adv7604_state \<times> world) option" where
  "query_dv_timings_found state w tmg =
     (case no_signal state w of (lost, w1) \<Rightarrow>
        if lost then Some (- ENOLINK, Some zero_timings, state, w1)
        else if pixelclock_out_of_range state (bt tmg) then Some (- ERANGE, Some tmg, state, w1)
        else Some (0, Some tmg, state, w1))"

text \<open>The three writes that restart the STDI block.\<close>

definition restart_stdi :: "world \<Rightarrow> world" where
  "restart_stdi w =
     (let w1 = snd (cp_write_and_or w 0x86 0xf9 0x00);
          w2 = snd (cp_write_and_or w1 0x86 0xf9 0x04)
      in snd (cp_write_and_or w2 0x86 0xf9 0x02))"

text \<open>
  \<open>adv7604_query_dv_timings\<close>. \<open>timings\<close> is the caller's pointer (\<open>None\<close> is
  \<open>NULL\<close>); the result carries the return value, what is left in \<open>*timings\<close>, the
  driver state and the environment. \<open>None\<close> is the division by zero in
  \<open>stdi2dv_timings\<close>. \<open>stdi.lcvs\<close> is a \<open>u16\<close>.
\<close>

definition adv7604_query_dv_timings ::
  "kernel \<Rightarrow> adv7604_state \<Rightarrow> world \<Rightarrow> v4l2_dv_timings option \<Rightarrow>
   (int \<times> v4l2_dv_timings option \<times> adv7604_state \<times> world) option" where
  "adv7604_query_dv_timings k state w timings_p =
     (case timings_p of
        None \<Rightarrow> Some (- EINVAL, None, state, w)
      | Some caller_timings \<Rightarrow>
          (case no_signal state w of (lost, w1) \<Rightarrow>
           if lost then Some (- ENOLINK, Some zero_timings, state, w1)
           else
             case read_stdi state w1 of
               (None, w2) \<Rightarrow> Some (- ENOLINK, Some zero_timings, state, w2)
             | (Some stdi, w2) \<Rightarrow>
                 let t1 = zero_timings\<lparr>bt := zero_bt\<lparr>interlaced :=
                            (if stdi_interlaced stdi then V4L2_DV_INTERLACED
                             else V4L2_DV_PROGRESSIVE)\<rparr>\<rparr>
                 in
                 if DIGITAL_INPUT state then
                   (case query_dv_timings_measure state w2 t1 of
                      (t2, w3) \<Rightarrow>
                        query_dv_timings_found state w3
                          (adv7604_fill_optional_dv_timings_fields k state t2))
                 else
                   (case stdi2dv_timings k state stdi t1 of
                      None \<Rightarrow> None
                    | Some (r1, t2) \<Rightarrow>
                        if r1 = 0 then query_dv_timings_found state w2 t2
                        else
                          let stdi1 = stdi\<lparr>lcvs := (lcvs stdi + 1) mod 65536\<rparr> in
                          (case stdi2dv_timings k state stdi1 t2 of
                             None \<Rightarrow> None
                           | Some (r2, t3) \<Rightarrow>
                               if r2 = 0 then query_dv_timings_found state w2 t3
                               else
                                 let stdi2 = stdi1\<lparr>lcvs := (lcvs stdi1 + 65536 - 2) mod 65536\<rparr> in
                                 (case stdi2dv_timings k state stdi2 t3 of
                                    None \<Rightarrow> None
                                  | Some (r3, t4) \<Rightarrow>
                                      if r3 \<noteq> 0 then
                                        (if restart_stdi_once state then
                                           Some (- ENOLINK, Some t4,
                                                 state\<lparr>restart_stdi_once := False\<rparr>,
                                                 restart_stdi w2)
                                         else Some (- ERANGE, Some t4, state, w2))
                                      else
                                        query_dv_timings_found
                                          (state\<lparr>restart_stdi_once := True\<rparr>) w2 t4)))))"

subsection \<open>Mode configurator\<close>

text \<open>
  \<open>find_and_set_predefined_video_timings\<close>: the loop ends at the first entry whose
  width is 0; \<open>(v_freq << 4) + prim_mode\<close> is passed on as a \<open>u8\<close>.
\<close>

fun find_and_set_predefined_video_timings ::
  "kernel \<Rightarrow> adv7604_state \<Rightarrow> world \<Rightarrow> u8 \<Rightarrow> adv7604_video_standards list \<Rightarrow>
   v4l2_dv_timings \<Rightarrow> int \<times> world" where
  "find_and_set_predefined_video_timings k state w prim_mode [] tmg = (- 1, w)"
| "find_and_set_predefined_video_timings k state w prim_mode ((t, vid_std, v_freq) # ts) tmg =
     (if width (bt t) = 0 then (- 1, w)
      else if \<not> v4l_match_dv_timings k tmg t (pclock_tolerance state)
      then find_and_set_predefined_video_timings k state w prim_mode ts tmg
      else
        let w1 = snd (io_write w 0x00 vid_std);
            w2 = snd (io_write w1 0x01 (push_bit 4 v_freq + prim_mode))
        in (0, w2))"

definition configure_predefined_video_timings ::
  "kernel \<Rightarrow> adv7604_state \<Rightarrow> world \<Rightarrow> v4l2_dv_timings \<Rightarrow> int \<times> world" where
  "configure_predefined_video_timings k state w tmg =
     (let w1 = (if adv7604_has_afe state
                then snd (io_write (snd (io_write w 0x16 0x43)) 0x17 0x5a) else w);
          w2 = snd (cp_write_and_or w1 0x81 0xef 0x00);
          w3 = snd (cp_write w2 0x8f 0x00);
          w4 = snd (cp_write w3 0x90 0x00);
          w5 = snd (cp_write w4 0xa2 0x00);
          w6 = snd (cp_write w5 0xa3 0x00);
          w7 = snd (cp_write w6 0xa4 0x00);
          w8 = snd (cp_write w7 0xa5 0x00);
          w9 = snd (cp_write w8 0xa6 0x00);
          w10 = snd (cp_write w9 0xa7 0x00);
          w11 = snd (cp_write w10 0xab 0x00);
          w12 = snd (cp_write w11 0xac 0x00)
      in case mode state of
           ADV7604_MODE_HDMI \<Rightarrow>
             (case find_and_set_predefined_video_timings k state w12 0x05
                     (adv7604_prim_mode_hdmi_comp k) tmg of
                (err, w13) \<Rightarrow>
                  if err \<noteq> 0
                  then find_and_set_predefined_video_timings k state w13 0x06
                         (adv7604_prim_mode_hdmi_gr k) tmg
                  else (err, w13))
         | ADV7604_MODE_OTHER n \<Rightarrow> (- 1, w12)
         | analog \<Rightarrow>
             (case find_and_set_predefined_video_timings k state w12 0x01
                     (adv7604_prim_mode_comp k) tmg of
                (err, w13) \<Rightarrow>
                  if err \<noteq> 0
                  then find_and_set_predefined_video_timings k state w13 0x02
                         (adv7604_prim_mode_gr k) tmg
                  else (err, w13)))"

text \<open>
  \<open>configure_custom_video_timings\<close>. \<open>width\<close> and \<open>height\<close> are \<open>u32\<close>, the
  \<open>cp_*\<close> values and \<open>ch1_fr_ll\<close> are \<open>u16\<close>, and \<open>(u32)bt->pixelclock\<close> drops the
  upper half of the pixel clock. The first transfer that fails in the analog branch, the
  block write of the PLL divider, ends that branch.
\<close>

definition configure_custom_video_timings ::
  "adv7604_state \<Rightarrow> world \<Rightarrow> v4l2_bt_timings \<Rightarrow> world" where
  "configure_custom_video_timings state w b =
     (let width' = htotal b;
          height' = vtotal b;
          cp_start_sav = ((hsync b + hbackporch b + 2 ^ 32 - 4) mod 2 ^ 32) mod 2 ^ 16;
          cp_start_eav = ((width' + 2 ^ 32 - hfrontporch b mod 2 ^ 32) mod 2 ^ 32) mod 2 ^ 16;
          cp_start_vbi = ((height' + 2 ^ 32 - vfrontporch b mod 2 ^ 32) mod 2 ^ 32) mod 2 ^ 16;
          cp_end_vbi = ((vsync b + vbackporch b) mod 2 ^ 32) mod 2 ^ 16;
          pclk100 = (pixelclock b mod 2 ^ 32) div 100;
          ch1_fr_ll = (if pclk100 > 0
                       then (((width' * (ADV7604_fsc div 100)) mod 2 ^ 32) div pclk100) mod 2 ^ 16
                       else 0);
          pll = [of_nat (0xc0 OR (drop_bit 8 width' AND 0x1f)), of_nat (width' AND 0xff)] :: u8 list;
          w1 = (case mode state of
                  ADV7604_MODE_HDMI \<Rightarrow>
                    snd (io_write (snd (io_write w 0x00 0x02)) 0x01 0x06)
                | ADV7604_MODE_OTHER n \<Rightarrow> w
                | analog \<Rightarrow>
                    (let a1 = snd (io_write w 0x00 0x07);
                         a2 = snd (io_write a1 0x01 0x02);
                         a3 = snd (cp_write_and_or a2 0x81 0xef 0x10)
                     in case adv_smbus_write_i2c_block_data a3 I2C_IO 0x16 2 pll of
                          (err, a4) \<Rightarrow>
                            if err \<noteq> 0 then a4
                            else
                              let a5 = snd (cp_write a4 0xa2 (of_nat (drop_bit 4 cp_start_sav AND 0xff)));
                                  a6 = snd (cp_write a5 0xa3
                                         (of_nat (push_bit 4 (cp_start_sav AND 0x0f) OR
                                                  (drop_bit 8 cp_start_eav AND 0x0f))));
                                  a7 = snd (cp_write a6 0xa4 (of_nat (cp_start_eav AND 0xff)));
                                  a8 = snd (cp_write a7 0xa5 (of_nat (drop_bit 4 cp_start_vbi AND 0xff)));
                                  a9 = snd (cp_write a8 0xa6
                                         (of_nat (push_bit 4 (cp_start_vbi AND 0xf) OR
                                                  (drop_bit 8 cp_end_vbi AND 0xf))))
                              in snd (cp_write a9 0xa7 (of_nat (cp_end_vbi AND 0xff)))));
          w2 = snd (cp_write w1 0x8f (of_nat (drop_bit 8 ch1_fr_ll AND 0x7)));
          w3 = snd (cp_write w2 0x90 (of_nat (ch1_fr_ll AND 0xff)));
          w4 = snd (cp_write w3 0xab (of_nat (drop_bit 4 height' AND 0xff)))
      in snd (cp_write w4 0xac (of_nat (push_bit 4 (height' AND 0x0f)))))"

definition set_rgb_quantization_range :: "adv7604_state \<Rightarrow> world \<Rightarrow> world" where
  "set_rgb_quantization_range state w =
     (if rgb_quantization_range state = V4L2_DV_RGB_RANGE_AUTO then
        (if DIGITAL_INPUT state then
           (case hdmi_read w 0x05 of
              (r, w1) \<Rightarrow>
                if r AND 0x80 = 0 then
                  (if standards (bt (timings state)) AND V4L2_DV_BT_STD_CEA861 \<noteq> 0
                   then snd (io_write_and_or w1 0x02 0x0f 0x00)
                   else snd (io_write_and_or w1 0x02 0x0f 0x10))
                else snd (io_write_and_or w1 0x02 0x0f 0xf0))
         else snd (io_write_and_or w 0x02 0x0f 0xf0))
      else if rgb_quantization_range state = V4L2_DV_RGB_RANGE_LIMITED
      then snd (io_write_and_or w 0x02 0x0f 0x00)
      else if rgb_quantization_range state = V4L2_DV_RGB_RANGE_FULL
      then snd (io_write_and_or w 0x02 0x0f 0x10)
      else w)"

text \<open>
  \<open>adv7604_s_dv_timings\<close>. \<open>timings\<close> is the caller's pointer (\<open>None\<close> is \<open>NULL\<close>);
  the result carries the return value, what is left in \<open>*timings\<close>, the driver state
  and the environment.
\<close>

definition adv7604_s_dv_timings ::
  "kernel \<Rightarrow> adv7604_state \<Rightarrow> world \<Rightarrow> v4l2_dv_timings option \<Rightarrow>
   int \<times> v4l2_dv_timings option \<times> adv7604_state \<times> world" where
  "adv7604_s_dv_timings k state w timings_p =
     (case timings_p of
        None \<Rightarrow> (- EINVAL, None, state, w)
      | Some tmg \<Rightarrow>
          if pixelclock_out_of_range state (bt tmg) then (- ERANGE, Some tmg, state, w)
          else
            let tmg' = adv7604_fill_optional_dv_timings_fields k state tmg;
                state' = state\<lparr>timings := tmg'\<rparr>;
                w1 = snd (cp_write_and_or w 0x91 0x40
                           (if interlaced (bt tmg') \<noteq> 0 then 0x40 else 0x00))
            in case configure_predefined_video_timings k state' w1 tmg' of
                 (err, w2) \<Rightarrow>
                   let w3 = (if err \<noteq> 0
                             then configure_custom_video_timings state' w2 (bt tmg') else w2)
                   in (0, Some tmg', state', set_rgb_quantization_range state' w3))"

subsection \<open>Vocabulary of the properties\<close>

text \<open>The client a transfer addresses, and the client that serves a register page.\<close>

fun xfer_client :: "smbus_xfer \<Rightarrow> i2c_client" where
  "xfer_client (SMBUS_READ_BYTE c command) = c"
| "xfer_client (SMBUS_WRITE_BYTE c command val) = c"
| "xfer_client (SMBUS_WRITE_BLOCK c command vals) = c"

definition page_client :: "nat \<Rightarrow> i2c_client" where
  "page_client page =
     (if page = ADV7604_PAGE_IO then I2C_IO
      else if page = ADV7604_PAGE_AVLINK then I2C_AVLINK
      else if page = ADV7604_PAGE_CEC then I2C_CEC
      else if page = ADV7604_PAGE_INFOFRAME then I2C_INFOFRAME
      else if page = ADV7604_PAGE_ESDP then I2C_ESDP
      else if page = ADV7604_PAGE_DPP then I2C_DPP
      else if page = ADV7604_PAGE_AFE then I2C_AFE
      else if page = ADV7604_PAGE_REP then I2C_REPEATER
      else if page = ADV7604_PAGE_EDID then I2C_EDID
      else if page = ADV7604_PAGE_HDMI then I2C_HDMI
      else if page = ADV7604_PAGE_TEST then I2C_TEST
      else if page = ADV7604_PAGE_CP then I2C_CP
      else I2C_VDP)"

text \<open>The byte write that programs one entry of a register sequence.\<close>

definition reg_write_xfer :: "adv7604_reg_seq \<Rightarrow> smbus_xfer" where
  "reg_write_xfer rv =
     SMBUS_WRITE_BYTE (page_client (fst rv div 256)) (of_nat (fst rv mod 256)) (snd rv)"

text \<open>A page is present in a profile when its bit of the page mask is set.\<close>

definition page_present :: "adv7604_chip_info \<Rightarrow> nat \<Rightarrow> bool" where
  "page_present ci page = bit (page_mask ci) page"

text \<open>
  The value a byte read returns when it is the \<open>n\<close>-th of the coming transfers:
  the byte, or \<open>-EIO\<close> when the transfer fails.
\<close>

definition read_result :: "(int \<times> u8) list \<Rightarrow> nat \<Rightarrow> int" where
  "read_result rs n =
     (if n < length rs then (if fst (rs ! n) = 0 then uint (snd (rs ! n)) else - EIO) else 0)"

text \<open>
  The environment in which \<open>edid_write_block\<close> starts to poll the status register:
  after the EDID bytes are written and the DDC port's access is enabled again.
\<close>

definition edid_poll_start :: "adv7604_state \<Rightarrow> world \<Rightarrow> nat \<Rightarrow> u8 list \<Rightarrow> world" where
  "edid_poll_start state w len val =
     snd (rep_write_and_or (snd (edid_write_block_data state w len val))
            (of_nat (edid_ctrl_reg (info state))) 0xf0 0x1)"

text \<open>
  A synthetic STDI sample built from a timing \<open>T\<close>: its line count is the total
  number of lines of \<open>T\<close> minus one, its vsync count is that of \<open>T\<close>, and its burst
  length gives a line frequency whose product with the total width of \<open>T\<close> is within
  1 MHz of the pixel clock of \<open>T\<close> (and fits the \<open>u32\<close> it is computed in). The pixel
  clock is at least 1 MHz, as every real one is.
\<close>

definition synthetic_sample :: "v4l2_dv_timings \<Rightarrow> stdi_readback \<Rightarrow> bool" where
  "synthetic_sample T stdi =
     (bl stdi \<noteq> 0 \<and> lcf stdi + 1 = vtotal (bt T) \<and> lcvs stdi = vsync (bt T) \<and>
      (let f = ((ADV7604_fsc * 8) div bl stdi) * htotal (bt T) in
       f < 2 ^ 32 \<and> f < pixelclock (bt T) + 1000000 \<and> pixelclock (bt T) < f + 1000000) \<and>
      1000000 \<le> pixelclock (bt T) \<and> pixelclock (bt T) + 1000000 < 2 ^ 64)"

text \<open>
  Modelled from the spec: \<open>v4l_match_dv_timings\<close> is a helper of the V4L2 core
  (drivers/media/v4l2-core), not part of this file. The specification calls its result
  an exact tolerance match: the two timings have the same geometry, and their pixel
  clocks differ by no more than the given tolerance.
\<close>

definition same_geometry :: "v4l2_dv_timings \<Rightarrow> v4l2_dv_timings \<Rightarrow> bool" where
  "same_geometry t1 t2 =
     (width (bt t1) = width (bt t2) \<and> height (bt t1) = height (bt t2) \<and>
      interlaced (bt t1) = interlaced (bt t2) \<and> polarities (bt t1) = polarities (bt t2) \<and>
      hfrontporch (bt t1) = hfrontporch (bt t2) \<and> hsync (bt t1) = hsync (bt t2) \<and>
      hbackporch (bt t1) = hbackporch (bt t2) \<and> vfrontporch (bt t1) = vfrontporch (bt t2) \<and>
      vsync (bt t1) = vsync (bt t2) \<and> vbackporch (bt t1) = vbackporch (bt t2))"

definition exact_tolerance_match :: "v4l2_dv_timings \<Rightarrow> v4l2_dv_timings \<Rightarrow> nat \<Rightarrow> bool" where
  "exact_tolerance_match t1 t2 pclock_delta =
     (same_geometry t1 t2 \<and>
      pixelclock (bt t2) \<le> pixelclock (bt t1) + pclock_delta \<and>
      pixelclock (bt t1) \<le> pixelclock (bt t2) + pclock_delta)"

text \<open>
  Sample values. A 32-bit kernel with \<open>HZ = 100\<close>. Of the timing macros it expands
  the first thirteen of \<open>adv7604_timings\<close>, the eleven CEA-861 timings and the VESA
  DMT timings 640x350 and 640x400 at 85 Hz, with the geometry, polarities and pixel clock
  these standards give them and no flags; every other macro is all zero. Its matcher is
  the exact tolerance match, and its CVT and GTF detection find nothing. A quiet bus on
  which every transfer succeeds. The state \<open>adv7604_probe\<close> sets up (\<open>kzalloc\<close>, then
  \<open>info\<close> and \<open>restart_stdi_once = true\<close>).
\<close>

definition bt_timings ::
  "nat \<Rightarrow> nat \<Rightarrow> nat \<Rightarrow> nat \<Rightarrow> nat \<Rightarrow> nat \<Rightarrow> nat \<Rightarrow> nat \<Rightarrow> nat \<Rightarrow> nat \<Rightarrow> nat \<Rightarrow> v4l2_dv_timings" where
  "bt_timings w h pol pclk hfp hs hbp vfp vs vbp std =
     \<lparr>type = 0, bt = \<lparr>width = w, height = h, interlaced = 0, polarities = pol,
       pixelclock = pclk, hfrontporch = hfp, hsync = hs, hbackporch = hbp,
       vfrontporch = vfp, vsync = vs, vbackporch = vbp, il_vfrontporch = 0, il_vsync = 0,
       il_vbackporch = 0, standards = std, flags = 0\<rparr>\<rparr>"

fun sample_dv_bt :: "dv_bt \<Rightarrow> v4l2_dv_timings" where
  "sample_dv_bt CEA_720X480P59_94 = bt_timings 720 480 0 27000000 16 62 60 9 6 30 1"
| "sample_dv_bt CEA_720X576P50 = bt_timings 720 576 0 27000000 12 64 68 5 5 39 1"
| "sample_dv_bt CEA_1280X720P24 = bt_timings 1280 720 3 59400000 1760 40 220 5 5 20 1"
| "sample_dv_bt CEA_1280X720P25 = bt_timings 1280 720 3 74250000 2420 40 220 5 5 20 1"
| "sample_dv_bt CEA_1280X720P50 = bt_timings 1280 720 3 74250000 440 40 220 5 5 20 1"
| "sample_dv_bt CEA_1280X720P60 = bt_timings 1280 720 3 74250000 110 40 220 5 5 20 1"
| "sample_dv_bt CEA_1920X1080P24 = bt_timings 1920 1080 3 74250000 638 44 148 4 5 36 1"
| "sample_dv_bt CEA_1920X1080P25 = bt_timings 1920 1080 3 74250000 528 44 148 4 5 36 1"
| "sample_dv_bt CEA_1920X1080P30 = bt_timings 1920 1080 3 74250000 88 44 148 4 5 36 1"
| "sample_dv_bt CEA_1920X1080P50 = bt_timings 1920 1080 3 148500000 528 44 148 4 5 36 1"
| "sample_dv_bt CEA_1920X1080P60 = bt_timings 1920 1080 3 148500000 88 44 148 4 5 36 1"
| "sample_dv_bt DMT_640X350P85 = bt_timings 640 350 2 31500000 32 64 96 32 3 60 2"
| "sample_dv_bt DMT_640X400P85 = bt_timings 640 400 1 31500000 32 64 96 1 3 41 2"
| "sample_dv_bt other = zero_timings"

definition kernel32 :: kernel where
  "kernel32 = \<lparr>HZ = 100, BITS_PER_LONG = 32, shl_overflow = (\<lambda>n. 0),
     V4L2_DV_BT = sample_dv_bt,
     v4l2_calc_aspect_ratio = (\<lambda>h v. \<lparr>numerator = 16, denominator = 9\<rparr>),
     v4l_match_dv_timings = exact_tolerance_match,
     v4l2_detect_cvt = (\<lambda>h f v p t. (False, t)),
     v4l2_detect_gtf = (\<lambda>h f v p a t. (False, t))\<rparr>"

definition quiet_bus :: world where
  "quiet_bus = \<lparr>replies = [], xfers = [], notified = [], delayed_ms = 0,
     queued = []\<rparr>"

definition adv7604_probe_state :: "kernel \<Rightarrow> adv7604_type \<Rightarrow> adv7604_state" where
  "adv7604_probe_state k ty =
     \<lparr>info = adv7604_chip_infos k ty, mode = ADV7604_MODE_COMP, timings = zero_timings,
      edid = replicate 256 0, edid_blocks = 0,
      aspect_ratio = \<lparr>numerator = 0, denominator = 0\<rparr>,
      rgb_quantization_range = 0, restart_stdi_once = True\<rparr>"

text \<open>How many transfers a call made: the growth of the log.\<close>

definition attempts :: "world \<Rightarrow> world \<Rightarrow> nat" where
  "attempts w w' = length (xfers w') - length (xfers w)"

definition failing :: "(int \<times> u8) list \<Rightarrow> nat \<Rightarrow> bool" where
  "failing rs n = (n < length rs \<and> fst (rs ! n) \<noteq> 0)"

section \<open>Properties\<close>

lemma i2c_smbus_xfer_log:
  "xfers (snd (i2c_smbus_xfer w x)) = xfers w @ [x]"
  by (simp add: i2c_smbus_xfer_def split: list.split)

lemma i2c_smbus_xfer_replies:
  "replies (snd (i2c_smbus_xfer w x)) = tl (replies w)"
  by (simp add: i2c_smbus_xfer_def split: list.split)

lemma i2c_smbus_xfer_status:
  "fst (fst (i2c_smbus_xfer w x)) = 0 \<longleftrightarrow> \<not> failing (replies w) 0"
  by (simp add: i2c_smbus_xfer_def failing_def split: list.split)

subsection \<open>The register access layer\<close>

lemma write_byte_loop_done:
  "3 \<le> i \<Longrightarrow> adv_smbus_write_byte_data_loop w c cmd v i e = (e, w)"
  by (subst adv_smbus_write_byte_data_loop.simps) simp

lemma write_byte_loop_step:
  "i < 3 \<Longrightarrow> adv_smbus_write_byte_data_loop w c cmd v i e =
     (if fst (fst (i2c_smbus_xfer w (SMBUS_WRITE_BYTE c cmd v))) = 0
      then (0, snd (i2c_smbus_xfer w (SMBUS_WRITE_BYTE c cmd v)))
      else adv_smbus_write_byte_data_loop (snd (i2c_smbus_xfer w (SMBUS_WRITE_BYTE c cmd v)))
             c cmd v (Suc i) (fst (fst (i2c_smbus_xfer w (SMBUS_WRITE_BYTE c cmd v)))))"
  by (subst adv_smbus_write_byte_data_loop.simps) (simp split: prod.split)

lemma failing_tl: "failing (tl rs) n = failing rs (Suc n)"
  by (cases rs) (simp_all add: failing_def)

lemma write_byte_unfold:
  "adv_smbus_write_byte_data w c cmd v =
    (let x = SMBUS_WRITE_BYTE c cmd v;
         a1 = i2c_smbus_xfer w x; a2 = i2c_smbus_xfer (snd a1) x; a3 = i2c_smbus_xfer (snd a2) x
     in if fst (fst a1) = 0 then (0, snd a1)
        else if fst (fst a2) = 0 then (0, snd a2)
        else if fst (fst a3) = 0 then (0, snd a3)
        else (fst (fst a3), snd a3))"
  by (simp add: adv_smbus_write_byte_data_def write_byte_loop_step write_byte_loop_done Let_def)

lemma write_byte_attempts:
  "attempts w (snd (adv_smbus_write_byte_data w c cmd v)) =
     (if \<not> failing (replies w) 0 then 1 else if \<not> failing (replies w) 1 then 2 else 3)"
  by (simp add: write_byte_unfold Let_def i2c_smbus_xfer_log i2c_smbus_xfer_replies
      i2c_smbus_xfer_status attempts_def failing_tl)

lemma write_byte_xfers:
  "xfers (snd (adv_smbus_write_byte_data w c cmd v)) =
     xfers w @ replicate (attempts w (snd (adv_smbus_write_byte_data w c cmd v)))
                 (SMBUS_WRITE_BYTE c cmd v)"
  by (simp add: write_byte_unfold Let_def i2c_smbus_xfer_log i2c_smbus_xfer_replies
      i2c_smbus_xfer_status attempts_def failing_tl numeral_2_eq_2 numeral_3_eq_3)

lemma write_byte_result:
  "fst (adv_smbus_write_byte_data w c cmd v) \<noteq> 0 \<longleftrightarrow>
     failing (replies w) 0 \<and> failing (replies w) 1 \<and> failing (replies w) 2"
  by (simp add: write_byte_unfold Let_def i2c_smbus_xfer_log i2c_smbus_xfer_replies
      i2c_smbus_xfer_status failing_tl numeral_2_eq_2)

lemma read_byte_xfers:
  "xfers (snd (adv_smbus_read_byte_data w c cmd)) = xfers w @ [SMBUS_READ_BYTE c cmd]"
  by (auto simp: adv_smbus_read_byte_data_def adv_smbus_read_byte_data_check_def
      i2c_smbus_xfer_def split: prod.split list.split)

lemma read_byte_result:
  "fst (adv_smbus_read_byte_data w c cmd) = read_result (replies w) 0"
  by (auto simp: adv_smbus_read_byte_data_def adv_smbus_read_byte_data_check_def
      i2c_smbus_xfer_def read_result_def split: prod.split list.split)

lemma block_write_xfers:
  "xfers (snd (adv_smbus_write_i2c_block_data w c cmd len vals)) =
     xfers w @ [SMBUS_WRITE_BLOCK c cmd (take (min len I2C_SMBUS_BLOCK_MAX) vals)]"
  by (auto simp: adv_smbus_write_i2c_block_data_def Let_def min_def i2c_smbus_xfer_def
      split: prod.split list.split)

lemma block_write_result:
  "fst (adv_smbus_write_i2c_block_data w c cmd len vals) =
     (case replies w of [] \<Rightarrow> 0 | r # rs \<Rightarrow> fst r)"
  by (auto simp: adv_smbus_write_i2c_block_data_def Let_def i2c_smbus_xfer_def
      split: prod.split list.split)

text \<open>
  Claim C7, as the code has it. A byte write makes at most three transfers: it stops at
  the first that succeeds, and returns a bus error only after three failures in a row.
  A byte read makes exactly one transfer and returns \<open>-EIO\<close> when it fails. A block
  write (the transfers that carry the EDID) also makes exactly one transfer and returns
  its status: it is not retried.
\<close>

theorem register_access_retry_policy:
  "(attempts w (snd (adv_smbus_write_byte_data w c cmd v)) =
      (if \<not> failing (replies w) 0 then 1 else if \<not> failing (replies w) 1 then 2 else 3))
   \<and> xfers (snd (adv_smbus_write_byte_data w c cmd v)) =
       xfers w @ replicate (attempts w (snd (adv_smbus_write_byte_data w c cmd v)))
                   (SMBUS_WRITE_BYTE c cmd v)
   \<and> (fst (adv_smbus_write_byte_data w c cmd v) \<noteq> 0 \<longleftrightarrow>
        failing (replies w) 0 \<and> failing (replies w) 1 \<and> failing (replies w) 2)
   \<and> xfers (snd (adv_smbus_read_byte_data w c cmd)) = xfers w @ [SMBUS_READ_BYTE c cmd]
   \<and> (failing (replies w) 0 \<longrightarrow> fst (adv_smbus_read_byte_data w c cmd) = - EIO)
   \<and> xfers (snd (adv_smbus_write_i2c_block_data w c cmd len vals)) =
       xfers w @ [SMBUS_WRITE_BLOCK c cmd (take (min len I2C_SMBUS_BLOCK_MAX) vals)]
   \<and> (failing (replies w) 0 \<longrightarrow>
        fst (adv_smbus_write_i2c_block_data w c cmd len vals) = fst (hd (replies w)))"
  using write_byte_attempts [of w c cmd v] write_byte_xfers [of w c cmd v]
    write_byte_result [of w c cmd v] read_byte_xfers [of w c cmd]
    block_write_xfers [of w c cmd len vals]
  by (auto simp: read_byte_result block_write_result read_result_def failing_def
      split: list.split)

text \<open>
  Witness for C7: a bus that fails three times and then works. The byte write gives up
  after three transfers, the read and the block write after one.
\<close>

theorem register_access_retry_policy_witness:
  "attempts (quiet_bus\<lparr>replies := [(-5, 0), (-5, 0), (-5, 0), (0, 0)]\<rparr>)
     (snd (adv_smbus_write_byte_data (quiet_bus\<lparr>replies := [(-5, 0), (-5, 0), (-5, 0), (0, 0)]\<rparr>)
        I2C_CP 0x86 4)) = 3
   \<and> fst (adv_smbus_write_byte_data (quiet_bus\<lparr>replies := [(-5, 0), (-5, 0), (-5, 0), (0, 0)]\<rparr>)
        I2C_CP 0x86 4) \<noteq> 0
   \<and> fst (adv_smbus_read_byte_data (quiet_bus\<lparr>replies := [(-5, 0), (-5, 0), (-5, 0), (0, 0)]\<rparr>)
        I2C_CP 0x86) = - EIO
   \<and> fst (adv_smbus_write_i2c_block_data
        (quiet_bus\<lparr>replies := [(-5, 0), (-5, 0), (-5, 0), (0, 0)]\<rparr>) I2C_CP 0x86 2 [1, 2]) = - 5"
  using register_access_retry_policy
    [of "quiet_bus\<lparr>replies := [(-5, 0), (-5, 0), (-5, 0), (0, 0)]\<rparr>" I2C_CP "0x86" 4 2 "[1, 2]"]
  by (simp add: failing_def quiet_bus_def)

text \<open>
  Counterexample to C7 as stated (retries for every write, block transfers included): on a
  bus whose first transfer fails and whose second would succeed, the block write makes
  one transfer and hands the error back.
\<close>

theorem block_write_not_retried:
  "adv_smbus_write_i2c_block_data (quiet_bus\<lparr>replies := [(-5, 0), (0, 0)]\<rparr>)
     I2C_EDID 0 I2C_SMBUS_BLOCK_MAX (replicate 32 0)
   = (-5, quiet_bus\<lparr>replies := [(0, 0)],
                     xfers := [SMBUS_WRITE_BLOCK I2C_EDID 0 (replicate 32 0)]\<rparr>)"
  by (simp add: adv_smbus_write_i2c_block_data_def i2c_smbus_xfer_def quiet_bus_def
      I2C_SMBUS_BLOCK_MAX_def)

subsection \<open>Page routing\<close>

lemma BIT_and_mask:
  "page < BITS_PER_LONG k \<Longrightarrow> (BIT k page AND m = 0) \<longleftrightarrow> \<not> bit m page"
  using and_exp_eq_0_iff_not_bit [of m page] by (simp add: BIT_def and.commute)

lemma nat_and_255: "(n::nat) AND 0xff = n mod 256"
proof -
  have "n AND mask 8 = n mod 2 ^ 8"
    by (simp only: take_bit_eq_mod flip: take_bit_eq_mask)
  then show ?thesis by (simp add: mask_eq_exp_minus_1)
qed

lemma page_cases:
  "(p::nat) \<le> 12 \<Longrightarrow> p = 0 \<or> p = 1 \<or> p = 2 \<or> p = 3 \<or> p = 4 \<or> p = 5 \<or> p = 6
     \<or> p = 7 \<or> p = 8 \<or> p = 9 \<or> p = 10 \<or> p = 11 \<or> p = 12"
  by arith

lemma bit_above_13: "(m::nat) < 2 ^ 13 \<Longrightarrow> 13 \<le> p \<Longrightarrow> \<not> bit m p"
proof -
  assume "m < 2 ^ 13" and "13 \<le> p"
  then have "m < 2 ^ p"
    using power_increasing [of 13 p "2::nat"] by simp
  then show ?thesis by (simp add: bit_nat_def)
qed

lemmas page_defs = ADV7604_PAGE_IO_def ADV7604_PAGE_AVLINK_def ADV7604_PAGE_CEC_def
  ADV7604_PAGE_INFOFRAME_def ADV7604_PAGE_ESDP_def ADV7604_PAGE_DPP_def
  ADV7604_PAGE_AFE_def ADV7604_PAGE_REP_def ADV7604_PAGE_EDID_def ADV7604_PAGE_HDMI_def
  ADV7604_PAGE_TEST_def ADV7604_PAGE_CP_def ADV7604_PAGE_VDP_def

lemmas accessor_defs = io_read_def io_write_def avlink_read_def avlink_write_def
  cec_read_def cec_write_def infoframe_read_def infoframe_write_def esdp_read_def
  esdp_write_def dpp_read_def dpp_write_def afe_read_def afe_write_def rep_read_def
  rep_write_def edid_read_def edid_write_def hdmi_read_def hdmi_write_def test_read_def
  test_write_def cp_read_def cp_write_def vdp_read_def vdp_write_def

lemma read_reg_absent:
  assumes "13 \<le> BITS_PER_LONG k" and "\<not> page_present (info state) (reg div 256)"
  shows "adv7604_read_reg k state w reg = (- EINVAL, w)"
proof (cases "reg div 256 < BITS_PER_LONG k")
  case True
  with assms(2) show ?thesis
    by (simp add: adv7604_read_reg_def Let_def drop_bit_eq_div BIT_and_mask page_present_def)
next
  case False
  with assms(1) have "12 < reg div 256" by simp
  then show ?thesis
    by (simp add: adv7604_read_reg_def Let_def drop_bit_eq_div page_defs)
qed

lemma write_reg_absent:
  assumes "13 \<le> BITS_PER_LONG k" and "\<not> page_present (info state) (reg div 256)"
  shows "adv7604_write_reg k state w reg val = (- EINVAL, w)"
proof (cases "reg div 256 < BITS_PER_LONG k")
  case True
  with assms(2) show ?thesis
    by (simp add: adv7604_write_reg_def Let_def drop_bit_eq_div BIT_and_mask page_present_def)
next
  case False
  with assms(1) have "12 < reg div 256" by simp
  then show ?thesis
    by (simp add: adv7604_write_reg_def Let_def drop_bit_eq_div page_defs)
qed

lemma read_reg_present:
  assumes "13 \<le> BITS_PER_LONG k" and "page_present (info state) (reg div 256)"
    and "reg div 256 \<le> 12"
  shows "adv7604_read_reg k state w reg =
    adv_smbus_read_byte_data w (page_client (reg div 256)) (of_nat (reg mod 256))"
proof -
  from assms have "reg div 256 < BITS_PER_LONG k" by simp
  with assms(2) have "BIT k (reg div 256) AND page_mask (info state) \<noteq> 0"
    by (simp add: BIT_and_mask page_present_def)
  with page_cases [OF assms(3)] show ?thesis
    by (auto simp: adv7604_read_reg_def Let_def drop_bit_eq_div nat_and_255 page_client_def
        accessor_defs page_defs)
qed

lemma write_reg_present:
  assumes "13 \<le> BITS_PER_LONG k" and "page_present (info state) (reg div 256)"
    and "reg div 256 \<le> 12"
  shows "adv7604_write_reg k state w reg val =
    adv_smbus_write_byte_data w (page_client (reg div 256)) (of_nat (reg mod 256)) val"
proof -
  from assms have "reg div 256 < BITS_PER_LONG k" by simp
  with assms(2) have "BIT k (reg div 256) AND page_mask (info state) \<noteq> 0"
    by (simp add: BIT_and_mask page_present_def)
  with page_cases [OF assms(3)] show ?thesis
    by (auto simp: adv7604_write_reg_def Let_def drop_bit_eq_div nat_and_255 page_client_def
        accessor_defs page_defs)
qed

lemma pages_ADV7604:
  assumes "13 \<le> BITS_PER_LONG k"
  shows "page_present (adv7604_chip_infos k ADV7604) p \<longleftrightarrow> p \<le> 12"
proof -
  have m: "page_mask (adv7604_chip_infos k ADV7604) = 8191"
    using assms by (simp add: BIT_def page_defs)
  show ?thesis
  proof (cases "p \<le> 12")
    case True
    from page_cases [OF this] show ?thesis
      unfolding page_present_def m by (auto simp: bit_nat_def)
  next
    case False
    then show ?thesis
      unfolding page_present_def m using bit_above_13 [of 8191 p] by simp
  qed
qed

lemma pages_ADV7611:
  assumes "13 \<le> BITS_PER_LONG k"
  shows "page_present (adv7604_chip_infos k ADV7611) p \<longleftrightarrow> p \<in> {0, 2, 3, 6, 7, 8, 9, 11}"
proof -
  have m: "page_mask (adv7604_chip_infos k ADV7611) = 3021"
    using assms by (simp add: BIT_def page_defs)
  show ?thesis
  proof (cases "p \<le> 12")
    case True
    from page_cases [OF this] show ?thesis
      unfolding page_present_def m by (auto simp: bit_nat_def)
  next
    case False
    then show ?thesis
      unfolding page_present_def m using bit_above_13 [of 3021 p] by simp
  qed
qed

text \<open>
  Claim C8. \<open>unsigned long\<close> has at least 13 bits. When the page of a register address
  is absent from the page mask of the active profile, the generic read and the generic
  write return \<open>-EINVAL\<close> and leave the environment as it was: no transfer is made.
  When the page is present (one of the 13 pages), the operation is the byte read or
  byte write on that page's client, at the low 8 bits of the address. On the ADV7604
  all 13 pages are present; on the ADV7611 the pages IO, CEC, InfoFrame, AFE, Repeater,
  EDID, HDMI and CP.
\<close>

theorem register_page_routing:
  "13 \<le> BITS_PER_LONG k \<Longrightarrow>
   (\<not> page_present (info state) (reg div 256) \<longrightarrow>
      adv7604_read_reg k state w reg = (- EINVAL, w) \<and>
      adv7604_write_reg k state w reg val = (- EINVAL, w))
   \<and> (page_present (info state) (reg div 256) \<and> reg div 256 \<le> 12 \<longrightarrow>
      adv7604_read_reg k state w reg =
        adv_smbus_read_byte_data w (page_client (reg div 256)) (of_nat (reg mod 256)) \<and>
      adv7604_write_reg k state w reg val =
        adv_smbus_write_byte_data w (page_client (reg div 256)) (of_nat (reg mod 256)) val)
   \<and> (page_present (adv7604_chip_infos k ADV7604) p \<longleftrightarrow> p \<le> 12)
   \<and> (page_present (adv7604_chip_infos k ADV7611) p \<longleftrightarrow> p \<in> {0, 2, 3, 6, 7, 8, 9, 11})"
  using read_reg_absent [of k state reg w] write_reg_absent [of k state reg w val]
    read_reg_present [of k state reg w] write_reg_present [of k state reg w val]
    pages_ADV7604 [of k p] pages_ADV7611 [of k p]
  by blast

text \<open>
  Witness for C8: address 0x100 (AVLink page) is rejected on the ADV7611 without a
  transfer, and is read through the AVLink client on the ADV7604.
\<close>

theorem register_page_routing_witness:
  "adv7604_read_reg kernel32 (adv7604_probe_state kernel32 ADV7611) quiet_bus 0x100
     = (- EINVAL, quiet_bus)
   \<and> adv7604_write_reg kernel32 (adv7604_probe_state kernel32 ADV7611) quiet_bus 0x100 0xff
     = (- EINVAL, quiet_bus)
   \<and> adv7604_read_reg kernel32 (adv7604_probe_state kernel32 ADV7604) quiet_bus 0x100
     = adv_smbus_read_byte_data quiet_bus I2C_AVLINK 0"
  using register_page_routing
      [of kernel32 "adv7604_probe_state kernel32 ADV7611" "0x100" quiet_bus "0xff" 1]
    register_page_routing
      [of kernel32 "adv7604_probe_state kernel32 ADV7604" "0x100" quiet_bus "0xff" 1]
  by (simp add: kernel32_def adv7604_probe_state_def page_client_def page_defs)

subsection \<open>The sample values\<close>

lemma kernel32_simps:
  "HZ kernel32 = 100" "BITS_PER_LONG kernel32 = 32"
  by (simp_all add: kernel32_def)

lemma probe_state_simps:
  "info (adv7604_probe_state k ty) = adv7604_chip_infos k ty"
  "mode (adv7604_probe_state k ty) = ADV7604_MODE_COMP"
  "edid_blocks (adv7604_probe_state k ty) = 0"
  "restart_stdi_once (adv7604_probe_state k ty) = True"
  "edid (adv7604_probe_state k ty) = replicate 256 0"
  by (simp_all add: adv7604_probe_state_def)

lemma chip_info_afe:
  "has_afe (adv7604_chip_infos k ADV7604) = True"
  "has_afe (adv7604_chip_infos k ADV7611) = False"
  by simp_all

lemma quiet_bus_simps:
  "replies quiet_bus = []" "xfers quiet_bus = []" "notified quiet_bus = []"
  "delayed_ms quiet_bus = 0" "queued quiet_bus = []"
  by (simp_all add: quiet_bus_def)

subsection \<open>Input routing\<close>

lemma quiet_write_byte:
  "replies w = [] \<Longrightarrow>
   adv_smbus_write_byte_data w c cmd v = (0, w\<lparr>xfers := xfers w @ [SMBUS_WRITE_BYTE c cmd v]\<rparr>)"
  by (simp add: write_byte_unfold Let_def i2c_smbus_xfer_def)

lemma quiet_write_reg:
  assumes "13 \<le> BITS_PER_LONG k" and "page_present (info state) (fst rv div 256)"
    and "fst rv div 256 \<le> 12" and "replies w = []"
  shows "adv7604_write_reg k state w (fst rv) (snd rv) =
     (0, w\<lparr>xfers := xfers w @ [reg_write_xfer rv]\<rparr>)"
  using assms by (simp add: write_reg_present quiet_write_byte reg_write_xfer_def)

lemma quiet_write_reg_seq:
  assumes "13 \<le> BITS_PER_LONG k"
    and "\<forall>rv \<in> set rs. page_present (info state) (fst rv div 256) \<and> fst rv div 256 \<le> 12"
    and "replies w = []"
  shows "adv7604_write_reg_seq k state w rs = w\<lparr>xfers := xfers w @ map reg_write_xfer rs\<rparr>"
  using assms(2,3)
proof (induction rs arbitrary: w)
  case Nil
  then show ?case by simp
next
  case (Cons rv rs)
  obtain reg val where rv: "rv = (reg, val)" by (cases rv)
  from Cons.prems have "adv7604_write_reg k state w (fst rv) (snd rv) =
      (0, w\<lparr>xfers := xfers w @ [reg_write_xfer rv]\<rparr>)"
    using quiet_write_reg [OF assms(1)] by simp
  moreover have "adv7604_write_reg_seq k state (w\<lparr>xfers := xfers w @ [reg_write_xfer rv]\<rparr>) rs
      = w\<lparr>xfers := xfers w @ [reg_write_xfer rv]\<rparr>
         \<lparr>xfers := xfers (w\<lparr>xfers := xfers w @ [reg_write_xfer rv]\<rparr>) @ map reg_write_xfer rs\<rparr>"
    using Cons.prems by (intro Cons.IH) simp_all
  ultimately show ?case by (simp add: rv)
qed

lemma seq_pages_afe:
  "\<forall>rv \<in> set adv7604_recommended_settings_afe. fst rv div 256 \<le> 12"
  by (simp add: adv7604_recommended_settings_afe_def ADV7604_REG_def page_defs push_bit_eq_mult)

lemma seq_pages_hdmi:
  "\<forall>rv \<in> set adv7604_recommended_settings_hdmi. fst rv div 256 \<le> 12"
  by (simp add: adv7604_recommended_settings_hdmi_def ADV7604_REG_def page_defs push_bit_eq_mult)

lemma quiet_seq_ADV7604:
  assumes "13 \<le> BITS_PER_LONG k" and "info state = adv7604_chip_infos k ADV7604"
    and "\<forall>rv \<in> set rs. fst rv div 256 \<le> 12" and "replies w = []"
  shows "adv7604_write_reg_seq k state w rs = w\<lparr>xfers := xfers w @ map reg_write_xfer rs\<rparr>"
  using assms pages_ADV7604 [OF assms(1)] by (intro quiet_write_reg_seq) simp_all

lemma s_routing_trace_hdmi:
  assumes "13 \<le> BITS_PER_LONG k" and "info state = adv7604_chip_infos k ADV7604"
    and "replies w = []"
  shows "snd (snd (adv7604_s_routing k state w ADV7604_MODE_HDMI)) =
     w\<lparr>xfers := xfers w
        @ [SMBUS_WRITE_BYTE I2C_IO 0x15 0xbe, SMBUS_WRITE_BYTE I2C_HDMI 0x1a 0x1a,
           SMBUS_WRITE_BYTE I2C_HDMI 0x01 0x78]
        @ map reg_write_xfer adv7604_recommended_settings_hdmi
        @ [SMBUS_WRITE_BYTE I2C_AFE 0x00 0xff, SMBUS_WRITE_BYTE I2C_AFE 0x01 0xfe,
           SMBUS_WRITE_BYTE I2C_AFE 0xc8 0x40, SMBUS_WRITE_BYTE I2C_CP 0x3e 0x00,
           SMBUS_WRITE_BYTE I2C_CP 0xc3 0x39, SMBUS_WRITE_BYTE I2C_CP 0x40 0x80]
        @ [SMBUS_WRITE_BYTE I2C_HDMI 0x1a 0x0a, SMBUS_WRITE_BYTE I2C_HDMI 0x01 0x00,
           SMBUS_WRITE_BYTE I2C_IO 0x15 0xa0]\<rparr>"
  using assms seq_pages_hdmi
  by (simp add: adv7604_s_routing_def adv7604_has_afe_def Let_def disable_input_def
      select_input_def enable_input_def accessor_defs quiet_write_byte
      adv7604_set_termination_def quiet_seq_ADV7604)

lemma s_routing_trace_analog:
  assumes "13 \<le> BITS_PER_LONG k" and "info state = adv7604_chip_infos k ADV7604"
    and "replies w = []" and "input = ADV7604_MODE_COMP \<or> input = ADV7604_MODE_GR"
  shows "snd (snd (adv7604_s_routing k state w input)) =
     w\<lparr>xfers := xfers w
        @ [SMBUS_WRITE_BYTE I2C_IO 0x15 0xbe, SMBUS_WRITE_BYTE I2C_HDMI 0x1a 0x1a,
           SMBUS_WRITE_BYTE I2C_HDMI 0x01 0x78]
        @ map reg_write_xfer adv7604_recommended_settings_afe
        @ [SMBUS_WRITE_BYTE I2C_AFE 0x00 0x08, SMBUS_WRITE_BYTE I2C_AFE 0x01 0x06,
           SMBUS_WRITE_BYTE I2C_AFE 0xc8 0x00]
        @ [SMBUS_WRITE_BYTE I2C_IO 0x15 0xb0]\<rparr>"
  using assms seq_pages_afe
  by (auto simp: adv7604_s_routing_def adv7604_has_afe_def Let_def disable_input_def
      select_input_def select_input_analog_def enable_input_def accessor_defs quiet_write_byte
      adv7604_set_termination_def quiet_seq_ADV7604)

text \<open>
  Claim C10. On a profile without an analog front end, routing to any input other than
  HDMI returns \<open>-EINVAL\<close> with the driver state and the environment untouched: the
  mode is not stored and no register is accessed. On a profile with an analog front end
  every requested mode is stored, and the environment is the one left by
  \<open>disable_input\<close>, then \<open>select_input\<close>, then \<open>enable_input\<close>, all run with the
  new mode. On the ADV7604, on a bus where every transfer succeeds, the transfers made
  are, in order: the three writes that disable the input, the profile's preset sequence
  for the mode followed by the AFE (and CP) writes of \<open>select_input\<close>, and the writes
  that enable the input.
\<close>

theorem s_routing_afe_gate:
  "(\<not> has_afe (info state) \<and> input \<noteq> ADV7604_MODE_HDMI \<longrightarrow>
      adv7604_s_routing k state w input = (- EINVAL, state, w))
   \<and> (has_afe (info state) \<longrightarrow>
      adv7604_s_routing k state w input =
        (0, state\<lparr>mode := input\<rparr>,
         enable_input (state\<lparr>mode := input\<rparr>)
           (select_input k (state\<lparr>mode := input\<rparr>)
             (disable_input (state\<lparr>mode := input\<rparr>) w))))
   \<and> (13 \<le> BITS_PER_LONG k \<and> info state = adv7604_chip_infos k ADV7604 \<and> replies w = [] \<longrightarrow>
      snd (snd (adv7604_s_routing k state w ADV7604_MODE_HDMI)) =
        w\<lparr>xfers := xfers w
          @ [SMBUS_WRITE_BYTE I2C_IO 0x15 0xbe, SMBUS_WRITE_BYTE I2C_HDMI 0x1a 0x1a,
             SMBUS_WRITE_BYTE I2C_HDMI 0x01 0x78]
          @ map reg_write_xfer adv7604_recommended_settings_hdmi
          @ [SMBUS_WRITE_BYTE I2C_AFE 0x00 0xff, SMBUS_WRITE_BYTE I2C_AFE 0x01 0xfe,
             SMBUS_WRITE_BYTE I2C_AFE 0xc8 0x40, SMBUS_WRITE_BYTE I2C_CP 0x3e 0x00,
             SMBUS_WRITE_BYTE I2C_CP 0xc3 0x39, SMBUS_WRITE_BYTE I2C_CP 0x40 0x80]
          @ [SMBUS_WRITE_BYTE I2C_HDMI 0x1a 0x0a, SMBUS_WRITE_BYTE I2C_HDMI 0x01 0x00,
             SMBUS_WRITE_BYTE I2C_IO 0x15 0xa0]\<rparr>
      \<and> (input = ADV7604_MODE_COMP \<or> input = ADV7604_MODE_GR \<longrightarrow>
          snd (snd (adv7604_s_routing k state w input)) =
            w\<lparr>xfers := xfers w
              @ [SMBUS_WRITE_BYTE I2C_IO 0x15 0xbe, SMBUS_WRITE_BYTE I2C_HDMI 0x1a 0x1a,
                 SMBUS_WRITE_BYTE I2C_HDMI 0x01 0x78]
              @ map reg_write_xfer adv7604_recommended_settings_afe
              @ [SMBUS_WRITE_BYTE I2C_AFE 0x00 0x08, SMBUS_WRITE_BYTE I2C_AFE 0x01 0x06,
                 SMBUS_WRITE_BYTE I2C_AFE 0xc8 0x00]
              @ [SMBUS_WRITE_BYTE I2C_IO 0x15 0xb0]\<rparr>))"
proof (intro conjI impI)
  assume "\<not> has_afe (info state) \<and> input \<noteq> ADV7604_MODE_HDMI"
  then show "adv7604_s_routing k state w input = (- EINVAL, state, w)"
    by (simp add: adv7604_s_routing_def adv7604_has_afe_def)
next
  assume "has_afe (info state)"
  then show "adv7604_s_routing k state w input =
        (0, state\<lparr>mode := input\<rparr>,
         enable_input (state\<lparr>mode := input\<rparr>)
           (select_input k (state\<lparr>mode := input\<rparr>)
             (disable_input (state\<lparr>mode := input\<rparr>) w)))"
    by (simp add: adv7604_s_routing_def adv7604_has_afe_def Let_def)
next
  assume a: "13 \<le> BITS_PER_LONG k \<and> info state = adv7604_chip_infos k ADV7604 \<and> replies w = []"
  then show "snd (snd (adv7604_s_routing k state w ADV7604_MODE_HDMI)) =
        w\<lparr>xfers := xfers w
          @ [SMBUS_WRITE_BYTE I2C_IO 0x15 0xbe, SMBUS_WRITE_BYTE I2C_HDMI 0x1a 0x1a,
             SMBUS_WRITE_BYTE I2C_HDMI 0x01 0x78]
          @ map reg_write_xfer adv7604_recommended_settings_hdmi
          @ [SMBUS_WRITE_BYTE I2C_AFE 0x00 0xff, SMBUS_WRITE_BYTE I2C_AFE 0x01 0xfe,
             SMBUS_WRITE_BYTE I2C_AFE 0xc8 0x40, SMBUS_WRITE_BYTE I2C_CP 0x3e 0x00,
             SMBUS_WRITE_BYTE I2C_CP 0xc3 0x39, SMBUS_WRITE_BYTE I2C_CP 0x40 0x80]
          @ [SMBUS_WRITE_BYTE I2C_HDMI 0x1a 0x0a, SMBUS_WRITE_BYTE I2C_HDMI 0x01 0x00,
             SMBUS_WRITE_BYTE I2C_IO 0x15 0xa0]\<rparr>"
    using s_routing_trace_hdmi [of k state w] by simp
next
  assume a: "13 \<le> BITS_PER_LONG k \<and> info state = adv7604_chip_infos k ADV7604 \<and> replies w = []"
    and b: "input = ADV7604_MODE_COMP \<or> input = ADV7604_MODE_GR"
  then show "snd (snd (adv7604_s_routing k state w input)) =
            w\<lparr>xfers := xfers w
              @ [SMBUS_WRITE_BYTE I2C_IO 0x15 0xbe, SMBUS_WRITE_BYTE I2C_HDMI 0x1a 0x1a,
                 SMBUS_WRITE_BYTE I2C_HDMI 0x01 0x78]
              @ map reg_write_xfer adv7604_recommended_settings_afe
              @ [SMBUS_WRITE_BYTE I2C_AFE 0x00 0x08, SMBUS_WRITE_BYTE I2C_AFE 0x01 0x06,
                 SMBUS_WRITE_BYTE I2C_AFE 0xc8 0x00]
              @ [SMBUS_WRITE_BYTE I2C_IO 0x15 0xb0]\<rparr>"
    using s_routing_trace_analog [of k state w input] by simp
qed

text \<open>
  Witness for C10: routing to the graphics input is refused on the ADV7611, and on the
  ADV7604 makes the 24 writes of the analog path in order.
\<close>

theorem s_routing_afe_gate_witness:
  "adv7604_s_routing kernel32 (adv7604_probe_state kernel32 ADV7611) quiet_bus ADV7604_MODE_GR
     = (- EINVAL, adv7604_probe_state kernel32 ADV7611, quiet_bus)
   \<and> snd (snd (adv7604_s_routing kernel32 (adv7604_probe_state kernel32 ADV7604) quiet_bus
        ADV7604_MODE_GR)) =
       quiet_bus\<lparr>xfers :=
         [SMBUS_WRITE_BYTE I2C_IO 0x15 0xbe, SMBUS_WRITE_BYTE I2C_HDMI 0x1a 0x1a,
          SMBUS_WRITE_BYTE I2C_HDMI 0x01 0x78]
         @ map reg_write_xfer adv7604_recommended_settings_afe
         @ [SMBUS_WRITE_BYTE I2C_AFE 0x00 0x08, SMBUS_WRITE_BYTE I2C_AFE 0x01 0x06,
            SMBUS_WRITE_BYTE I2C_AFE 0xc8 0x00]
         @ [SMBUS_WRITE_BYTE I2C_IO 0x15 0xb0]\<rparr>"
proof
  show "adv7604_s_routing kernel32 (adv7604_probe_state kernel32 ADV7611) quiet_bus
      ADV7604_MODE_GR = (- EINVAL, adv7604_probe_state kernel32 ADV7611, quiet_bus)"
    using s_routing_afe_gate
      [of "adv7604_probe_state kernel32 ADV7611" ADV7604_MODE_GR kernel32 quiet_bus,
        THEN conjunct1]
    by (simp add: probe_state_simps chip_info_afe del: adv7604_chip_infos.simps)
next
  show "snd (snd (adv7604_s_routing kernel32 (adv7604_probe_state kernel32 ADV7604) quiet_bus
        ADV7604_MODE_GR)) =
       quiet_bus\<lparr>xfers :=
         [SMBUS_WRITE_BYTE I2C_IO 0x15 0xbe, SMBUS_WRITE_BYTE I2C_HDMI 0x1a 0x1a,
          SMBUS_WRITE_BYTE I2C_HDMI 0x01 0x78]
         @ map reg_write_xfer adv7604_recommended_settings_afe
         @ [SMBUS_WRITE_BYTE I2C_AFE 0x00 0x08, SMBUS_WRITE_BYTE I2C_AFE 0x01 0x06,
            SMBUS_WRITE_BYTE I2C_AFE 0xc8 0x00]
         @ [SMBUS_WRITE_BYTE I2C_IO 0x15 0xb0]\<rparr>"
    using s_routing_afe_gate
      [of "adv7604_probe_state kernel32 ADV7604" ADV7604_MODE_GR kernel32 quiet_bus,
        THEN conjunct2, THEN conjunct2]
    by (simp add: probe_state_simps kernel32_simps quiet_bus_simps
        del: adv7604_chip_infos.simps)
qed

subsection \<open>Programming the EDID\<close>

lemma xfer_frame:
  "notified (snd (i2c_smbus_xfer w x)) = notified w"
  "delayed_ms (snd (i2c_smbus_xfer w x)) = delayed_ms w"
  "queued (snd (i2c_smbus_xfer w x)) = queued w"
  by (simp_all add: i2c_smbus_xfer_def split: list.split)

lemma read_byte_frame:
  "notified (snd (adv_smbus_read_byte_data w c cmd)) = notified w"
  "delayed_ms (snd (adv_smbus_read_byte_data w c cmd)) = delayed_ms w"
  "queued (snd (adv_smbus_read_byte_data w c cmd)) = queued w"
  "replies (snd (adv_smbus_read_byte_data w c cmd)) = tl (replies w)"
  by (auto simp: adv_smbus_read_byte_data_def adv_smbus_read_byte_data_check_def
      i2c_smbus_xfer_def split: prod.split list.split)

lemma write_byte_frame:
  "notified (snd (adv_smbus_write_byte_data w c cmd v)) = notified w"
  "delayed_ms (snd (adv_smbus_write_byte_data w c cmd v)) = delayed_ms w"
  "queued (snd (adv_smbus_write_byte_data w c cmd v)) = queued w"
  by (simp_all add: write_byte_unfold Let_def xfer_frame)

lemma block_write_frame:
  "notified (snd (adv_smbus_write_i2c_block_data w c cmd len vals)) = notified w"
  "delayed_ms (snd (adv_smbus_write_i2c_block_data w c cmd len vals)) = delayed_ms w"
  "queued (snd (adv_smbus_write_i2c_block_data w c cmd len vals)) = queued w"
  by (auto simp: adv_smbus_write_i2c_block_data_def Let_def i2c_smbus_xfer_def
      split: prod.split list.split)

lemma rep_write_and_or_unfold:
  "rep_write_and_or w reg m v =
     rep_write (snd (rep_read w reg)) reg (and_or (fst (rep_read w reg)) m v)"
  by (simp add: rep_write_and_or_def split: prod.split)

lemma rep_write_and_or_frame:
  "notified (snd (rep_write_and_or w reg m v)) = notified w"
  "delayed_ms (snd (rep_write_and_or w reg m v)) = delayed_ms w"
  "queued (snd (rep_write_and_or w reg m v)) = queued w"
  by (simp_all add: rep_write_and_or_unfold rep_read_def rep_write_def write_byte_frame
      read_byte_frame)

lemma block_loop_step:
  "err = 0 \<and> i < len \<Longrightarrow> edid_write_block_loop w len val i err =
     edid_write_block_loop
       (snd (adv_smbus_write_i2c_block_data w I2C_EDID (of_nat i) I2C_SMBUS_BLOCK_MAX (drop i val)))
       len val (i + I2C_SMBUS_BLOCK_MAX)
       (fst (adv_smbus_write_i2c_block_data w I2C_EDID (of_nat i) I2C_SMBUS_BLOCK_MAX (drop i val)))"
  by (subst edid_write_block_loop.simps) (simp split: prod.split)

lemma block_loop_done:
  "\<not> (err = 0 \<and> i < len) \<Longrightarrow> edid_write_block_loop w len val i err = (err, w)"
  by (subst edid_write_block_loop.simps) auto

lemma block_loop_frame:
  "notified (snd (edid_write_block_loop w len val i err)) = notified w \<and>
   delayed_ms (snd (edid_write_block_loop w len val i err)) = delayed_ms w \<and>
   queued (snd (edid_write_block_loop w len val i err)) = queued w"
proof (induction w len val i err rule: edid_write_block_loop.induct)
  case (1 w len val i err)
  show ?case
  proof (cases "err = 0 \<and> i < len")
    case True
    from "1.IH" [OF True prod.collapse] True show ?thesis
      by (simp add: block_loop_step block_write_frame)
  next
    case False
    then show ?thesis by (simp add: block_loop_done)
  qed
qed

lemma block_data_frame:
  "notified (snd (edid_write_block_data state w len val)) = notified w @ [ADV7604_HOTPLUG False]"
  "delayed_ms (snd (edid_write_block_data state w len val)) = delayed_ms w"
  "queued (snd (edid_write_block_data state w len val)) = queued w"
  by (simp_all add: edid_write_block_data_def Let_def block_loop_frame rep_write_and_or_frame
      v4l2_subdev_notify_def)

lemma poll_start_frame:
  "notified (edid_poll_start state w len val) = notified w @ [ADV7604_HOTPLUG False]"
  "delayed_ms (edid_poll_start state w len val) = delayed_ms w"
  "queued (edid_poll_start state w len val) = queued w"
  by (simp_all add: edid_poll_start_def rep_write_and_or_frame block_data_frame)

lemma read_result_tl: "read_result (tl rs) n = read_result rs (Suc n)"
  by (cases rs) (simp_all add: read_result_def)

lemma rep_read_result: "fst (rep_read w reg) = read_result (replies w) 0"
  by (simp add: rep_read_def read_byte_result)

lemma poll_step:
  "i < 1000 \<Longrightarrow> edid_poll_loop w reg i =
     (if read_result (replies w) 0 AND 1 \<noteq> 0 then (i, snd (rep_read w reg))
      else edid_poll_loop (mdelay (snd (rep_read w reg)) 1) reg (Suc i))"
  using rep_read_result [of w reg]
  by (subst edid_poll_loop.simps) (cases "rep_read w reg", simp)

lemma poll_done: "1000 \<le> i \<Longrightarrow> edid_poll_loop w reg i = (i, w)"
  by (subst edid_poll_loop.simps) simp

lemma mdelay_rep_read:
  "replies (mdelay (snd (rep_read w reg)) ms) = tl (replies w)"
  "delayed_ms (mdelay (snd (rep_read w reg)) ms) = delayed_ms w + ms"
  "queued (mdelay (snd (rep_read w reg)) ms) = queued w"
  "notified (mdelay (snd (rep_read w reg)) ms) = notified w"
  by (simp_all add: mdelay_def rep_read_def read_byte_frame)

lemma poll_timeout:
  "i \<le> 1000 \<Longrightarrow> \<forall>n < 1000 - i. read_result (replies w) n AND 1 = 0 \<Longrightarrow>
   fst (edid_poll_loop w reg i) = 1000 \<and>
   delayed_ms (snd (edid_poll_loop w reg i)) = delayed_ms w + (1000 - i) \<and>
   queued (snd (edid_poll_loop w reg i)) = queued w \<and>
   notified (snd (edid_poll_loop w reg i)) = notified w"
proof (induction "1000 - i" arbitrary: w i)
  case 0
  then show ?case by (simp add: poll_done)
next
  case (Suc m)
  then have i: "i < 1000" by simp
  from Suc.prems(2) i have r0: "read_result (replies w) 0 AND 1 = 0" by simp
  have "\<forall>n < 1000 - Suc i. read_result (replies (mdelay (snd (rep_read w reg)) 1)) n AND 1 = 0"
    using Suc.prems(2) by (simp add: mdelay_rep_read read_result_tl)
  moreover have "m = 1000 - Suc i" using Suc.hyps(2) by simp
  moreover have "Suc i \<le> 1000" using i by simp
  ultimately have "fst (edid_poll_loop (mdelay (snd (rep_read w reg)) 1) reg (Suc i)) = 1000 \<and>
     delayed_ms (snd (edid_poll_loop (mdelay (snd (rep_read w reg)) 1) reg (Suc i))) =
       delayed_ms (mdelay (snd (rep_read w reg)) 1) + (1000 - Suc i) \<and>
     queued (snd (edid_poll_loop (mdelay (snd (rep_read w reg)) 1) reg (Suc i))) =
       queued (mdelay (snd (rep_read w reg)) 1) \<and>
     notified (snd (edid_poll_loop (mdelay (snd (rep_read w reg)) 1) reg (Suc i))) =
       notified (mdelay (snd (rep_read w reg)) 1)"
    using Suc.hyps(1) by blast
  with i r0 show ?case by (simp add: poll_step mdelay_rep_read)
qed

lemma poll_found:
  "i + j < 1000 \<Longrightarrow> read_result (replies w) j AND 1 \<noteq> 0 \<Longrightarrow>
   \<forall>n < j. read_result (replies w) n AND 1 = 0 \<Longrightarrow>
   fst (edid_poll_loop w reg i) = i + j \<and>
   delayed_ms (snd (edid_poll_loop w reg i)) = delayed_ms w + j \<and>
   queued (snd (edid_poll_loop w reg i)) = queued w \<and>
   notified (snd (edid_poll_loop w reg i)) = notified w"
proof (induction j arbitrary: w i)
  case 0
  then show ?case by (simp add: poll_step rep_read_def read_byte_frame)
next
  case (Suc j)
  from Suc.prems have i: "i < 1000" and r0: "read_result (replies w) 0 AND 1 = 0" by simp_all
  have "fst (edid_poll_loop (mdelay (snd (rep_read w reg)) 1) reg (Suc i)) = Suc i + j \<and>
     delayed_ms (snd (edid_poll_loop (mdelay (snd (rep_read w reg)) 1) reg (Suc i))) =
       delayed_ms (mdelay (snd (rep_read w reg)) 1) + j \<and>
     queued (snd (edid_poll_loop (mdelay (snd (rep_read w reg)) 1) reg (Suc i))) =
       queued (mdelay (snd (rep_read w reg)) 1) \<and>
     notified (snd (edid_poll_loop (mdelay (snd (rep_read w reg)) 1) reg (Suc i))) =
       notified (mdelay (snd (rep_read w reg)) 1)"
    using Suc.prems by (intro Suc.IH) (simp_all add: mdelay_rep_read read_result_tl)
  with i r0 show ?case by (simp add: poll_step mdelay_rep_read)
qed

lemma first_set_bit:
  assumes "j < (1000::nat)" and "read_result rs j AND 1 \<noteq> 0"
  obtains j' where "j' < 1000" and "read_result rs j' AND 1 \<noteq> 0"
    and "\<forall>n < j'. read_result rs n AND 1 = 0"
proof -
  define j' where "j' = (LEAST n. read_result rs n AND 1 \<noteq> 0)"
  have a: "read_result rs j' AND 1 \<noteq> 0"
    unfolding j'_def using assms(2) by (rule LeastI)
  have b: "j' \<le> j" unfolding j'_def using assms(2) by (rule Least_le)
  have c: "\<forall>n < j'. read_result rs n AND 1 = 0"
    unfolding j'_def using not_less_Least by blast
  show thesis by (rule that [OF _ a c]) (use b assms(1) in simp)
qed

lemma write_block_unfold:
  "edid_write_block k state w len val =
     (if fst (edid_write_block_data state w len val) \<noteq> 0
      then edid_write_block_data state w len val
      else if fst (edid_poll_loop (edid_poll_start state w len val)
                     (of_nat (edid_status_reg (info state))) 0) = 1000
      then (- EIO, snd (edid_poll_loop (edid_poll_start state w len val)
                     (of_nat (edid_status_reg (info state))) 0))
      else (0, queue_delayed_work (snd (edid_poll_loop (edid_poll_start state w len val)
                     (of_nat (edid_status_reg (info state))) 0)) (HZ k div 10)))"
  by (simp add: edid_write_block_def edid_poll_start_def Let_def split: prod.split)

text \<open>
  A status read whose transfer fails returns \<open>-EIO\<close>, an odd number: the polling loop
  takes it for a set valid bit.
\<close>

lemma failed_status_read: "failing rs 0 \<Longrightarrow> read_result rs 0 AND 1 \<noteq> 0"
  by (simp add: failing_def read_result_def EIO_def)

lemma quiet_block_loop:
  "replies w = [] \<Longrightarrow> fst (edid_write_block_loop w len val i 0) = 0 \<and>
     replies (snd (edid_write_block_loop w len val i 0)) = []"
proof (induction "len - i" arbitrary: w i rule: less_induct)
  case less
  show ?case
  proof (cases "i < len")
    case True
    have q: "adv_smbus_write_i2c_block_data w I2C_EDID (of_nat i) I2C_SMBUS_BLOCK_MAX (drop i val)
       = (0, w\<lparr>xfers := xfers w @ [SMBUS_WRITE_BLOCK I2C_EDID (of_nat i)
            (take I2C_SMBUS_BLOCK_MAX (drop i val))]\<rparr>)"
      using less.prems
      by (simp add: adv_smbus_write_i2c_block_data_def i2c_smbus_xfer_def)
    have "len - (i + I2C_SMBUS_BLOCK_MAX) < len - i"
      using True by (simp add: I2C_SMBUS_BLOCK_MAX_def)
    from less.hyps [OF this, of "w\<lparr>xfers := xfers w @ [SMBUS_WRITE_BLOCK I2C_EDID (of_nat i)
            (take I2C_SMBUS_BLOCK_MAX (drop i val))]\<rparr>"] less.prems True q
    show ?thesis by (simp add: block_loop_step)
  next
    case False
    with less.prems show ?thesis by (simp add: block_loop_done)
  qed
qed

lemma quiet_rep_write_and_or:
  "replies w = [] \<Longrightarrow> replies (snd (rep_write_and_or w reg m v)) = []"
  by (simp add: rep_write_and_or_unfold rep_read_def rep_write_def read_byte_frame
      quiet_write_byte)

lemma quiet_poll_start:
  "replies w = [] \<Longrightarrow> fst (edid_write_block_data state w len val) = 0 \<and>
     replies (edid_poll_start state w len val) = []"
  by (simp add: edid_poll_start_def edid_write_block_data_def Let_def quiet_block_loop
      quiet_rep_write_and_or v4l2_subdev_notify_def)

lemma ok_read_byte:
  "replies w = (0, b) # rs \<Longrightarrow> adv_smbus_read_byte_data w c cmd =
     (uint b, w\<lparr>replies := rs, xfers := xfers w @ [SMBUS_READ_BYTE c cmd]\<rparr>)"
  by (simp add: adv_smbus_read_byte_data_def adv_smbus_read_byte_data_check_def
      i2c_smbus_xfer_def)

lemma ok_write_byte:
  "replies w = (0, b) # rs \<Longrightarrow> adv_smbus_write_byte_data w c cmd v =
     (0, w\<lparr>replies := rs, xfers := xfers w @ [SMBUS_WRITE_BYTE c cmd v]\<rparr>)"
  by (simp add: write_byte_unfold Let_def i2c_smbus_xfer_def)

lemma ok_block_write:
  "replies w = (0, b) # rs \<Longrightarrow> adv_smbus_write_i2c_block_data w c cmd len vals =
     (0, w\<lparr>replies := rs,
          xfers := xfers w @ [SMBUS_WRITE_BLOCK c cmd (take (min len I2C_SMBUS_BLOCK_MAX) vals)]\<rparr>)"
  by (simp add: adv_smbus_write_i2c_block_data_def Let_def i2c_smbus_xfer_def min_def)

text \<open>
  The polling loop in terms of the values \<open>rep_read\<close> returns. Suppose the EDID bytes
  were written without error, so that \<open>edid_write_block\<close> enables the internal EDID
  access again and starts to poll. If none of the 1000 reads of the status register
  returns a value with bit 0 set, the result is \<open>-EIO\<close>, no delayed work was queued,
  and 1000 delays of 1 ms were made. If one of the 1000 reads returns a value with bit 0
  set, the result is 0 and \<open>delayed_work_enable_hotplug\<close> was queued once, with a
  delay of \<open>HZ / 10\<close> jiffies (a tenth of a second), after fewer than 1000 delays.
\<close>

lemma edid_valid_poll_bound:
  "fst (edid_write_block_data state w len val) = 0 \<Longrightarrow>
   ((\<forall>n < 1000. read_result (replies (edid_poll_start state w len val)) n AND 1 = 0) \<longrightarrow>
      fst (edid_write_block k state w len val) = - EIO \<and>
      queued (snd (edid_write_block k state w len val)) = queued w \<and>
      delayed_ms (snd (edid_write_block k state w len val)) = delayed_ms w + 1000)
   \<and> ((\<exists>j < 1000. read_result (replies (edid_poll_start state w len val)) j AND 1 \<noteq> 0) \<longrightarrow>
      fst (edid_write_block k state w len val) = 0 \<and>
      queued (snd (edid_write_block k state w len val)) = queued w @ [HZ k div 10] \<and>
      delayed_ms (snd (edid_write_block k state w len val)) < delayed_ms w + 1000)"
proof (intro conjI impI)
  assume d: "fst (edid_write_block_data state w len val) = 0"
    and t: "\<forall>n < 1000. read_result (replies (edid_poll_start state w len val)) n AND 1 = 0"
  from poll_timeout [of 0 "edid_poll_start state w len val"
      "of_nat (edid_status_reg (info state))"] t d
  show "fst (edid_write_block k state w len val) = - EIO"
    and "queued (snd (edid_write_block k state w len val)) = queued w"
    and "delayed_ms (snd (edid_write_block k state w len val)) = delayed_ms w + 1000"
    by (simp_all add: write_block_unfold poll_start_frame)
next
  assume d: "fst (edid_write_block_data state w len val) = 0"
    and "\<exists>j < 1000. read_result (replies (edid_poll_start state w len val)) j AND 1 \<noteq> 0"
  then obtain j where "j < 1000"
    and "read_result (replies (edid_poll_start state w len val)) j AND 1 \<noteq> 0"
    by blast
  then obtain j' where j': "j' < 1000"
    "read_result (replies (edid_poll_start state w len val)) j' AND 1 \<noteq> 0"
    "\<forall>n < j'. read_result (replies (edid_poll_start state w len val)) n AND 1 = 0"
    by (rule first_set_bit)
  from poll_found [of 0 j' "edid_poll_start state w len val"
      "of_nat (edid_status_reg (info state))"] j' d
  show "fst (edid_write_block k state w len val) = 0"
    and "queued (snd (edid_write_block k state w len val)) = queued w @ [HZ k div 10]"
    and "delayed_ms (snd (edid_write_block k state w len val)) < delayed_ms w + 1000"
    by (simp_all add: write_block_unfold poll_start_frame queue_delayed_work_def)
qed

text \<open>
  On the ADV7611 with a one-block EDID: on the quiet bus the status register reads 0 for
  ever and the call times out; on a bus whose ninth transfer (the first status read)
  returns 1, the call succeeds and queues the work with 10 jiffies.
\<close>

lemma edid_poll_examples:
  "fst (edid_write_block kernel32 (adv7604_probe_state kernel32 ADV7611) quiet_bus 128
          (replicate 256 0)) = - EIO
   \<and> queued (snd (edid_write_block kernel32 (adv7604_probe_state kernel32 ADV7611) quiet_bus
          128 (replicate 256 0))) = []
   \<and> fst (edid_write_block kernel32 (adv7604_probe_state kernel32 ADV7611)
          (quiet_bus\<lparr>replies := [(0, 0), (0, 0), (0, 0), (0, 0), (0, 0), (0, 0), (0, 0),
             (0, 0), (0, 1)]\<rparr>) 128 (replicate 256 0)) = 0
   \<and> queued (snd (edid_write_block kernel32 (adv7604_probe_state kernel32 ADV7611)
          (quiet_bus\<lparr>replies := [(0, 0), (0, 0), (0, 0), (0, 0), (0, 0), (0, 0), (0, 0),
             (0, 0), (0, 1)]\<rparr>) 128 (replicate 256 0))) = [10]"
proof -
  have a: "fst (edid_write_block_data (adv7604_probe_state kernel32 ADV7611) quiet_bus 128
      (replicate 256 0)) = 0"
    and b: "replies (edid_poll_start (adv7604_probe_state kernel32 ADV7611) quiet_bus 128
      (replicate 256 0)) = []"
    using quiet_poll_start [of quiet_bus] by (simp_all add: quiet_bus_simps)
  have c: "edid_write_block_data (adv7604_probe_state kernel32 ADV7611)
      (quiet_bus\<lparr>replies := [(0, 0), (0, 0), (0, 0), (0, 0), (0, 0), (0, 0), (0, 0),
             (0, 0), (0, 1)]\<rparr>) 128 (replicate 256 0) =
      (0, quiet_bus\<lparr>replies := [(0, 0), (0, 0), (0, 1)],
            xfers := [SMBUS_READ_BYTE I2C_REPEATER 0x74, SMBUS_WRITE_BYTE I2C_REPEATER 0x74 0,
              SMBUS_WRITE_BLOCK I2C_EDID 0 (replicate 32 0),
              SMBUS_WRITE_BLOCK I2C_EDID 32 (replicate 32 0),
              SMBUS_WRITE_BLOCK I2C_EDID 64 (replicate 32 0),
              SMBUS_WRITE_BLOCK I2C_EDID 96 (replicate 32 0)],
            notified := [ADV7604_HOTPLUG False]\<rparr>)"
    by (simp add: edid_write_block_data_def v4l2_subdev_notify_def rep_write_and_or_unfold
        rep_read_def rep_write_def ok_read_byte ok_write_byte ok_block_write
        block_loop_step block_loop_done quiet_bus_def
        I2C_SMBUS_BLOCK_MAX_def adv7604_probe_state_def and_or_def Let_def)
  have d: "replies (edid_poll_start (adv7604_probe_state kernel32 ADV7611)
      (quiet_bus\<lparr>replies := [(0, 0), (0, 0), (0, 0), (0, 0), (0, 0), (0, 0), (0, 0),
             (0, 0), (0, 1)]\<rparr>) 128 (replicate 256 0)) = [(0, 1)]"
    unfolding edid_poll_start_def c
    by (simp add: rep_write_and_or_unfold rep_read_def rep_write_def ok_read_byte
        ok_write_byte quiet_bus_def adv7604_probe_state_def and_or_def Let_def)
  show ?thesis
    using edid_valid_poll_bound [of "adv7604_probe_state kernel32 ADV7611" quiet_bus 128
        "replicate 256 0" kernel32, OF a]
      edid_valid_poll_bound [of "adv7604_probe_state kernel32 ADV7611"
        "quiet_bus\<lparr>replies := [(0, 0), (0, 0), (0, 0), (0, 0), (0, 0), (0, 0), (0, 0),
             (0, 0), (0, 1)]\<rparr>" 128 "replicate 256 0" kernel32]
    by (simp add: b c d read_result_def quiet_bus_simps kernel32_simps)
qed

text \<open>
  When the transfer of the first status read fails, the value \<open>rep_read\<close> returns is
  \<open>-EIO\<close>, and the loop ends as if the chip had reported the EDID valid: the call
  returns 0 and queues the hotplug work.
\<close>

lemma failed_first_status_read:
  assumes "fst (edid_write_block_data state w len val) = 0"
    and "failing (replies (edid_poll_start state w len val)) 0"
  shows "fst (edid_write_block k state w len val) = 0 \<and>
     queued (snd (edid_write_block k state w len val)) = queued w @ [HZ k div 10]"
proof -
  have "\<exists>j < 1000. read_result (replies (edid_poll_start state w len val)) j AND 1 \<noteq> 0"
    using failed_status_read [OF assms(2)] by (intro exI [of _ 0]) simp
  with edid_valid_poll_bound [OF assms(1), of k] show ?thesis by blast
qed

lemma fail_read_byte:
  "replies w = (e, b) # rs \<Longrightarrow> e \<noteq> 0 \<Longrightarrow> adv_smbus_read_byte_data w c cmd =
     (- EIO, w\<lparr>replies := rs, xfers := xfers w @ [SMBUS_READ_BYTE c cmd]\<rparr>)"
  by (simp add: adv_smbus_read_byte_data_def adv_smbus_read_byte_data_check_def
      i2c_smbus_xfer_def)

text \<open>
  Claim C6 at a bus failure on the ADV7611, with a one-block EDID. The eight transfers
  that write the EDID and enable the internal access again succeed, and the ninth, the
  first read of the status register \<open>0x76\<close>, fails. The valid bit of the chip was
  never read, and no further poll is made, yet \<open>edid_write_block\<close> returns 0 and
  queues \<open>delayed_work_enable_hotplug\<close> with 10 jiffies: the failed read returns
  \<open>-EIO\<close>, an odd number, and \<open>rep_read(...) & 1\<close> takes its bit 0 for the valid
  bit.
\<close>

theorem failed_status_read_taken_for_valid:
  "edid_write_block kernel32 (adv7604_probe_state kernel32 ADV7611)
     (quiet_bus\<lparr>replies := [(0, 0), (0, 0), (0, 0), (0, 0), (0, 0), (0, 0), (0, 0), (0, 0),
        (- 5, 0)]\<rparr>) 128 (replicate 256 0)
   = (0, quiet_bus\<lparr>replies := [],
        xfers := [SMBUS_READ_BYTE I2C_REPEATER 0x74, SMBUS_WRITE_BYTE I2C_REPEATER 0x74 0,
          SMBUS_WRITE_BLOCK I2C_EDID 0 (replicate 32 0),
          SMBUS_WRITE_BLOCK I2C_EDID 32 (replicate 32 0),
          SMBUS_WRITE_BLOCK I2C_EDID 64 (replicate 32 0),
          SMBUS_WRITE_BLOCK I2C_EDID 96 (replicate 32 0),
          SMBUS_READ_BYTE I2C_REPEATER 0x74, SMBUS_WRITE_BYTE I2C_REPEATER 0x74 1,
          SMBUS_READ_BYTE I2C_REPEATER 0x76],
        notified := [ADV7604_HOTPLUG False], queued := [10]\<rparr>)
   \<and> rep_read (quiet_bus\<lparr>replies := [(- 5, 0)]\<rparr>) 0x76
     = (- EIO, quiet_bus\<lparr>replies := [], xfers := [SMBUS_READ_BYTE I2C_REPEATER 0x76]\<rparr>)
   \<and> (- EIO) AND 1 = (1 :: int)"
  by (simp add: edid_write_block_def edid_write_block_data_def v4l2_subdev_notify_def
      rep_write_and_or_unfold rep_read_def rep_write_def ok_read_byte ok_write_byte
      ok_block_write fail_read_byte block_loop_step block_loop_done poll_step poll_done
      read_result_def queue_delayed_work_def kernel32_simps quiet_bus_def
      I2C_SMBUS_BLOCK_MAX_def adv7604_probe_state_def and_or_def Let_def EIO_def)

subsection \<open>Setting and clearing the EDID\<close>

lemma rep_write_and_or_xfers:
  "xfers (snd (rep_write_and_or w reg m v)) =
     xfers w @ SMBUS_READ_BYTE I2C_REPEATER reg #
       replicate (attempts (snd (rep_read w reg)) (snd (rep_write_and_or w reg m v)))
         (SMBUS_WRITE_BYTE I2C_REPEATER reg (and_or (fst (rep_read w reg)) m v))"
  using write_byte_xfers [of "snd (rep_read w reg)" I2C_REPEATER reg
      "and_or (fst (rep_read w reg)) m v"]
  by (simp add: rep_write_and_or_unfold rep_read_def rep_write_def read_byte_xfers)

lemma and_or_clears_low:
  "and_or r 0xf0 0x0 AND 0x0f = 0"
proof -
  have "(x AND 240) AND 15 = x AND (240 AND 15)" for x :: u8
    by (simp only: and.assoc)
  then show ?thesis by (simp add: and_or_def of_int_and_eq)
qed

lemma rep_write_attempts:
  "attempts (snd (rep_read w reg)) (snd (rep_write_and_or w reg m v)) =
     (if \<not> failing (replies w) 1 then 1 else if \<not> failing (replies w) 2 then 2 else 3)"
proof -
  have r: "replies (snd (rep_read w reg)) = tl (replies w)"
    by (simp add: rep_read_def read_byte_frame)
  show ?thesis
    unfolding rep_write_and_or_unfold rep_write_def write_byte_attempts r failing_tl
    by (simp add: numeral_2_eq_2)
qed

lemma rep_write_and_or_exact:
  "xfers (snd (rep_write_and_or w reg m v)) =
     xfers w @ SMBUS_READ_BYTE I2C_REPEATER reg #
       replicate (if \<not> failing (replies w) 1 then 1 else if \<not> failing (replies w) 2 then 2 else 3)
         (SMBUS_WRITE_BYTE I2C_REPEATER reg (and_or (read_result (replies w) 0) m v))"
  using rep_write_and_or_xfers [of w reg m v]
  unfolding rep_write_attempts rep_read_result .

text \<open>
  Claim C3, as the code has it. A request for another pad than 0 or with a start block
  other than 0 fails with \<open>-EINVAL\<close>, and a request on pad 0 from block 0 with more
  than 2 blocks fails with \<open>-E2BIG\<close>; both leave the driver state and the environment
  as they were. A request on pad 0 from block 0 with 0 blocks does not fail: it is the
  clear operation. It returns 0, deasserts hotplug, sets the stored block count to 0 and
  the aspect ratio to 16:9, and queues no hotplug work. Its transfers are the
  read-modify-write of the EDID control register in the Repeater map and nothing else:
  one read of the register, then the write of the value read with its low four bits
  (the EDID enable of each port) cleared, made once, or up to three times while the
  write fails. The EDID RAM is not written.
\<close>

theorem set_edid_block_count:
  "(pad e \<noteq> 0 \<or> start_block e \<noteq> 0 \<longrightarrow>
      adv7604_set_edid k state w e = (- EINVAL, state, w))
   \<and> (pad e = 0 \<and> start_block e = 0 \<and> blocks e > 2 \<longrightarrow>
      adv7604_set_edid k state w e = (- E2BIG, state, w))
   \<and> (pad e = 0 \<and> start_block e = 0 \<and> blocks e = 0 \<longrightarrow>
      fst (adv7604_set_edid k state w e) = 0 \<and>
      fst (snd (adv7604_set_edid k state w e)) =
        state\<lparr>edid_blocks := 0, aspect_ratio := \<lparr>numerator = 16, denominator = 9\<rparr>\<rparr> \<and>
      notified (snd (snd (adv7604_set_edid k state w e))) = notified w @ [ADV7604_HOTPLUG False] \<and>
      queued (snd (snd (adv7604_set_edid k state w e))) = queued w \<and>
      xfers (snd (snd (adv7604_set_edid k state w e))) =
        xfers w @ SMBUS_READ_BYTE I2C_REPEATER (of_nat (edid_ctrl_reg (info state))) #
          replicate (if \<not> failing (replies w) 1 then 1
                     else if \<not> failing (replies w) 2 then 2 else 3)
            (SMBUS_WRITE_BYTE I2C_REPEATER (of_nat (edid_ctrl_reg (info state)))
               (and_or (read_result (replies w) 0) 0xf0 0x0)) \<and>
      and_or (read_result (replies w) 0) 0xf0 0x0 AND 0x0f = 0)"
proof (intro conjI impI)
  assume "pad e \<noteq> 0 \<or> start_block e \<noteq> 0"
  then show "adv7604_set_edid k state w e = (- EINVAL, state, w)"
    by (auto simp: adv7604_set_edid_def)
next
  assume "pad e = 0 \<and> start_block e = 0 \<and> blocks e > 2"
  then show "adv7604_set_edid k state w e = (- E2BIG, state, w)"
    by (auto simp: adv7604_set_edid_def)
next
  assume a: "pad e = 0 \<and> start_block e = 0 \<and> blocks e = 0"
  then have r: "adv7604_set_edid k state w e =
      (0, state\<lparr>edid_blocks := 0, aspect_ratio := \<lparr>numerator = 16, denominator = 9\<rparr>\<rparr>,
       snd (rep_write_and_or (v4l2_subdev_notify w (ADV7604_HOTPLUG False))
              (of_nat (edid_ctrl_reg (info state))) 0xf0 0x0))"
    by (simp add: adv7604_set_edid_def Let_def)
  show "fst (adv7604_set_edid k state w e) = 0"
    and "fst (snd (adv7604_set_edid k state w e)) =
        state\<lparr>edid_blocks := 0, aspect_ratio := \<lparr>numerator = 16, denominator = 9\<rparr>\<rparr>"
    and "notified (snd (snd (adv7604_set_edid k state w e))) = notified w @ [ADV7604_HOTPLUG False]"
    and "queued (snd (snd (adv7604_set_edid k state w e))) = queued w"
    by (simp_all add: r rep_write_and_or_frame v4l2_subdev_notify_def)
  show "xfers (snd (snd (adv7604_set_edid k state w e))) =
        xfers w @ SMBUS_READ_BYTE I2C_REPEATER (of_nat (edid_ctrl_reg (info state))) #
          replicate (if \<not> failing (replies w) 1 then 1
                     else if \<not> failing (replies w) 2 then 2 else 3)
            (SMBUS_WRITE_BYTE I2C_REPEATER (of_nat (edid_ctrl_reg (info state)))
               (and_or (read_result (replies w) 0) 0xf0 0x0))"
    unfolding r by (simp add: rep_write_and_or_exact v4l2_subdev_notify_def)
  show "and_or (read_result (replies w) 0) 0xf0 0x0 AND 0x0f = 0"
    by (rule and_or_clears_low)
qed

text \<open>
  Witness for C3 on the ADV7611: three blocks from block 0, three blocks from block 1,
  and the clear request on a bus where the EDID control register (\<open>0x74\<close>) reads
  \<open>0x1f\<close>: it is written back as \<open>0x10\<close>.
\<close>

theorem set_edid_block_count_witness:
  "adv7604_set_edid kernel32 (adv7604_probe_state kernel32 ADV7611) quiet_bus
      \<lparr>pad = 0, start_block = 0, blocks = 3, edid_p = Some (\<lambda>i. 0)\<rparr>
     = (- E2BIG, adv7604_probe_state kernel32 ADV7611, quiet_bus)
   \<and> adv7604_set_edid kernel32 (adv7604_probe_state kernel32 ADV7611) quiet_bus
      \<lparr>pad = 0, start_block = 1, blocks = 3, edid_p = Some (\<lambda>i. 0)\<rparr>
     = (- EINVAL, adv7604_probe_state kernel32 ADV7611, quiet_bus)
   \<and> notified (snd (snd (adv7604_set_edid kernel32 (adv7604_probe_state kernel32 ADV7611)
        (quiet_bus\<lparr>replies := [(0, 0x1f)]\<rparr>)
        \<lparr>pad = 0, start_block = 0, blocks = 0, edid_p = None\<rparr>)))
     = [ADV7604_HOTPLUG False]
   \<and> xfers (snd (snd (adv7604_set_edid kernel32 (adv7604_probe_state kernel32 ADV7611)
        (quiet_bus\<lparr>replies := [(0, 0x1f)]\<rparr>)
        \<lparr>pad = 0, start_block = 0, blocks = 0, edid_p = None\<rparr>)))
     = [SMBUS_READ_BYTE I2C_REPEATER 0x74, SMBUS_WRITE_BYTE I2C_REPEATER 0x74 0x10]"
  using set_edid_block_count [of "\<lparr>pad = 0, start_block = 0, blocks = 3, edid_p = Some (\<lambda>i. 0)\<rparr>"
      kernel32 "adv7604_probe_state kernel32 ADV7611" quiet_bus]
    set_edid_block_count [of "\<lparr>pad = 0, start_block = 1, blocks = 3, edid_p = Some (\<lambda>i. 0)\<rparr>"
      kernel32 "adv7604_probe_state kernel32 ADV7611" quiet_bus]
    set_edid_block_count [of "\<lparr>pad = 0, start_block = 0, blocks = 0, edid_p = None\<rparr>"
      kernel32 "adv7604_probe_state kernel32 ADV7611" "quiet_bus\<lparr>replies := [(0, 0x1f)]\<rparr>"]
  by (simp add: quiet_bus_simps failing_def read_result_def and_or_def probe_state_simps)

text \<open>
  Counterexample to C3 as stated (a request with 0 blocks fails with an invalid-request
  error): on pad 0, from block 0, the request with 0 blocks returns 0.
\<close>

theorem set_edid_zero_blocks_succeeds:
  "fst (adv7604_set_edid kernel32 (adv7604_probe_state kernel32 ADV7611) quiet_bus
      \<lparr>pad = 0, start_block = 0, blocks = 0, edid_p = None\<rparr>) = 0"
  by (simp add: adv7604_set_edid_def Let_def)

subsection \<open>Reading the EDID back\<close>

text \<open>
  What \<open>adv7604_get_edid\<close> does when the sum of the start block and the block count
  does not wrap, for a state with at most 2 blocks in its 256-byte array: the requests
  with a nonzero pad, with 0 blocks or with a start block at or beyond the stored count
  are rejected with \<open>-EINVAL\<close> and left as they were; a \<open>NULL\<close> buffer is rejected
  with \<open>-EINVAL\<close>; every other request succeeds with the count clamped to the stored
  count minus the start block, and exactly these blocks of \<open>state->edid\<close> copied.
\<close>

lemma get_edid_rejects:
  "pad e \<noteq> 0 \<or> blocks e = 0 \<or> edid_blocks state \<le> start_block e \<Longrightarrow>
   adv7604_get_edid state e = Returned (- EINVAL) e"
  by (auto simp: adv7604_get_edid_def)

lemma get_edid_null:
  "pad e = 0 \<Longrightarrow> blocks e \<noteq> 0 \<Longrightarrow> start_block e < edid_blocks state \<Longrightarrow> edid_p e = None \<Longrightarrow>
   \<exists>e'. adv7604_get_edid state e = Returned (- EINVAL) e'"
  by (auto simp: adv7604_get_edid_def Let_def)

lemma get_edid_copies:
  assumes "pad e = 0" and "blocks e \<noteq> 0" and lt: "start_block e < edid_blocks state"
    and buf: "edid_p e = Some buf"
    and no_wrap: "unat (start_block e) + unat (blocks e) < 2 ^ 32"
    and B: "edid_blocks state \<le> 2" and len: "length (edid state) = 256"
  shows "adv7604_get_edid state e =
     Returned 0 (e\<lparr>blocks := of_nat (min (unat (blocks e))
                                  (unat (edid_blocks state) - unat (start_block e))),
                 edid_p := Some (\<lambda>i.
                   if unat (start_block e) * 128 \<le> i \<and>
                      i < (unat (start_block e) + min (unat (blocks e))
                            (unat (edid_blocks state) - unat (start_block e))) * 128
                   then edid state ! i else buf i)\<rparr>)"
proof -
  let ?s = "start_block e" and ?b = "blocks e" and ?B = "edid_blocks state"
  have uB: "unat ?B \<le> 2" using B by (simp add: word_le_nat_alt)
  have us: "unat ?s < unat ?B" using lt by (simp add: word_less_nat_alt)
  have sum: "unat (?s + ?b) = unat ?s + unat ?b"
    using no_wrap by (simp add: unat_add_lem [THEN iffD1])
  have gt: "?s + ?b > ?B \<longleftrightarrow> unat ?s + unat ?b > unat ?B"
    by (simp add: word_less_nat_alt sum)
  have sub: "unat (?B - ?s) = unat ?B - unat ?s"
    using lt by (simp add: unat_sub word_le_nat_alt word_less_nat_alt)
  have m128: "\<And>x::32 word. unat x \<le> 2 \<Longrightarrow> unat (x * 128) = unat x * 128"
  proof -
    fix x :: "32 word"
    assume "unat x \<le> 2"
    then have "unat x * unat (128::32 word) < 2 ^ LENGTH(32)" by simp
    then show "unat (x * 128) = unat x * 128"
      by (simp add: unat_mult_lem [THEN iffD1])
  qed
  have s128: "unat (?s * 128) = unat ?s * 128" using us uB by (intro m128) simp
  define c where "c = (if ?s + ?b > ?B then ?B - ?s else ?b)"
  have e1: "(if ?s + ?b > ?B then e\<lparr>blocks := ?B - ?s\<rparr> else e) = e\<lparr>blocks := c\<rparr>"
    by (simp add: c_def)
  have uc: "min (unat ?b) (unat ?B - unat ?s) = unat c"
    using gt sub by (auto simp: c_def min_def)
  have uc2: "unat c \<le> 2" using uc uB by linarith
  have c128: "unat (c * 128) = unat c * 128" using uc2 by (rule m128)
  have fits: "unat ?s * 128 + unat c * 128 \<le> 256" using uc us uB by linarith
  have nn: "\<not> ?B \<le> ?s" using lt by simp
  have "adv7604_get_edid state e =
     Returned 0 (e\<lparr>blocks := c,
                 edid_p := Some (\<lambda>i.
                   if unat ?s * 128 \<le> i \<and> i < unat ?s * 128 + unat c * 128
                   then edid state ! i else buf i)\<rparr>)"
    unfolding adv7604_get_edid_def e1 Let_def
    using assms(1,2) nn buf fits by (simp add: s128 c128 len)
  then show ?thesis
    unfolding uc by (simp add: add_mult_distrib)
qed

text \<open>
  Claim C9 at a request whose start block and block count add up to \<open>2^32\<close>: with 2
  blocks stored, start block 1 and block count \<open>0xffffffff\<close>, the \<open>__u32\<close> sum wraps
  to 0, the count is not clamped, and the \<open>memcpy\<close> is asked for \<open>0xffffff80\<close> bytes
  from offset 128 of the 256-byte array.
\<close>

theorem get_edid_count_wraps:
  "adv7604_get_edid ((adv7604_probe_state kernel32 ADV7611)\<lparr>edid_blocks := 2\<rparr>)
     \<lparr>pad = 0, start_block = 1, blocks = 0xffffffff, edid_p = Some (\<lambda>i. 0)\<rparr>
   = Overrun 128 4294967168"
  by (simp add: adv7604_get_edid_def Let_def adv7604_probe_state_def word_le_nat_alt
      word_less_nat_alt)

subsection \<open>Matching a sample against the table\<close>

lemma scan_first:
  "i < length tab \<Longrightarrow> \<forall>j \<le> i. height (bt (tab ! j)) \<noteq> 0 \<Longrightarrow>
   stdi_entry_matches stdi hfreq (tab ! i) \<Longrightarrow>
   \<forall>j < i. stdi_entry_matches stdi hfreq (tab ! j) \<longrightarrow> tab ! j = tab ! i \<Longrightarrow>
   stdi2dv_scan tab stdi hfreq = Some (tab ! i)"
proof (induction tab arbitrary: i)
  case Nil
  then show ?case by simp
next
  case (Cons t ts)
  show ?case
  proof (cases i)
    case 0
    with Cons.prems show ?thesis by simp
  next
    case (Suc n)
    from Cons.prems(2) have h0: "height (bt t) \<noteq> 0" by force
    have n: "n < length ts" using Cons.prems(1) Suc by simp
    have hs: "\<forall>j \<le> n. height (bt (ts ! j)) \<noteq> 0"
      using Cons.prems(2) Suc by force
    have m: "stdi_entry_matches stdi hfreq (ts ! n)" using Cons.prems(3) Suc by simp
    have f: "\<forall>j < n. stdi_entry_matches stdi hfreq (ts ! j) \<longrightarrow> ts ! j = ts ! n"
      using Cons.prems(4) Suc by force
    have IH: "stdi2dv_scan ts stdi hfreq = Some (ts ! n)"
      using Cons.IH [OF n hs m f] .
    from Cons.prems(4) Suc have "stdi_entry_matches stdi hfreq t \<longrightarrow> t = ts ! n" by force
    with h0 IH Suc show ?thesis by auto
  qed
qed

lemma scan_result:
  "stdi2dv_scan tab stdi hfreq = Some t \<Longrightarrow> t \<in> set tab \<and> stdi_entry_matches stdi hfreq t"
  by (induction tab) (auto split: if_splits)

lemma synthetic_matches:
  assumes "synthetic_sample T stdi"
  shows "stdi_entry_matches stdi ((ADV7604_fsc * 8) div bl stdi) T"
proof -
  let ?f = "((ADV7604_fsc * 8) div bl stdi) * htotal (bt T)"
  let ?p = "pixelclock (bt T)"
  from assms have f: "?f < 2 ^ 32" "?f < ?p + 1000000" "?p < ?f + 1000000"
    and p: "1000000 \<le> ?p" "?p + 1000000 < 2 ^ 64"
    and v: "vtotal (bt T) = lcf stdi + 1" "vsync (bt T) = lcvs stdi"
    by (simp_all add: synthetic_sample_def Let_def)
  have a: "?f mod 2 ^ 32 = ?f" using f(1) by simp
  have b: "(?p + 1000000) mod 2 ^ 64 = ?p + 1000000" using p(2) by simp
  have "?p + 2 ^ 64 - 1000000 = (?p - 1000000) + 2 ^ 64" using p(1) by simp
  then have "(?p + 2 ^ 64 - 1000000) mod 2 ^ 64 = (?p - 1000000) mod 2 ^ 64"
    by (simp only: mod_add_self2)
  moreover have "?p - 1000000 < 2 ^ 64" using p(2) by simp
  ultimately have c: "(?p + 2 ^ 64 - 1000000) mod 2 ^ 64 = ?p - 1000000"
    by (simp only: mod_less)
  from f(2,3) p(1) show ?thesis
    unfolding stdi_entry_matches_def Let_def a b c using v by simp
qed

text \<open>
  Claim C2, as the code has it, for every expansion of the timing macros. Let \<open>T\<close>
  be an entry of the known-timings table that the scan reaches (no entry up to it has
  height 0), and let the sample be a synthetic sample built from \<open>T\<close>. If every
  earlier entry that the sample also matches is equal to \<open>T\<close>, then
  \<open>stdi2dv_timings\<close> returns 0 and exactly \<open>T\<close>, standards and flags included. The
  scan compares the total number of lines, the vsync count and the pixel clock only, so
  an earlier entry that agrees with \<open>T\<close> on these is returned in its place.
\<close>

theorem stdi2dv_first_match:
  assumes "i < length (adv7604_timings k)"
    and "\<forall>j \<le> i. height (bt (adv7604_timings k ! j)) \<noteq> 0"
    and "synthetic_sample (adv7604_timings k ! i) stdi"
    and "\<forall>j < i. stdi_entry_matches stdi ((ADV7604_fsc * 8) div bl stdi) (adv7604_timings k ! j)
           \<longrightarrow> adv7604_timings k ! j = adv7604_timings k ! i"
  shows "stdi2dv_timings k state stdi tmg = Some (0, adv7604_timings k ! i)"
proof -
  have "stdi2dv_scan (adv7604_timings k) stdi ((ADV7604_fsc * 8) div bl stdi)
      = Some (adv7604_timings k ! i)"
    using assms(1,2) synthetic_matches [OF assms(3)] assms(4) by (rule scan_first)
  moreover have "bl stdi \<noteq> 0" using assms(3) by (simp add: synthetic_sample_def)
  ultimately show ?thesis by (simp add: stdi2dv_timings_def Let_def)
qed

lemma kernel32_table:
  "adv7604_timings kernel32 =
     [bt_timings 720 480 0 27000000 16 62 60 9 6 30 1,
      bt_timings 720 576 0 27000000 12 64 68 5 5 39 1,
      bt_timings 1280 720 3 59400000 1760 40 220 5 5 20 1,
      bt_timings 1280 720 3 74250000 2420 40 220 5 5 20 1,
      bt_timings 1280 720 3 74250000 440 40 220 5 5 20 1,
      bt_timings 1280 720 3 74250000 110 40 220 5 5 20 1,
      bt_timings 1920 1080 3 74250000 638 44 148 4 5 36 1,
      bt_timings 1920 1080 3 74250000 528 44 148 4 5 36 1,
      bt_timings 1920 1080 3 74250000 88 44 148 4 5 36 1,
      bt_timings 1920 1080 3 148500000 528 44 148 4 5 36 1,
      bt_timings 1920 1080 3 148500000 88 44 148 4 5 36 1,
      bt_timings 640 350 2 31500000 32 64 96 32 3 60 2,
      bt_timings 640 400 1 31500000 32 64 96 1 3 41 2] @ replicate 44 zero_timings"
proof -
  have r: "replicate 44 x = [x, x, x, x, x, x, x, x, x, x, x, x, x, x, x, x, x, x, x, x, x, x,
      x, x, x, x, x, x, x, x, x, x, x, x, x, x, x, x, x, x, x, x, x, x]" for x :: v4l2_dv_timings
    by (simp add: numeral_eq_Suc)
  show ?thesis
    unfolding r by (simp add: adv7604_timings_def kernel32_def)
qed

lemma bt_timings_simps:
  "height (bt (bt_timings w h pol pclk hfp hs hbp vfp vs vbp std)) = h"
  "width (bt (bt_timings w h pol pclk hfp hs hbp vfp vs vbp std)) = w"
  "vsync (bt (bt_timings w h pol pclk hfp hs hbp vfp vs vbp std)) = vs"
  "pixelclock (bt (bt_timings w h pol pclk hfp hs hbp vfp vs vbp std)) = pclk"
  "vtotal (bt (bt_timings w h pol pclk hfp hs hbp vfp vs vbp std)) = (h + vfp + vs + vbp) mod 2 ^ 32"
  "htotal (bt (bt_timings w h pol pclk hfp hs hbp vfp vs vbp std)) = (w + hfp + hs + hbp) mod 2 ^ 32"
  by (simp_all add: bt_timings_def vtotal_def htotal_def)

text \<open>
  Witness for C2: the sample built from the second entry, 720x576p50 (625 lines, vsync
  of 5 lines, line frequency 31253 Hz from a burst length of 7330), gives that entry.
\<close>

theorem stdi2dv_first_match_witness:
  "stdi2dv_timings kernel32 (adv7604_probe_state kernel32 ADV7604)
     \<lparr>bl = 7330, lcf = 624, lcvs = 5, hs_pol = CHR ''-'', vs_pol = CHR ''-'',
      stdi_interlaced = False\<rparr> zero_timings
   = Some (0, bt_timings 720 576 0 27000000 12 64 68 5 5 39 1)"
  using stdi2dv_first_match [of 1 kernel32
      "\<lparr>bl = 7330, lcf = 624, lcvs = 5, hs_pol = CHR ''-'', vs_pol = CHR ''-'',
        stdi_interlaced = False\<rparr>" "adv7604_probe_state kernel32 ADV7604" zero_timings]
  by (auto simp: kernel32_table bt_timings_simps stdi_entry_matches_def synthetic_sample_def
      ADV7604_fsc_def le_Suc_eq)

text \<open>
  Counterexample to C2 as stated (every entry is returned for its own sample): the
  sample built from the DMT timing 640x400 at 85 Hz (445 lines, vsync of 3 lines, line
  frequency 37866 Hz from a burst length of 6050) is matched by the entry before it,
  640x350 at 85 Hz, which has the same totals and pixel clock and differs in the active
  height, the vertical porches and the sync polarities.
\<close>

theorem stdi2dv_640x400_finds_640x350:
  "stdi2dv_timings kernel32 (adv7604_probe_state kernel32 ADV7604)
     \<lparr>bl = 6050, lcf = 444, lcvs = 3, hs_pol = CHR ''-'', vs_pol = CHR ''+'',
      stdi_interlaced = False\<rparr> zero_timings
   = Some (0, V4L2_DV_BT kernel32 DMT_640X350P85)
   \<and> synthetic_sample (V4L2_DV_BT kernel32 DMT_640X400P85)
     \<lparr>bl = 6050, lcf = 444, lcvs = 3, hs_pol = CHR ''-'', vs_pol = CHR ''+'',
      stdi_interlaced = False\<rparr>
   \<and> V4L2_DV_BT kernel32 DMT_640X400P85 \<in> set (adv7604_timings kernel32)
   \<and> V4L2_DV_BT kernel32 DMT_640X350P85 \<noteq> V4L2_DV_BT kernel32 DMT_640X400P85"
  by (simp add: stdi2dv_timings_def Let_def kernel32_table bt_timings_simps
      stdi_entry_matches_def synthetic_sample_def ADV7604_fsc_def)
    (simp add: kernel32_def bt_timings_def vtotal_def htotal_def)

subsection \<open>Enriching a measured timing\<close>

lemma fill_optional_scan_cases:
  "fill_optional_scan k state tab tmg = tmg \<or>
   (fill_optional_scan k state tab tmg \<in> set tab \<and>
    v4l_match_dv_timings k tmg (fill_optional_scan k state tab tmg) (pclock_tolerance state))"
  by (induction tab) auto

lemma same_geometry_refl: "same_geometry t t"
  by (simp add: same_geometry_def)

lemma kernel32_matcher: "v4l_match_dv_timings kernel32 = exact_tolerance_match"
  by (simp add: kernel32_def)

lemma fill_scan_first:
  "i < length tab \<Longrightarrow> \<forall>j \<le> i. width (bt (tab ! j)) \<noteq> 0 \<Longrightarrow>
   v4l_match_dv_timings k tmg (tab ! i) (pclock_tolerance state) \<Longrightarrow>
   \<forall>j < i. \<not> v4l_match_dv_timings k tmg (tab ! j) (pclock_tolerance state) \<Longrightarrow>
   fill_optional_scan k state tab tmg = tab ! i"
proof (induction tab arbitrary: i)
  case Nil
  then show ?case by simp
next
  case (Cons t ts)
  show ?case
  proof (cases i)
    case 0
    with Cons.prems show ?thesis by simp
  next
    case (Suc n)
    from Cons.prems(2) have w0: "width (bt t) \<noteq> 0" by force
    from Cons.prems(4) Suc have nm: "\<not> v4l_match_dv_timings k tmg t (pclock_tolerance state)"
      by force
    have n: "n < length ts" using Cons.prems(1) Suc by simp
    have ws: "\<forall>j \<le> n. width (bt (ts ! j)) \<noteq> 0" using Cons.prems(2) Suc by force
    have m: "v4l_match_dv_timings k tmg (ts ! n) (pclock_tolerance state)"
      using Cons.prems(3) Suc by simp
    have f: "\<forall>j < n. \<not> v4l_match_dv_timings k tmg (ts ! j) (pclock_tolerance state)"
      using Cons.prems(4) Suc by force
    from Cons.IH [OF n ws m f] w0 nm Suc show ?thesis by simp
  qed
qed

lemma fill_scan_none:
  "\<forall>t \<in> set tab. \<not> v4l_match_dv_timings k tmg t (pclock_tolerance state) \<Longrightarrow>
   fill_optional_scan k state tab tmg = tmg"
  by (induction tab) simp_all

text \<open>
  Claim C4, as the code has it. The enrichment step walks the table up to its first
  entry of width 0. The first entry the matcher accepts for the measured timing, with
  the tolerance of the input (250 000 Hz on the HDMI input, 1 000 000 Hz otherwise), is
  copied over the measured timing as a whole, standards, flags and pixel clock
  included; when the matcher accepts no entry the timing stays as it was measured. When
  the matcher is an exact tolerance match, the result has the width, height, interlaced
  flag, polarities, horizontal and vertical porches and sync widths that were measured,
  and a pixel clock within the tolerance of the measured one; the pixel clock itself is
  the nominal one of the entry.
\<close>

theorem fill_optional_keeps_geometry:
  "(\<forall>i < length (adv7604_timings k).
      (\<forall>j \<le> i. width (bt (adv7604_timings k ! j)) \<noteq> 0) \<and>
      v4l_match_dv_timings k tmg (adv7604_timings k ! i) (pclock_tolerance state) \<and>
      (\<forall>j < i. \<not> v4l_match_dv_timings k tmg (adv7604_timings k ! j) (pclock_tolerance state))
      \<longrightarrow> adv7604_fill_optional_dv_timings_fields k state tmg = adv7604_timings k ! i)
   \<and> ((\<forall>t \<in> set (adv7604_timings k).
          \<not> v4l_match_dv_timings k tmg t (pclock_tolerance state))
        \<longrightarrow> adv7604_fill_optional_dv_timings_fields k state tmg = tmg)
   \<and> (adv7604_fill_optional_dv_timings_fields k state tmg = tmg
        \<or> (adv7604_fill_optional_dv_timings_fields k state tmg \<in> set (adv7604_timings k)
            \<and> v4l_match_dv_timings k tmg (adv7604_fill_optional_dv_timings_fields k state tmg)
                 (pclock_tolerance state)))
   \<and> pclock_tolerance state = (if mode state = ADV7604_MODE_HDMI then 250000 else 1000000)
   \<and> ((\<forall>t1 t2 d. v4l_match_dv_timings k t1 t2 d \<longrightarrow> exact_tolerance_match t1 t2 d) \<longrightarrow>
        same_geometry tmg (adv7604_fill_optional_dv_timings_fields k state tmg)
        \<and> pixelclock (bt (adv7604_fill_optional_dv_timings_fields k state tmg))
            \<le> pixelclock (bt tmg) + pclock_tolerance state
        \<and> pixelclock (bt tmg)
            \<le> pixelclock (bt (adv7604_fill_optional_dv_timings_fields k state tmg))
                + pclock_tolerance state)"
proof (intro conjI allI impI)
  fix i
  assume "i < length (adv7604_timings k)"
    and "(\<forall>j \<le> i. width (bt (adv7604_timings k ! j)) \<noteq> 0) \<and>
      v4l_match_dv_timings k tmg (adv7604_timings k ! i) (pclock_tolerance state) \<and>
      (\<forall>j < i. \<not> v4l_match_dv_timings k tmg (adv7604_timings k ! j) (pclock_tolerance state))"
  then show "adv7604_fill_optional_dv_timings_fields k state tmg = adv7604_timings k ! i"
    unfolding adv7604_fill_optional_dv_timings_fields_def by (intro fill_scan_first) simp_all
next
  assume "\<forall>t \<in> set (adv7604_timings k).
          \<not> v4l_match_dv_timings k tmg t (pclock_tolerance state)"
  then show "adv7604_fill_optional_dv_timings_fields k state tmg = tmg"
    unfolding adv7604_fill_optional_dv_timings_fields_def by (rule fill_scan_none)
next
  show "adv7604_fill_optional_dv_timings_fields k state tmg = tmg
        \<or> (adv7604_fill_optional_dv_timings_fields k state tmg \<in> set (adv7604_timings k)
            \<and> v4l_match_dv_timings k tmg (adv7604_fill_optional_dv_timings_fields k state tmg)
                 (pclock_tolerance state))"
    unfolding adv7604_fill_optional_dv_timings_fields_def by (rule fill_optional_scan_cases)
next
  show "pclock_tolerance state = (if mode state = ADV7604_MODE_HDMI then 250000 else 1000000)"
    by (simp add: pclock_tolerance_def DIGITAL_INPUT_def)
next
  let ?t = "adv7604_fill_optional_dv_timings_fields k state tmg"
  assume a: "\<forall>t1 t2 d. v4l_match_dv_timings k t1 t2 d \<longrightarrow> exact_tolerance_match t1 t2 d"
  have c: "?t = tmg \<or> (?t \<in> set (adv7604_timings k) \<and>
      v4l_match_dv_timings k tmg ?t (pclock_tolerance state))"
    unfolding adv7604_fill_optional_dv_timings_fields_def by (rule fill_optional_scan_cases)
  then have "?t = tmg \<or> exact_tolerance_match tmg ?t (pclock_tolerance state)"
    using a by blast
  then show "same_geometry tmg ?t"
    and "pixelclock (bt ?t) \<le> pixelclock (bt tmg) + pclock_tolerance state"
    and "pixelclock (bt tmg) \<le> pixelclock (bt ?t) + pclock_tolerance state"
    by (auto simp: exact_tolerance_match_def same_geometry_refl)
qed

text \<open>
  Witness for C4 on the HDMI input: a 720x480 timing measured with a pixel clock of
  27 023 437 Hz comes back as the first entry of the table, 720x480p59.94 with its
  nominal 27 000 000 Hz and its standards, and the measured geometry; the same timing
  measured with 27 500 000 Hz matches no entry and comes back as it was.
\<close>

theorem fill_optional_keeps_geometry_witness:
  "adv7604_fill_optional_dv_timings_fields kernel32
        ((adv7604_probe_state kernel32 ADV7611)\<lparr>mode := ADV7604_MODE_HDMI\<rparr>)
        (bt_timings 720 480 0 27023437 16 62 60 9 6 30 0)
     = adv7604_timings kernel32 ! 0
   \<and> adv7604_timings kernel32 ! 0 = V4L2_DV_BT kernel32 CEA_720X480P59_94
   \<and> pixelclock (bt (adv7604_timings kernel32 ! 0)) = 27000000
   \<and> standards (bt (adv7604_timings kernel32 ! 0)) = 1
   \<and> same_geometry
       (bt_timings 720 480 0 27023437 16 62 60 9 6 30 0)
       (adv7604_fill_optional_dv_timings_fields kernel32
          ((adv7604_probe_state kernel32 ADV7611)\<lparr>mode := ADV7604_MODE_HDMI\<rparr>)
          (bt_timings 720 480 0 27023437 16 62 60 9 6 30 0))
   \<and> adv7604_fill_optional_dv_timings_fields kernel32
        ((adv7604_probe_state kernel32 ADV7611)\<lparr>mode := ADV7604_MODE_HDMI\<rparr>)
        (bt_timings 720 480 0 27500000 16 62 60 9 6 30 0)
     = bt_timings 720 480 0 27500000 16 62 60 9 6 30 0"
proof -
  let ?st = "(adv7604_probe_state kernel32 ADV7611)\<lparr>mode := ADV7604_MODE_HDMI\<rparr>"
  have tol: "pclock_tolerance ?st = 250000"
    by (simp add: pclock_tolerance_def DIGITAL_INPUT_def)
  have z: "\<not> exact_tolerance_match (bt_timings 720 480 0 p 16 62 60 9 6 30 0) zero_timings d"
    for p d
    by (simp add: exact_tolerance_match_def same_geometry_def bt_timings_def zero_timings_def
        zero_bt_def)
  have m0: "exact_tolerance_match (bt_timings 720 480 0 27023437 16 62 60 9 6 30 0)
      (adv7604_timings kernel32 ! 0) 250000"
    by (simp add: kernel32_table exact_tolerance_match_def same_geometry_def bt_timings_def)
  have none: "\<forall>t \<in> set (adv7604_timings kernel32).
      \<not> exact_tolerance_match (bt_timings 720 480 0 27500000 16 62 60 9 6 30 0) t 250000"
    by (simp add: kernel32_table z)
      (simp add: exact_tolerance_match_def same_geometry_def bt_timings_def)
  have e0: "adv7604_timings kernel32 ! 0 = bt_timings 720 480 0 27000000 16 62 60 9 6 30 1"
    by (simp add: kernel32_table)
  have v: "V4L2_DV_BT kernel32 CEA_720X480P59_94 =
      bt_timings 720 480 0 27000000 16 62 60 9 6 30 1"
    by (simp add: kernel32_def)
  show ?thesis
    using fill_optional_keeps_geometry [of kernel32 "bt_timings 720 480 0 27023437 16 62 60 9 6 30 0"
        ?st, THEN conjunct1, rule_format, of 0]
      fill_optional_keeps_geometry [of kernel32 "bt_timings 720 480 0 27500000 16 62 60 9 6 30 0"
        ?st, THEN conjunct2, THEN conjunct1]
      m0 none
    by (simp add: kernel32_matcher tol e0 v bt_timings_simps)
      (simp add: same_geometry_def bt_timings_def adv7604_timings_def)
qed

text \<open>
  Counterexample to C4 as stated (the pixel clock is unchanged whether or not an entry
  matches): the same measured timing comes back as the table entry, with the pixel clock
  27 000 000 Hz in place of the measured 27 023 437 Hz.
\<close>

theorem fill_optional_changes_pixelclock:
  "adv7604_fill_optional_dv_timings_fields kernel32
     ((adv7604_probe_state kernel32 ADV7611)\<lparr>mode := ADV7604_MODE_HDMI\<rparr>)
     (bt_timings 720 480 0 27023437 16 62 60 9 6 30 0)
   = bt_timings 720 480 0 27000000 16 62 60 9 6 30 1
   \<and> pixelclock (bt (bt_timings 720 480 0 27000000 16 62 60 9 6 30 1))
     \<noteq> pixelclock (bt (bt_timings 720 480 0 27023437 16 62 60 9 6 30 0))"
  by (simp add: adv7604_fill_optional_dv_timings_fields_def kernel32_table kernel32_matcher
      exact_tolerance_match_def same_geometry_def pclock_tolerance_def DIGITAL_INPUT_def
      bt_timings_def)

subsection \<open>Validating the pixel clock\<close>

lemma quiet_read_byte:
  "replies w = [] \<Longrightarrow> adv_smbus_read_byte_data w c cmd =
     (0, w\<lparr>xfers := xfers w @ [SMBUS_READ_BYTE c cmd]\<rparr>)"
  by (simp add: adv_smbus_read_byte_data_def adv_smbus_read_byte_data_check_def
      i2c_smbus_xfer_def)

lemmas bus_eval = accessor_defs ok_read_byte ok_write_byte quiet_read_byte quiet_write_byte
  cp_read16_def hdmi_read16_def io_write_and_or_def cp_write_and_or_def rep_write_and_or_def
  and_or_def

lemmas signal_defs = no_signal_def no_power_def no_lock_stdi_def no_lock_sspd_def
  no_lock_tmds_def no_signal_tmds_def no_lock_stdi_or_sspd_def adv7604_has_afe_def
  DIGITAL_INPUT_def

lemma s_dv_timings_result:
  "fst (adv7604_s_dv_timings k state w (Some tmg)) =
     (if pixelclock_out_of_range state (bt tmg) then - ERANGE else 0)"
  by (simp add: adv7604_s_dv_timings_def Let_def split: prod.split)

lemma found_result:
  "query_dv_timings_found state w tmg =
     (if fst (no_signal state w)
      then Some (- ENOLINK, Some zero_timings, state, snd (no_signal state w))
      else Some (if pixelclock_out_of_range state (bt tmg) then - ERANGE else 0, Some tmg, state,
                 snd (no_signal state w)))"
  by (simp add: query_dv_timings_found_def split: prod.split)

lemma no_signal_restart:
  "no_signal (state\<lparr>restart_stdi_once := b\<rparr>) w = no_signal state w"
proof -
  have t: "no_lock_tmds (state\<lparr>restart_stdi_once := b\<rparr>) = no_lock_tmds state"
    by (simp add: no_lock_tmds_def fun_eq_iff)
  have s: "no_lock_sspd (state\<lparr>restart_stdi_once := b\<rparr>) = no_lock_sspd state"
    by (simp add: no_lock_sspd_def adv7604_has_afe_def fun_eq_iff)
  have d: "DIGITAL_INPUT (state\<lparr>restart_stdi_once := b\<rparr>) = DIGITAL_INPUT state"
    by (simp add: DIGITAL_INPUT_def)
  show ?thesis unfolding no_signal_def t s d ..
qed

lemma found_at:
  "no_signal state w = (False, w') \<Longrightarrow>
   query_dv_timings_found state w tmg =
     Some (if (if mode state = ADV7604_MODE_HDMI then 225000000 else 170000000)
                < pixelclock (bt tmg) then - ERANGE else 0, Some tmg, state, w')"
  by (simp add: query_dv_timings_found_def pixelclock_out_of_range_def DIGITAL_INPUT_def)

lemma found_classes:
  "query_dv_timings_found state w tmg = Some (r, Some t, state', w') \<Longrightarrow>
   (r = 0 \<or> r = - ERANGE \<or> r = - ENOLINK) \<and>
   (r = 0 \<longrightarrow> pixelclock (bt t) \<le> (if mode state = ADV7604_MODE_HDMI then 225000000 else 170000000)) \<and>
   (r = - ERANGE \<longrightarrow>
      (if mode state = ADV7604_MODE_HDMI then 225000000 else 170000000) < pixelclock (bt t))"
  by (auto simp: found_result pixelclock_out_of_range_def DIGITAL_INPUT_def ERANGE_def
      ENOLINK_def split: if_splits)

lemma query_classes:
  assumes "adv7604_query_dv_timings k state w (Some t0) = Some (r, Some t, state', w')"
  shows "(r = 0 \<or> r = - ERANGE \<or> r = - ENOLINK) \<and>
   (r = 0 \<longrightarrow> pixelclock (bt t) \<le> (if mode state = ADV7604_MODE_HDMI then 225000000 else 170000000)) \<and>
   (r = - ERANGE \<longrightarrow>
      (if mode state = ADV7604_MODE_HDMI then 225000000 else 170000000) < pixelclock (bt t)
      \<or> (mode state \<noteq> ADV7604_MODE_HDMI \<and> \<not> restart_stdi_once state))"
proof -
  have "(\<exists>s wf tf. mode s = mode state \<and>
            query_dv_timings_found s wf tf = Some (r, Some t, state', w'))
        \<or> r = - ENOLINK
        \<or> (r = - ERANGE \<and> mode state \<noteq> ADV7604_MODE_HDMI \<and> \<not> restart_stdi_once state)"
    using assms
    by (auto simp: adv7604_query_dv_timings_def Let_def DIGITAL_INPUT_def
        split: prod.splits option.splits if_splits)
  then show ?thesis
    using found_classes by (elim disjE exE conjE) (fastforce simp: ERANGE_def ENOLINK_def)+
qed

lemma query_digital_path:
  assumes "mode state = ADV7604_MODE_HDMI"
    and "no_signal state w = (False, w1)" and "read_stdi state w1 = (Some stdi, w2)"
    and "query_dv_timings_measure state w2
           (zero_timings\<lparr>bt := zero_bt\<lparr>interlaced :=
              (if stdi_interlaced stdi then V4L2_DV_INTERLACED else V4L2_DV_PROGRESSIVE)\<rparr>\<rparr>)
         = (m, w3)"
    and "no_signal state w3 = (False, w4)"
  shows "adv7604_query_dv_timings k state w (Some t0) =
     Some (if 225000000 < pixelclock (bt (adv7604_fill_optional_dv_timings_fields k state m))
           then - ERANGE else 0,
           Some (adv7604_fill_optional_dv_timings_fields k state m), state, w4)"
  using assms found_at [of state w3 w4 "adv7604_fill_optional_dv_timings_fields k state m"]
  by (simp add: adv7604_query_dv_timings_def DIGITAL_INPUT_def Let_def)

lemma query_analog_paths:
  assumes "mode state \<noteq> ADV7604_MODE_HDMI"
    and "no_signal state w = (False, w1)" and "read_stdi state w1 = (Some stdi, w2)"
    and "no_signal state w2 = (False, w3)"
    and "t1 = zero_timings\<lparr>bt := zero_bt\<lparr>interlaced :=
           (if stdi_interlaced stdi then V4L2_DV_INTERLACED else V4L2_DV_PROGRESSIVE)\<rparr>\<rparr>"
  shows "(stdi2dv_timings k state stdi t1 = Some (0, a1) \<longrightarrow>
        adv7604_query_dv_timings k state w (Some t0) =
          Some (if 170000000 < pixelclock (bt a1) then - ERANGE else 0, Some a1, state, w3))"
    and "(stdi2dv_timings k state stdi t1 = Some (r1, a1) \<and> r1 \<noteq> 0 \<and>
         stdi2dv_timings k state (stdi\<lparr>lcvs := (lcvs stdi + 1) mod 65536\<rparr>) a1 = Some (0, a2) \<longrightarrow>
        adv7604_query_dv_timings k state w (Some t0) =
          Some (if 170000000 < pixelclock (bt a2) then - ERANGE else 0, Some a2, state, w3))"
    and "(stdi2dv_timings k state stdi t1 = Some (r1, a1) \<and> r1 \<noteq> 0 \<and>
         stdi2dv_timings k state (stdi\<lparr>lcvs := (lcvs stdi + 1) mod 65536\<rparr>) a1 = Some (r2, a2) \<and>
         r2 \<noteq> 0 \<and>
         stdi2dv_timings k state
           (stdi\<lparr>lcvs := ((lcvs stdi + 1) mod 65536 + 65536 - 2) mod 65536\<rparr>) a2 = Some (0, a3) \<longrightarrow>
        adv7604_query_dv_timings k state w (Some t0) =
          Some (if 170000000 < pixelclock (bt a3) then - ERANGE else 0, Some a3,
                state\<lparr>restart_stdi_once := True\<rparr>, w3))"
proof -
  have f: "query_dv_timings_found state w2 a =
      Some (if 170000000 < pixelclock (bt a) then - ERANGE else 0, Some a, state, w3)" for a
    using found_at [OF assms(4), of a] assms(1) by simp
  have f': "query_dv_timings_found (state\<lparr>restart_stdi_once := True\<rparr>) w2 a =
      Some (if 170000000 < pixelclock (bt a) then - ERANGE else 0, Some a,
            state\<lparr>restart_stdi_once := True\<rparr>, w3)" for a
    using found_at [of "state\<lparr>restart_stdi_once := True\<rparr>" w2 w3 a] assms(1,4)
    by (simp add: no_signal_restart)
  show "(stdi2dv_timings k state stdi t1 = Some (0, a1) \<longrightarrow>
        adv7604_query_dv_timings k state w (Some t0) =
          Some (if 170000000 < pixelclock (bt a1) then - ERANGE else 0, Some a1, state, w3))"
    using assms(1,2,3,5) by (simp add: adv7604_query_dv_timings_def DIGITAL_INPUT_def Let_def f)
  show "(stdi2dv_timings k state stdi t1 = Some (r1, a1) \<and> r1 \<noteq> 0 \<and>
         stdi2dv_timings k state (stdi\<lparr>lcvs := (lcvs stdi + 1) mod 65536\<rparr>) a1 = Some (0, a2) \<longrightarrow>
        adv7604_query_dv_timings k state w (Some t0) =
          Some (if 170000000 < pixelclock (bt a2) then - ERANGE else 0, Some a2, state, w3))"
    using assms(1,2,3,5) by (simp add: adv7604_query_dv_timings_def DIGITAL_INPUT_def Let_def f)
  show "(stdi2dv_timings k state stdi t1 = Some (r1, a1) \<and> r1 \<noteq> 0 \<and>
         stdi2dv_timings k state (stdi\<lparr>lcvs := (lcvs stdi + 1) mod 65536\<rparr>) a1 = Some (r2, a2) \<and>
         r2 \<noteq> 0 \<and>
         stdi2dv_timings k state
           (stdi\<lparr>lcvs := ((lcvs stdi + 1) mod 65536 + 65536 - 2) mod 65536\<rparr>) a2 = Some (0, a3) \<longrightarrow>
        adv7604_query_dv_timings k state w (Some t0) =
          Some (if 170000000 < pixelclock (bt a3) then - ERANGE else 0, Some a3,
                state\<lparr>restart_stdi_once := True\<rparr>, w3))"
    using assms(1,2,3,5) by (simp add: adv7604_query_dv_timings_def DIGITAL_INPUT_def Let_def f')
qed

text \<open>
  Claim C5. \<open>adv7604_s_dv_timings\<close>, given a timing, returns \<open>-ERANGE\<close> when its
  pixel clock is above the limit of the input (170 MHz on an analog input, 225 MHz on the
  HDMI input) and 0 otherwise. Every result of \<open>adv7604_query_dv_timings\<close> is 0,
  \<open>-ERANGE\<close> or \<open>-ENOLINK\<close>; it is 0 only with a timing whose pixel clock is
  within the limit, and it is \<open>-ERANGE\<close> only with a timing whose pixel clock is above
  the limit or, on an analog input whose restart is used up, for a format that was not
  recognised. Whenever a timing is resolved and the signal is still there at the final
  check, the call returns that timing with \<open>-ERANGE\<close> when its pixel clock is above
  the limit and with 0 otherwise: on the HDMI input for the measured timing after the
  enrichment, on an analog input for the timing found at the first, second or third
  attempt of \<open>stdi2dv_timings\<close>. The two error numbers differ.
\<close>

theorem pixelclock_validation:
  "fst (adv7604_s_dv_timings k state w (Some tmg)) =
      (if (if mode state = ADV7604_MODE_HDMI then 225000000 else 170000000)
            < pixelclock (bt tmg) then - ERANGE else 0)
   \<and> (adv7604_query_dv_timings k state w (Some t0) = Some (r, Some t, state', w') \<longrightarrow>
        (r = 0 \<or> r = - ERANGE \<or> r = - ENOLINK) \<and>
        (r = 0 \<longrightarrow> pixelclock (bt t)
           \<le> (if mode state = ADV7604_MODE_HDMI then 225000000 else 170000000)) \<and>
        (r = - ERANGE \<longrightarrow>
           (if mode state = ADV7604_MODE_HDMI then 225000000 else 170000000) < pixelclock (bt t)
           \<or> (mode state \<noteq> ADV7604_MODE_HDMI \<and> \<not> restart_stdi_once state)))
   \<and> (mode state = ADV7604_MODE_HDMI \<and>
        no_signal state w = (False, w1) \<and> read_stdi state w1 = (Some stdi, w2) \<and>
        query_dv_timings_measure state w2
           (zero_timings\<lparr>bt := zero_bt\<lparr>interlaced :=
              (if stdi_interlaced stdi then V4L2_DV_INTERLACED else V4L2_DV_PROGRESSIVE)\<rparr>\<rparr>)
         = (m, w3) \<and>
        no_signal state w3 = (False, w4) \<longrightarrow>
        adv7604_query_dv_timings k state w (Some t0) =
          Some (if 225000000 < pixelclock (bt (adv7604_fill_optional_dv_timings_fields k state m))
                then - ERANGE else 0,
                Some (adv7604_fill_optional_dv_timings_fields k state m), state, w4))
   \<and> (mode state \<noteq> ADV7604_MODE_HDMI \<and>
        no_signal state w = (False, w1) \<and> read_stdi state w1 = (Some stdi, w2) \<and>
        no_signal state w2 = (False, w3) \<and>
        t1 = zero_timings\<lparr>bt := zero_bt\<lparr>interlaced :=
           (if stdi_interlaced stdi then V4L2_DV_INTERLACED else V4L2_DV_PROGRESSIVE)\<rparr>\<rparr> \<longrightarrow>
        (stdi2dv_timings k state stdi t1 = Some (0, a1) \<longrightarrow>
           adv7604_query_dv_timings k state w (Some t0) =
             Some (if 170000000 < pixelclock (bt a1) then - ERANGE else 0, Some a1, state, w3))
        \<and> (stdi2dv_timings k state stdi t1 = Some (r1, a1) \<and> r1 \<noteq> 0 \<and>
            stdi2dv_timings k state (stdi\<lparr>lcvs := (lcvs stdi + 1) mod 65536\<rparr>) a1
              = Some (0, a2) \<longrightarrow>
           adv7604_query_dv_timings k state w (Some t0) =
             Some (if 170000000 < pixelclock (bt a2) then - ERANGE else 0, Some a2, state, w3))
        \<and> (stdi2dv_timings k state stdi t1 = Some (r1, a1) \<and> r1 \<noteq> 0 \<and>
            stdi2dv_timings k state (stdi\<lparr>lcvs := (lcvs stdi + 1) mod 65536\<rparr>) a1
              = Some (r2, a2) \<and> r2 \<noteq> 0 \<and>
            stdi2dv_timings k state
              (stdi\<lparr>lcvs := ((lcvs stdi + 1) mod 65536 + 65536 - 2) mod 65536\<rparr>) a2
              = Some (0, a3) \<longrightarrow>
           adv7604_query_dv_timings k state w (Some t0) =
             Some (if 170000000 < pixelclock (bt a3) then - ERANGE else 0, Some a3,
                   state\<lparr>restart_stdi_once := True\<rparr>, w3)))
   \<and> - ERANGE \<noteq> - ENOLINK"
proof (intro conjI impI)
  show "fst (adv7604_s_dv_timings k state w (Some tmg)) =
      (if (if mode state = ADV7604_MODE_HDMI then 225000000 else 170000000)
            < pixelclock (bt tmg) then - ERANGE else 0)"
    by (simp add: s_dv_timings_result pixelclock_out_of_range_def DIGITAL_INPUT_def)
next
  assume q: "adv7604_query_dv_timings k state w (Some t0) = Some (r, Some t, state', w')"
  from query_classes [OF q]
  show "r = 0 \<or> r = - ERANGE \<or> r = - ENOLINK"
    and "r = 0 \<Longrightarrow> pixelclock (bt t)
           \<le> (if mode state = ADV7604_MODE_HDMI then 225000000 else 170000000)"
    and "r = - ERANGE \<Longrightarrow>
           (if mode state = ADV7604_MODE_HDMI then 225000000 else 170000000) < pixelclock (bt t)
           \<or> (mode state \<noteq> ADV7604_MODE_HDMI \<and> \<not> restart_stdi_once state)"
    by blast+
next
  assume "mode state = ADV7604_MODE_HDMI \<and>
        no_signal state w = (False, w1) \<and> read_stdi state w1 = (Some stdi, w2) \<and>
        query_dv_timings_measure state w2
           (zero_timings\<lparr>bt := zero_bt\<lparr>interlaced :=
              (if stdi_interlaced stdi then V4L2_DV_INTERLACED else V4L2_DV_PROGRESSIVE)\<rparr>\<rparr>)
         = (m, w3) \<and>
        no_signal state w3 = (False, w4)"
  then have p: "mode state = ADV7604_MODE_HDMI" "no_signal state w = (False, w1)"
    "read_stdi state w1 = (Some stdi, w2)"
    "query_dv_timings_measure state w2
           (zero_timings\<lparr>bt := zero_bt\<lparr>interlaced :=
              (if stdi_interlaced stdi then V4L2_DV_INTERLACED else V4L2_DV_PROGRESSIVE)\<rparr>\<rparr>)
         = (m, w3)"
    "no_signal state w3 = (False, w4)"
    by blast+
  show "adv7604_query_dv_timings k state w (Some t0) =
          Some (if 225000000 < pixelclock (bt (adv7604_fill_optional_dv_timings_fields k state m))
                then - ERANGE else 0,
                Some (adv7604_fill_optional_dv_timings_fields k state m), state, w4)"
    by (rule query_digital_path [OF p])
next
  assume a: "mode state \<noteq> ADV7604_MODE_HDMI \<and>
        no_signal state w = (False, w1) \<and> read_stdi state w1 = (Some stdi, w2) \<and>
        no_signal state w2 = (False, w3) \<and>
        t1 = zero_timings\<lparr>bt := zero_bt\<lparr>interlaced :=
           (if stdi_interlaced stdi then V4L2_DV_INTERLACED else V4L2_DV_PROGRESSIVE)\<rparr>\<rparr>"
  then have p: "mode state \<noteq> ADV7604_MODE_HDMI" "no_signal state w = (False, w1)"
    "read_stdi state w1 = (Some stdi, w2)" "no_signal state w2 = (False, w3)"
    "t1 = zero_timings\<lparr>bt := zero_bt\<lparr>interlaced :=
           (if stdi_interlaced stdi then V4L2_DV_INTERLACED else V4L2_DV_PROGRESSIVE)\<rparr>\<rparr>"
    by simp_all
  {
    assume "stdi2dv_timings k state stdi t1 = Some (0, a1)"
    with query_analog_paths(1) [OF p, of k a1 t0]
    show "adv7604_query_dv_timings k state w (Some t0) =
             Some (if 170000000 < pixelclock (bt a1) then - ERANGE else 0, Some a1, state, w3)"
      by blast
  next
    assume "stdi2dv_timings k state stdi t1 = Some (r1, a1) \<and> r1 \<noteq> 0 \<and>
            stdi2dv_timings k state (stdi\<lparr>lcvs := (lcvs stdi + 1) mod 65536\<rparr>) a1
              = Some (0, a2)"
    with query_analog_paths(2) [OF p, of k r1 a1 a2 t0]
    show "adv7604_query_dv_timings k state w (Some t0) =
             Some (if 170000000 < pixelclock (bt a2) then - ERANGE else 0, Some a2, state, w3)"
      by blast
  next
    assume "stdi2dv_timings k state stdi t1 = Some (r1, a1) \<and> r1 \<noteq> 0 \<and>
            stdi2dv_timings k state (stdi\<lparr>lcvs := (lcvs stdi + 1) mod 65536\<rparr>) a1
              = Some (r2, a2) \<and> r2 \<noteq> 0 \<and>
            stdi2dv_timings k state
              (stdi\<lparr>lcvs := ((lcvs stdi + 1) mod 65536 + 65536 - 2) mod 65536\<rparr>) a2
              = Some (0, a3)"
    with query_analog_paths(3) [OF p, of k r1 a1 r2 a2 a3 t0]
    show "adv7604_query_dv_timings k state w (Some t0) =
             Some (if 170000000 < pixelclock (bt a3) then - ERANGE else 0, Some a3,
                   state\<lparr>restart_stdi_once := True\<rparr>, w3)"
      by blast
  }
next
  show "- ERANGE \<noteq> - ENOLINK" by (simp add: ERANGE_def ENOLINK_def)
qed

lemmas query_eval = adv7604_query_dv_timings_def query_dv_timings_found_def read_stdi_def
  read_sspd_pol_def query_dv_timings_measure_def stdi2dv_timings_def restart_stdi_def
  adv7604_fill_optional_dv_timings_fields_def signal_defs bus_eval

lemma kernel32_helpers:
  "v4l2_detect_cvt kernel32 = (\<lambda>h f v p t. (False, t))"
  "v4l2_detect_gtf kernel32 = (\<lambda>h f v p a t. (False, t))"
  "V4L2_DV_BT kernel32 = sample_dv_bt"
  by (simp_all add: kernel32_def)

lemma chip_info_ADV7604_simps:
  "lcf_reg (adv7604_chip_infos k ADV7604) = 0"
  "tdms_lock_mask (adv7604_chip_infos k ADV7604) = 0xe0"
  "read_hdmi_pixelclock (adv7604_chip_infos k ADV7604) = adv7604_read_hdmi_pixelclock"
  by simp_all

lemma scan_zero_tail:
  "height (bt t) = 0 \<Longrightarrow> stdi2dv_scan (replicate n t) stdi hfreq = None"
  by (cases n) simp_all

lemma fill_zero_tail:
  "width (bt t) = 0 \<Longrightarrow> fill_optional_scan k state (replicate n t) tmg = tmg"
  by (cases n) simp_all

text \<open>
  Witness for C5 on the ADV7604. On the HDMI input the registers give a locked signal and
  a 720x480 timing, and the signal is still there at the final check: with a measured
  pixel clock of 225.25 MHz the call returns \<open>-ERANGE\<close>, with 225 MHz it returns 0. On
  the analog input the sample of 720x480p59.94 resolves to 27 MHz and the call returns 0.
  \<open>adv7604_s_dv_timings\<close> on the analog input rejects 171 MHz and accepts 170 MHz.
\<close>

theorem pixelclock_validation_witness:
  "map_option (\<lambda>x. (fst x, map_option (\<lambda>t. pixelclock (bt t)) (fst (snd x))))
     (adv7604_query_dv_timings kernel32
        ((adv7604_probe_state kernel32 ADV7604)\<lparr>mode := ADV7604_MODE_HDMI\<rparr>)
        (quiet_bus\<lparr>replies :=
        [(0, 0x00), (0, 0x9c), (0, 0xf0), (0, 0xf0),
         (0, 0x9c), (0, 0x9c), (0, 0x70), (0, 0x02), (0, 0x0c), (0, 0x30), (0, 0x00),
         (0, 0x00), (0, 0x9c),
         (0, 0x02), (0, 0xd0), (0, 0x01), (0, 0xe0), (0, 0xe1), (0, 0x10), (0, 0), (0, 16),
         (0, 0), (0, 62), (0, 0), (0, 60), (0, 0), (0, 18), (0, 0), (0, 12), (0, 0), (0, 60),
         (0, 0), (0, 0),
         (0, 0x00), (0, 0x9c), (0, 0xf0), (0, 0xf0)]\<rparr>)
        (Some zero_timings)) = Some (- ERANGE, Some 225250000)
   \<and> map_option (\<lambda>x. (fst x, map_option (\<lambda>t. pixelclock (bt t)) (fst (snd x))))
     (adv7604_query_dv_timings kernel32
        ((adv7604_probe_state kernel32 ADV7604)\<lparr>mode := ADV7604_MODE_HDMI\<rparr>)
        (quiet_bus\<lparr>replies :=
        [(0, 0x00), (0, 0x9c), (0, 0xf0), (0, 0xf0),
         (0, 0x9c), (0, 0x9c), (0, 0x70), (0, 0x02), (0, 0x0c), (0, 0x30), (0, 0x00),
         (0, 0x00), (0, 0x9c),
         (0, 0x02), (0, 0xd0), (0, 0x01), (0, 0xe0), (0, 0xe1), (0, 0x00), (0, 0), (0, 16),
         (0, 0), (0, 62), (0, 0), (0, 60), (0, 0), (0, 18), (0, 0), (0, 12), (0, 0), (0, 60),
         (0, 0), (0, 0),
         (0, 0x00), (0, 0x9c), (0, 0xf0), (0, 0xf0)]\<rparr>)
        (Some zero_timings)) = Some (0, Some 225000000)
   \<and> map_option (\<lambda>x. (fst x, map_option (\<lambda>t. pixelclock (bt t)) (fst (snd x))))
     (adv7604_query_dv_timings kernel32
        (adv7604_probe_state kernel32 ADV7604)
        (quiet_bus\<lparr>replies :=
        [(0, 0x00), (0, 0x9c),
         (0, 0x9c), (0, 0x9c), (0, 0x70), (0, 0x02), (0, 0x0c), (0, 0x30), (0, 0x00),
         (0, 0x00), (0, 0x9c),
         (0, 0x00), (0, 0x9c)]\<rparr>)
        (Some zero_timings)) = Some (0, Some 27000000)
   \<and> fst (adv7604_s_dv_timings kernel32 (adv7604_probe_state kernel32 ADV7604) quiet_bus
          (Some (bt_timings 1920 1200 0 171000000 48 32 80 3 6 26 0))) = - ERANGE
   \<and> fst (adv7604_s_dv_timings kernel32 (adv7604_probe_state kernel32 ADV7604) quiet_bus
          (Some (bt_timings 1920 1200 0 170000000 48 32 80 3 6 26 0))) = 0"
proof -
  let ?st = "(adv7604_probe_state kernel32 ADV7604)\<lparr>mode := ADV7604_MODE_HDMI\<rparr>"
  let ?sa = "adv7604_probe_state kernel32 ADV7604"
  let ?t1 = "zero_timings\<lparr>bt := zero_bt\<lparr>interlaced := V4L2_DV_PROGRESSIVE\<rparr>\<rparr>"
  let ?wA = "quiet_bus\<lparr>replies :=
        [(0, 0x00), (0, 0x9c), (0, 0xf0), (0, 0xf0),
         (0, 0x9c), (0, 0x9c), (0, 0x70), (0, 0x02), (0, 0x0c), (0, 0x30), (0, 0x00),
         (0, 0x00), (0, 0x9c),
         (0, 0x02), (0, 0xd0), (0, 0x01), (0, 0xe0), (0, 0xe1), (0, 0x10), (0, 0), (0, 16),
         (0, 0), (0, 62), (0, 0), (0, 60), (0, 0), (0, 18), (0, 0), (0, 12), (0, 0), (0, 60),
         (0, 0), (0, 0),
         (0, 0x00), (0, 0x9c), (0, 0xf0), (0, 0xf0)]\<rparr>"
  let ?wB = "quiet_bus\<lparr>replies :=
        [(0, 0x00), (0, 0x9c), (0, 0xf0), (0, 0xf0),
         (0, 0x9c), (0, 0x9c), (0, 0x70), (0, 0x02), (0, 0x0c), (0, 0x30), (0, 0x00),
         (0, 0x00), (0, 0x9c),
         (0, 0x02), (0, 0xd0), (0, 0x01), (0, 0xe0), (0, 0xe1), (0, 0x00), (0, 0), (0, 16),
         (0, 0), (0, 62), (0, 0), (0, 60), (0, 0), (0, 18), (0, 0), (0, 12), (0, 0), (0, 60),
         (0, 0), (0, 0),
         (0, 0x00), (0, 0x9c), (0, 0xf0), (0, 0xf0)]\<rparr>"
  let ?wC = "quiet_bus\<lparr>replies :=
        [(0, 0x00), (0, 0x9c),
         (0, 0x9c), (0, 0x9c), (0, 0x70), (0, 0x02), (0, 0x0c), (0, 0x30), (0, 0x00),
         (0, 0x00), (0, 0x9c),
         (0, 0x00), (0, 0x9c)]\<rparr>"
  have a: "map_option (\<lambda>x. (fst x, map_option (\<lambda>t. pixelclock (bt t)) (fst (snd x))))
     (adv7604_query_dv_timings kernel32 ?st ?wA (Some zero_timings)) = Some (- ERANGE, Some 225250000)"
    using pixelclock_validation [where k = kernel32 and state = "?st" and w = "?wA"
        and ?w1.0 = "snd (no_signal ?st ?wA)"
        and stdi = "the (fst (read_stdi ?st (snd (no_signal ?st ?wA))))"
        and ?w2.0 = "snd (read_stdi ?st (snd (no_signal ?st ?wA)))"
        and m = "fst (query_dv_timings_measure ?st (snd (read_stdi ?st (snd (no_signal ?st ?wA)))) ?t1)"
        and ?w3.0 = "snd (query_dv_timings_measure ?st (snd (read_stdi ?st (snd (no_signal ?st ?wA))))
              ?t1)"
        and ?w4.0 = "snd (no_signal ?st (snd (query_dv_timings_measure ?st
              (snd (read_stdi ?st (snd (no_signal ?st ?wA)))) ?t1)))",
        THEN conjunct2, THEN conjunct2, THEN conjunct1]
    by (simp add: read_stdi_def read_sspd_pol_def query_dv_timings_measure_def
        adv7604_fill_optional_dv_timings_fields_def signal_defs bus_eval
        probe_state_simps chip_info_ADV7604_simps chip_info_afe
        adv7604_read_hdmi_pixelclock_def quiet_bus_def kernel32_table
        exact_tolerance_match_def same_geometry_def kernel32_matcher pclock_tolerance_def
        bt_timings_def zero_timings_def zero_bt_def Let_def fill_zero_tail
        V4L2_DV_INTERLACED_def V4L2_DV_PROGRESSIVE_def V4L2_DV_BT_656_1120_def
        V4L2_DV_VSYNC_POS_POL_def V4L2_DV_HSYNC_POS_POL_def
        del: adv7604_chip_infos.simps)
  have b: "map_option (\<lambda>x. (fst x, map_option (\<lambda>t. pixelclock (bt t)) (fst (snd x))))
     (adv7604_query_dv_timings kernel32 ?st ?wB (Some zero_timings)) = Some (0, Some 225000000)"
    using pixelclock_validation [where k = kernel32 and state = "?st" and w = "?wB"
        and ?w1.0 = "snd (no_signal ?st ?wB)"
        and stdi = "the (fst (read_stdi ?st (snd (no_signal ?st ?wB))))"
        and ?w2.0 = "snd (read_stdi ?st (snd (no_signal ?st ?wB)))"
        and m = "fst (query_dv_timings_measure ?st (snd (read_stdi ?st (snd (no_signal ?st ?wB)))) ?t1)"
        and ?w3.0 = "snd (query_dv_timings_measure ?st (snd (read_stdi ?st (snd (no_signal ?st ?wB))))
              ?t1)"
        and ?w4.0 = "snd (no_signal ?st (snd (query_dv_timings_measure ?st
              (snd (read_stdi ?st (snd (no_signal ?st ?wB)))) ?t1)))",
        THEN conjunct2, THEN conjunct2, THEN conjunct1]
    by (simp add: read_stdi_def read_sspd_pol_def query_dv_timings_measure_def
        adv7604_fill_optional_dv_timings_fields_def signal_defs bus_eval
        probe_state_simps chip_info_ADV7604_simps chip_info_afe
        adv7604_read_hdmi_pixelclock_def quiet_bus_def kernel32_table
        exact_tolerance_match_def same_geometry_def kernel32_matcher pclock_tolerance_def
        bt_timings_def zero_timings_def zero_bt_def Let_def fill_zero_tail
        V4L2_DV_INTERLACED_def V4L2_DV_PROGRESSIVE_def V4L2_DV_BT_656_1120_def
        V4L2_DV_VSYNC_POS_POL_def V4L2_DV_HSYNC_POS_POL_def
        del: adv7604_chip_infos.simps)
  have c: "map_option (\<lambda>x. (fst x, map_option (\<lambda>t. pixelclock (bt t)) (fst (snd x))))
     (adv7604_query_dv_timings kernel32 ?sa ?wC (Some zero_timings)) = Some (0, Some 27000000)"
    using pixelclock_validation [where k = kernel32 and state = "?sa" and w = "?wC"
        and ?w1.0 = "snd (no_signal ?sa ?wC)"
        and stdi = "the (fst (read_stdi ?sa (snd (no_signal ?sa ?wC))))"
        and ?w2.0 = "snd (read_stdi ?sa (snd (no_signal ?sa ?wC)))"
        and ?w3.0 = "snd (no_signal ?sa (snd (read_stdi ?sa (snd (no_signal ?sa ?wC)))))"
        and ?t1.0 = "?t1" and ?a1.0 = "bt_timings 720 480 0 27000000 16 62 60 9 6 30 1",
        THEN conjunct2, THEN conjunct2, THEN conjunct2, THEN conjunct1, THEN mp, THEN conjunct1]
    by (simp add: read_stdi_def read_sspd_pol_def stdi2dv_timings_def signal_defs bus_eval
        probe_state_simps chip_info_ADV7604_simps chip_info_afe
        quiet_bus_def kernel32_table kernel32_helpers bt_timings_simps
        stdi_entry_matches_def stdi_polarities_def ADV7604_fsc_def
        zero_timings_def zero_bt_def Let_def V4L2_DV_PROGRESSIVE_def scan_zero_tail
        del: adv7604_chip_infos.simps)
  show ?thesis
    using a b c
      pixelclock_validation [where k = kernel32 and state = "?sa" and w = quiet_bus
        and tmg = "bt_timings 1920 1200 0 171000000 48 32 80 3 6 26 0", THEN conjunct1]
      pixelclock_validation [where k = kernel32 and state = "?sa" and w = quiet_bus
        and tmg = "bt_timings 1920 1200 0 170000000 48 32 80 3 6 26 0", THEN conjunct1]
    by (simp add: probe_state_simps bt_timings_simps)
qed

text \<open>
  When the signal goes away during the readout the measurement is discarded: on the HDMI
  input the registers give a 720x480 timing with a pixel clock of 226 MHz, the power-down
  bit is set at the final signal check, and the call returns \<open>-ENOLINK\<close> with the
  timing zeroed.
\<close>

lemma signal_lost_during_readout:
  "map_option (\<lambda>x. (fst x, fst (snd x))) (adv7604_query_dv_timings kernel32
     ((adv7604_probe_state kernel32 ADV7604)\<lparr>mode := ADV7604_MODE_HDMI\<rparr>)
     (quiet_bus\<lparr>replies :=
        [(0, 0x00), (0, 0x9c), (0, 0xf0), (0, 0xf0),
         (0, 0x9c), (0, 0x9c), (0, 0x70), (0, 0x02), (0, 0x0c), (0, 0x30), (0, 0x00),
         (0, 0x00), (0, 0x9c),
         (0, 0x02), (0, 0xd0), (0, 0x01), (0, 0xe0), (0, 0xe2), (0, 0x00), (0, 0), (0, 16),
         (0, 0), (0, 62), (0, 0), (0, 60), (0, 0), (0, 18), (0, 0), (0, 12), (0, 0), (0, 60),
         (0, 0), (0, 0),
         (0, 0x20)]\<rparr>)
     (Some zero_timings)) = Some (- ENOLINK, Some zero_timings)
   \<and> pixelclock (bt (fst (query_dv_timings_measure
       ((adv7604_probe_state kernel32 ADV7604)\<lparr>mode := ADV7604_MODE_HDMI\<rparr>)
       (quiet_bus\<lparr>replies :=
        [(0, 0x02), (0, 0xd0), (0, 0x01), (0, 0xe0), (0, 0xe2), (0, 0x00), (0, 0), (0, 16),
         (0, 0), (0, 62), (0, 0), (0, 60), (0, 0), (0, 18), (0, 0), (0, 12), (0, 0), (0, 60),
         (0, 0), (0, 0),
         (0, 0x20)]\<rparr>) zero_timings))) = 226000000"
  by (simp add: query_eval probe_state_simps chip_info_ADV7604_simps chip_info_afe
      adv7604_read_hdmi_pixelclock_def quiet_bus_def kernel32_table kernel32_helpers
      exact_tolerance_match_def same_geometry_def kernel32_matcher pclock_tolerance_def
      bt_timings_def zero_timings_def zero_bt_def Let_def
      V4L2_DV_INTERLACED_def V4L2_DV_PROGRESSIVE_def V4L2_DV_BT_656_1120_def
      V4L2_DV_VSYNC_POS_POL_def V4L2_DV_HSYNC_POS_POL_def
      del: adv7604_chip_infos.simps)

subsection \<open>The single STDI restart\<close>

text \<open>
  What one call of \<open>adv7604_query_dv_timings\<close> does on an analog input once the
  signal is there and the STDI block was read. \<open>t1\<close> is the zeroed timing with the
  interlaced flag of the sample.
\<close>

lemma query_all_attempts_fail:
  assumes "mode state \<noteq> ADV7604_MODE_HDMI"
    and "no_signal state w = (False, w1)" and "read_stdi state w1 = (Some stdi, w2)"
    and "t1 = zero_timings\<lparr>bt := zero_bt\<lparr>interlaced :=
           (if stdi_interlaced stdi then V4L2_DV_INTERLACED else V4L2_DV_PROGRESSIVE)\<rparr>\<rparr>"
    and "stdi2dv_timings k state stdi t1 = Some (r1, t2)" and "r1 \<noteq> 0"
    and "stdi2dv_timings k state (stdi\<lparr>lcvs := (lcvs stdi + 1) mod 65536\<rparr>) t2 = Some (r2, t3)"
    and "r2 \<noteq> 0"
    and "stdi2dv_timings k state
           (stdi\<lparr>lcvs := ((lcvs stdi + 1) mod 65536 + 65536 - 2) mod 65536\<rparr>) t3 = Some (r3, t4)"
    and "r3 \<noteq> 0"
  shows "adv7604_query_dv_timings k state w (Some t0) =
     (if restart_stdi_once state
      then Some (- ENOLINK, Some t4, state\<lparr>restart_stdi_once := False\<rparr>, restart_stdi w2)
      else Some (- ERANGE, Some t4, state, w2))"
  using assms by (simp add: adv7604_query_dv_timings_def DIGITAL_INPUT_def Let_def)

lemma query_third_attempt_rearms:
  assumes "mode state \<noteq> ADV7604_MODE_HDMI"
    and "no_signal state w = (False, w1)" and "read_stdi state w1 = (Some stdi, w2)"
    and "t1 = zero_timings\<lparr>bt := zero_bt\<lparr>interlaced :=
           (if stdi_interlaced stdi then V4L2_DV_INTERLACED else V4L2_DV_PROGRESSIVE)\<rparr>\<rparr>"
    and "stdi2dv_timings k state stdi t1 = Some (r1, t2)" and "r1 \<noteq> 0"
    and "stdi2dv_timings k state (stdi\<lparr>lcvs := (lcvs stdi + 1) mod 65536\<rparr>) t2 = Some (r2, t3)"
    and "r2 \<noteq> 0"
    and "stdi2dv_timings k state
           (stdi\<lparr>lcvs := ((lcvs stdi + 1) mod 65536 + 65536 - 2) mod 65536\<rparr>) t3 = Some (0, t4)"
  shows "adv7604_query_dv_timings k state w (Some t0) =
     query_dv_timings_found (state\<lparr>restart_stdi_once := True\<rparr>) w2 t4"
  using assms by (simp add: adv7604_query_dv_timings_def DIGITAL_INPUT_def Let_def)

lemma query_first_attempt_keeps_flag:
  assumes "mode state \<noteq> ADV7604_MODE_HDMI"
    and "no_signal state w = (False, w1)" and "read_stdi state w1 = (Some stdi, w2)"
    and "t1 = zero_timings\<lparr>bt := zero_bt\<lparr>interlaced :=
           (if stdi_interlaced stdi then V4L2_DV_INTERLACED else V4L2_DV_PROGRESSIVE)\<rparr>\<rparr>"
    and "stdi2dv_timings k state stdi t1 = Some (0, t2)"
  shows "adv7604_query_dv_timings k state w (Some t0) = query_dv_timings_found state w2 t2"
  using assms by (simp add: adv7604_query_dv_timings_def DIGITAL_INPUT_def Let_def)

lemma query_second_attempt_keeps_flag:
  assumes "mode state \<noteq> ADV7604_MODE_HDMI"
    and "no_signal state w = (False, w1)" and "read_stdi state w1 = (Some stdi, w2)"
    and "t1 = zero_timings\<lparr>bt := zero_bt\<lparr>interlaced :=
           (if stdi_interlaced stdi then V4L2_DV_INTERLACED else V4L2_DV_PROGRESSIVE)\<rparr>\<rparr>"
    and "stdi2dv_timings k state stdi t1 = Some (r1, t2)" and "r1 \<noteq> 0"
    and "stdi2dv_timings k state (stdi\<lparr>lcvs := (lcvs stdi + 1) mod 65536\<rparr>) t2 = Some (0, t3)"
  shows "adv7604_query_dv_timings k state w (Some t0) = query_dv_timings_found state w2 t3"
  using assms by (simp add: adv7604_query_dv_timings_def DIGITAL_INPUT_def Let_def)

lemma found_keeps_state:
  "query_dv_timings_found state w tmg = Some (r, t, state', w') \<Longrightarrow> state' = state"
  by (auto simp: found_result split: if_splits)

text \<open>
  The restart sequence on a bus whose next six transfers succeed: three
  read-modify-writes of CP register 0x86 that keep the bits outside \<open>0x06\<close> and set
  these to one-shot (0), restart (4) and continuous (2).
\<close>

lemma restart_stdi_xfers:
  assumes "replies w = (0, a) # (0, b) # (0, c) # (0, d) # (0, e) # (0, f) # rs"
  shows "restart_stdi w = w\<lparr>replies := rs, xfers := xfers w @
     [SMBUS_READ_BYTE I2C_CP 0x86, SMBUS_WRITE_BYTE I2C_CP 0x86 (and_or (uint a) 0xf9 0x00),
      SMBUS_READ_BYTE I2C_CP 0x86, SMBUS_WRITE_BYTE I2C_CP 0x86 (and_or (uint c) 0xf9 0x04),
      SMBUS_READ_BYTE I2C_CP 0x86, SMBUS_WRITE_BYTE I2C_CP 0x86 (and_or (uint e) 0xf9 0x02)]\<rparr>"
  using assms
  by (simp add: restart_stdi_def cp_write_and_or_def cp_read_def cp_write_def ok_read_byte
      ok_write_byte Let_def)

text \<open>
  Claim C1 at a sequence of three calls on the analog input of the ADV7604, starting from
  the state after \<open>adv7604_probe\<close>. In the first call the STDI block reports 769 lines,
  which no table entry has, and CVT and GTF find nothing: the call makes the restart
  sequence and returns \<open>-ENOLINK\<close>, and the flag \<open>restart_stdi_once\<close> is false
  afterwards. In the second call the registers give the sample of 720x480p59.94, which
  the table matches at the first attempt: the call returns 0 with that timing, and the
  flag is still false. In the third call the first sample comes again. It is the first
  failing call after a successful resolution, yet it makes no restart and returns
  \<open>-ERANGE\<close>: the bus log holds the eleven reads of the readout and nothing else.
\<close>

theorem restart_not_rearmed_by_first_attempt:
  "adv7604_query_dv_timings kernel32 (adv7604_probe_state kernel32 ADV7604)
     (quiet_bus\<lparr>replies :=
        [(0, 0x00), (0, 0x9c), (0, 0x9c), (0, 0x9c), (0, 0x70), (0, 0x03), (0, 0x00), (0, 0x30), (0, 0x00), (0, 0x00), (0, 0x9c)] @
        [(0, 0xff), (0, 0x00), (0, 0xff), (0, 0x00), (0, 0xff), (0, 0x00)]\<rparr>)
     (Some zero_timings)
   = Some (- ENOLINK, Some (zero_timings\<lparr>bt := zero_bt\<lparr>interlaced := V4L2_DV_PROGRESSIVE\<rparr>\<rparr>),
       (adv7604_probe_state kernel32 ADV7604)\<lparr>restart_stdi_once := False\<rparr>,
       quiet_bus\<lparr>replies := [], xfers :=
         [SMBUS_READ_BYTE I2C_IO 0x0c, SMBUS_READ_BYTE I2C_CP 0xb1,
          SMBUS_READ_BYTE I2C_CP 0xb1, SMBUS_READ_BYTE I2C_CP 0xb1,
          SMBUS_READ_BYTE I2C_CP 0xb2, SMBUS_READ_BYTE I2C_CP 0x00,
          SMBUS_READ_BYTE I2C_CP 0x01, SMBUS_READ_BYTE I2C_CP 0xb3,
          SMBUS_READ_BYTE I2C_IO 0x12, SMBUS_READ_BYTE I2C_CP 0xb5,
          SMBUS_READ_BYTE I2C_CP 0xb1] @
         [SMBUS_READ_BYTE I2C_CP 0x86, SMBUS_WRITE_BYTE I2C_CP 0x86 0xf9,
          SMBUS_READ_BYTE I2C_CP 0x86, SMBUS_WRITE_BYTE I2C_CP 0x86 0xfd,
          SMBUS_READ_BYTE I2C_CP 0x86, SMBUS_WRITE_BYTE I2C_CP 0x86 0xfb]\<rparr>)
   \<and> adv7604_query_dv_timings kernel32
     ((adv7604_probe_state kernel32 ADV7604)\<lparr>restart_stdi_once := False\<rparr>)
     (quiet_bus\<lparr>replies :=
        [(0, 0x00), (0, 0x9c), (0, 0x9c), (0, 0x9c), (0, 0x70), (0, 0x02), (0, 0x0c), (0, 0x30), (0, 0x00), (0, 0x00), (0, 0x9c), (0, 0x00), (0, 0x9c)]\<rparr>)
     (Some zero_timings)
   = Some (0, Some (bt_timings 720 480 0 27000000 16 62 60 9 6 30 1),
       (adv7604_probe_state kernel32 ADV7604)\<lparr>restart_stdi_once := False\<rparr>,
       quiet_bus\<lparr>replies := [], xfers :=
         [SMBUS_READ_BYTE I2C_IO 0x0c, SMBUS_READ_BYTE I2C_CP 0xb1,
          SMBUS_READ_BYTE I2C_CP 0xb1, SMBUS_READ_BYTE I2C_CP 0xb1,
          SMBUS_READ_BYTE I2C_CP 0xb2, SMBUS_READ_BYTE I2C_CP 0x00,
          SMBUS_READ_BYTE I2C_CP 0x01, SMBUS_READ_BYTE I2C_CP 0xb3,
          SMBUS_READ_BYTE I2C_IO 0x12, SMBUS_READ_BYTE I2C_CP 0xb5,
          SMBUS_READ_BYTE I2C_CP 0xb1, SMBUS_READ_BYTE I2C_IO 0x0c,
          SMBUS_READ_BYTE I2C_CP 0xb1]\<rparr>)
   \<and> adv7604_query_dv_timings kernel32
     ((adv7604_probe_state kernel32 ADV7604)\<lparr>restart_stdi_once := False\<rparr>)
     (quiet_bus\<lparr>replies :=
        [(0, 0x00), (0, 0x9c), (0, 0x9c), (0, 0x9c), (0, 0x70), (0, 0x03), (0, 0x00), (0, 0x30), (0, 0x00), (0, 0x00), (0, 0x9c)]\<rparr>)
     (Some zero_timings)
   = Some (- ERANGE, Some (zero_timings\<lparr>bt := zero_bt\<lparr>interlaced := V4L2_DV_PROGRESSIVE\<rparr>\<rparr>),
       (adv7604_probe_state kernel32 ADV7604)\<lparr>restart_stdi_once := False\<rparr>,
       quiet_bus\<lparr>replies := [], xfers :=
         [SMBUS_READ_BYTE I2C_IO 0x0c, SMBUS_READ_BYTE I2C_CP 0xb1,
          SMBUS_READ_BYTE I2C_CP 0xb1, SMBUS_READ_BYTE I2C_CP 0xb1,
          SMBUS_READ_BYTE I2C_CP 0xb2, SMBUS_READ_BYTE I2C_CP 0x00,
          SMBUS_READ_BYTE I2C_CP 0x01, SMBUS_READ_BYTE I2C_CP 0xb3,
          SMBUS_READ_BYTE I2C_IO 0x12, SMBUS_READ_BYTE I2C_CP 0xb5,
          SMBUS_READ_BYTE I2C_CP 0xb1]\<rparr>)"
  by (simp add: query_eval probe_state_simps chip_info_ADV7604_simps chip_info_afe
      quiet_bus_def kernel32_table kernel32_helpers bt_timings_simps
      stdi_entry_matches_def stdi_polarities_def ADV7604_fsc_def
      pixelclock_out_of_range_def zero_timings_def zero_bt_def Let_def
      V4L2_DV_PROGRESSIVE_def scan_zero_tail
      del: adv7604_chip_infos.simps)

end
